theory Spec2Isabelle
  imports Main "HOL-Library.Code_Target_Nat"
begin

section \<open>Python values\<close>

text \<open>
  The program is a Python terminal application (\<^verbatim>\<open>src/config.py\<close>,
  \<^verbatim>\<open>src/aws_client.py\<close>, \<^verbatim>\<open>src/instances_cli.py\<close>, \<^verbatim>\<open>src/main.py\<close>).
\<close>

subsection \<open>Strings\<close>

text \<open>
  A Python string is a sequence of Unicode code points. A literal of the program is
  written \<open>lit ''...''\<close>: the code points of its characters.
\<close>

type_synonym codepoint = nat

type_synonym str = "codepoint list"

definition lit :: "string \<Rightarrow> str" where
  "lit s = map of_char s"

text \<open>
  The character properties below are those of the Unicode database of the interpreter
  (CPython 3.11, Unicode 14.0.0), as tables of inclusive ranges of code points.
\<close>

definition in_ranges :: "(codepoint \<times> codepoint) list \<Rightarrow> codepoint \<Rightarrow> bool" where
  "in_ranges rs c = list_ex (\<lambda>(lo, hi). lo \<le> c \<and> c \<le> hi) rs"

text \<open>
  \<^verbatim>\<open>str.strip()\<close> without argument removes the characters for which
  \<^verbatim>\<open>str.isspace()\<close> holds (\<^verbatim>\<open>_PyUnicode_IsWhitespace\<close>) from both ends.
\<close>

definition is_space :: "codepoint \<Rightarrow> bool" where
  "is_space c =
     in_ranges
       [(0x9, 0xD), (0x1C, 0x20), (0x85, 0x85), (0xA0, 0xA0), (0x1680, 0x1680), (0x2000, 0x200A),
        (0x2028, 0x2029), (0x202F, 0x202F), (0x205F, 0x205F), (0x3000, 0x3000)]
       c"

definition strip :: "str \<Rightarrow> str" where
  "strip s = rev (dropWhile is_space (rev (dropWhile is_space s)))"

text \<open>
  \<^verbatim>\<open>str.lower()\<close> replaces every character by its full lower-case mapping
  (\<^verbatim>\<open>_PyUnicode_ToLowerFull\<close>). In the table an entry \<open>(lo, hi, stride, to)\<close> maps
  the code points \<open>lo\<close>, \<open>lo + stride\<close>, ... up to \<open>hi\<close> to \<open>to\<close>,
  \<open>to + stride\<close>, ...; the capital I with dot above is the one character whose
  mapping has two code points; every other character is its own mapping.
\<close>

definition lower_table :: "(codepoint \<times> codepoint \<times> nat \<times> codepoint) list" where
  "lower_table =
     [(0x41, 0x5A, 1, 0x61), (0xC0, 0xD6, 1, 0xE0), (0xD8, 0xDE, 1, 0xF8),
      (0x100, 0x12E, 2, 0x101), (0x132, 0x136, 2, 0x133), (0x139, 0x147, 2, 0x13A),
      (0x14A, 0x176, 2, 0x14B), (0x178, 0x178, 1, 0xFF), (0x179, 0x17D, 2, 0x17A),
      (0x181, 0x181, 1, 0x253), (0x182, 0x184, 2, 0x183), (0x186, 0x186, 1, 0x254),
      (0x187, 0x187, 1, 0x188), (0x189, 0x18A, 1, 0x256), (0x18B, 0x18B, 1, 0x18C),
      (0x18E, 0x18E, 1, 0x1DD), (0x18F, 0x18F, 1, 0x259), (0x190, 0x190, 1, 0x25B),
      (0x191, 0x191, 1, 0x192), (0x193, 0x193, 1, 0x260), (0x194, 0x194, 1, 0x263),
      (0x196, 0x196, 1, 0x269), (0x197, 0x197, 1, 0x268), (0x198, 0x198, 1, 0x199),
      (0x19C, 0x19C, 1, 0x26F), (0x19D, 0x19D, 1, 0x272), (0x19F, 0x19F, 1, 0x275),
      (0x1A0, 0x1A4, 2, 0x1A1), (0x1A6, 0x1A6, 1, 0x280), (0x1A7, 0x1A7, 1, 0x1A8),
      (0x1A9, 0x1A9, 1, 0x283), (0x1AC, 0x1AC, 1, 0x1AD), (0x1AE, 0x1AE, 1, 0x288),
      (0x1AF, 0x1AF, 1, 0x1B0), (0x1B1, 0x1B2, 1, 0x28A), (0x1B3, 0x1B5, 2, 0x1B4),
      (0x1B7, 0x1B7, 1, 0x292), (0x1B8, 0x1B8, 1, 0x1B9), (0x1BC, 0x1BC, 1, 0x1BD),
      (0x1C4, 0x1C4, 1, 0x1C6), (0x1C5, 0x1C5, 1, 0x1C6), (0x1C7, 0x1C7, 1, 0x1C9),
      (0x1C8, 0x1C8, 1, 0x1C9), (0x1CA, 0x1CA, 1, 0x1CC), (0x1CB, 0x1DB, 2, 0x1CC),
      (0x1DE, 0x1EE, 2, 0x1DF), (0x1F1, 0x1F1, 1, 0x1F3), (0x1F2, 0x1F4, 2, 0x1F3),
      (0x1F6, 0x1F6, 1, 0x195), (0x1F7, 0x1F7, 1, 0x1BF), (0x1F8, 0x21E, 2, 0x1F9),
      (0x220, 0x220, 1, 0x19E), (0x222, 0x232, 2, 0x223), (0x23A, 0x23A, 1, 0x2C65),
      (0x23B, 0x23B, 1, 0x23C), (0x23D, 0x23D, 1, 0x19A), (0x23E, 0x23E, 1, 0x2C66),
      (0x241, 0x241, 1, 0x242), (0x243, 0x243, 1, 0x180), (0x244, 0x244, 1, 0x289),
      (0x245, 0x245, 1, 0x28C), (0x246, 0x24E, 2, 0x247), (0x370, 0x372, 2, 0x371),
      (0x376, 0x376, 1, 0x377), (0x37F, 0x37F, 1, 0x3F3), (0x386, 0x386, 1, 0x3AC),
      (0x388, 0x38A, 1, 0x3AD), (0x38C, 0x38C, 1, 0x3CC), (0x38E, 0x38F, 1, 0x3CD),
      (0x391, 0x3A1, 1, 0x3B1), (0x3A3, 0x3AB, 1, 0x3C3), (0x3CF, 0x3CF, 1, 0x3D7),
      (0x3D8, 0x3EE, 2, 0x3D9), (0x3F4, 0x3F4, 1, 0x3B8), (0x3F7, 0x3F7, 1, 0x3F8),
      (0x3F9, 0x3F9, 1, 0x3F2), (0x3FA, 0x3FA, 1, 0x3FB), (0x3FD, 0x3FF, 1, 0x37B),
      (0x400, 0x40F, 1, 0x450), (0x410, 0x42F, 1, 0x430), (0x460, 0x480, 2, 0x461),
      (0x48A, 0x4BE, 2, 0x48B), (0x4C0, 0x4C0, 1, 0x4CF), (0x4C1, 0x4CD, 2, 0x4C2),
      (0x4D0, 0x52E, 2, 0x4D1), (0x531, 0x556, 1, 0x561), (0x10A0, 0x10C5, 1, 0x2D00),
      (0x10C7, 0x10C7, 1, 0x2D27), (0x10CD, 0x10CD, 1, 0x2D2D), (0x13A0, 0x13EF, 1, 0xAB70),
      (0x13F0, 0x13F5, 1, 0x13F8), (0x1C90, 0x1CBA, 1, 0x10D0), (0x1CBD, 0x1CBF, 1, 0x10FD),
      (0x1E00, 0x1E94, 2, 0x1E01), (0x1E9E, 0x1E9E, 1, 0xDF), (0x1EA0, 0x1EFE, 2, 0x1EA1),
      (0x1F08, 0x1F0F, 1, 0x1F00), (0x1F18, 0x1F1D, 1, 0x1F10), (0x1F28, 0x1F2F, 1, 0x1F20),
      (0x1F38, 0x1F3F, 1, 0x1F30), (0x1F48, 0x1F4D, 1, 0x1F40), (0x1F59, 0x1F5F, 2, 0x1F51),
      (0x1F68, 0x1F6F, 1, 0x1F60), (0x1F88, 0x1F8F, 1, 0x1F80), (0x1F98, 0x1F9F, 1, 0x1F90),
      (0x1FA8, 0x1FAF, 1, 0x1FA0), (0x1FB8, 0x1FB9, 1, 0x1FB0), (0x1FBA, 0x1FBB, 1, 0x1F70),
      (0x1FBC, 0x1FBC, 1, 0x1FB3), (0x1FC8, 0x1FCB, 1, 0x1F72), (0x1FCC, 0x1FCC, 1, 0x1FC3),
      (0x1FD8, 0x1FD9, 1, 0x1FD0), (0x1FDA, 0x1FDB, 1, 0x1F76), (0x1FE8, 0x1FE9, 1, 0x1FE0),
      (0x1FEA, 0x1FEB, 1, 0x1F7A), (0x1FEC, 0x1FEC, 1, 0x1FE5), (0x1FF8, 0x1FF9, 1, 0x1F78),
      (0x1FFA, 0x1FFB, 1, 0x1F7C), (0x1FFC, 0x1FFC, 1, 0x1FF3), (0x2126, 0x2126, 1, 0x3C9),
      (0x212A, 0x212A, 1, 0x6B), (0x212B, 0x212B, 1, 0xE5), (0x2132, 0x2132, 1, 0x214E),
      (0x2160, 0x216F, 1, 0x2170), (0x2183, 0x2183, 1, 0x2184), (0x24B6, 0x24CF, 1, 0x24D0),
      (0x2C00, 0x2C2F, 1, 0x2C30), (0x2C60, 0x2C60, 1, 0x2C61), (0x2C62, 0x2C62, 1, 0x26B),
      (0x2C63, 0x2C63, 1, 0x1D7D), (0x2C64, 0x2C64, 1, 0x27D), (0x2C67, 0x2C6B, 2, 0x2C68),
      (0x2C6D, 0x2C6D, 1, 0x251), (0x2C6E, 0x2C6E, 1, 0x271), (0x2C6F, 0x2C6F, 1, 0x250),
      (0x2C70, 0x2C70, 1, 0x252), (0x2C72, 0x2C72, 1, 0x2C73), (0x2C75, 0x2C75, 1, 0x2C76),
      (0x2C7E, 0x2C7F, 1, 0x23F), (0x2C80, 0x2CE2, 2, 0x2C81), (0x2CEB, 0x2CED, 2, 0x2CEC),
      (0x2CF2, 0x2CF2, 1, 0x2CF3), (0xA640, 0xA66C, 2, 0xA641), (0xA680, 0xA69A, 2, 0xA681),
      (0xA722, 0xA72E, 2, 0xA723), (0xA732, 0xA76E, 2, 0xA733), (0xA779, 0xA77B, 2, 0xA77A),
      (0xA77D, 0xA77D, 1, 0x1D79), (0xA77E, 0xA786, 2, 0xA77F), (0xA78B, 0xA78B, 1, 0xA78C),
      (0xA78D, 0xA78D, 1, 0x265), (0xA790, 0xA792, 2, 0xA791), (0xA796, 0xA7A8, 2, 0xA797),
      (0xA7AA, 0xA7AA, 1, 0x266), (0xA7AB, 0xA7AB, 1, 0x25C), (0xA7AC, 0xA7AC, 1, 0x261),
      (0xA7AD, 0xA7AD, 1, 0x26C), (0xA7AE, 0xA7AE, 1, 0x26A), (0xA7B0, 0xA7B0, 1, 0x29E),
      (0xA7B1, 0xA7B1, 1, 0x287), (0xA7B2, 0xA7B2, 1, 0x29D), (0xA7B3, 0xA7B3, 1, 0xAB53),
      (0xA7B4, 0xA7C2, 2, 0xA7B5), (0xA7C4, 0xA7C4, 1, 0xA794), (0xA7C5, 0xA7C5, 1, 0x282),
      (0xA7C6, 0xA7C6, 1, 0x1D8E), (0xA7C7, 0xA7C9, 2, 0xA7C8), (0xA7D0, 0xA7D0, 1, 0xA7D1),
      (0xA7D6, 0xA7D8, 2, 0xA7D7), (0xA7F5, 0xA7F5, 1, 0xA7F6), (0xFF21, 0xFF3A, 1, 0xFF41),
      (0x10400, 0x10427, 1, 0x10428), (0x104B0, 0x104D3, 1, 0x104D8),
      (0x10570, 0x10594, 2, 0x10597), (0x10571, 0x10579, 2, 0x10598),
      (0x1057D, 0x10589, 2, 0x105A4), (0x1058D, 0x10591, 2, 0x105B4),
      (0x10595, 0x10595, 1, 0x105BC), (0x10C80, 0x10CB2, 1, 0x10CC0),
      (0x118A0, 0x118BF, 1, 0x118C0), (0x16E40, 0x16E5F, 1, 0x16E60),
      (0x1E900, 0x1E921, 1, 0x1E922)]"

definition to_lower_full :: "codepoint \<Rightarrow> str" where
  "to_lower_full c =
     (if c = 0x130 then [0x69, 0x307]
      else
        (case find (\<lambda>(lo, hi, stride, to). lo \<le> c \<and> c \<le> hi \<and> (c - lo) mod stride = 0)
                lower_table of
           Some (lo, hi, stride, to) \<Rightarrow> [to + (c - lo)]
         | None \<Rightarrow> [c]))"

text \<open>
  The capital sigma is the exception (\<^verbatim>\<open>handle_capital_sigma\<close>): it becomes the final
  small sigma when, passing over case-ignorable characters, a cased character precedes
  it and no cased character follows it, and the small sigma otherwise. The context is
  read from the string as it was before the conversion. \<open>is_cased\<close> is the property
  \<^verbatim>\<open>Cased\<close> (an upper-case, lower-case or title-case character) and
  \<open>is_case_ignorable\<close> the property \<^verbatim>\<open>Case_Ignorable\<close>.
\<close>

definition is_cased :: "codepoint \<Rightarrow> bool" where
  "is_cased c =
     in_ranges
       [(0x41, 0x5A), (0x61, 0x7A), (0xAA, 0xAA), (0xB5, 0xB5), (0xBA, 0xBA), (0xC0, 0xD6),
        (0xD8, 0xF6), (0xF8, 0x1BA), (0x1BC, 0x1BF), (0x1C4, 0x293), (0x295, 0x2B8),
        (0x2C0, 0x2C1), (0x2E0, 0x2E4), (0x345, 0x345), (0x370, 0x373), (0x376, 0x377),
        (0x37A, 0x37D), (0x37F, 0x37F), (0x386, 0x386), (0x388, 0x38A), (0x38C, 0x38C),
        (0x38E, 0x3A1), (0x3A3, 0x3F5), (0x3F7, 0x481), (0x48A, 0x52F), (0x531, 0x556),
        (0x560, 0x588), (0x10A0, 0x10C5), (0x10C7, 0x10C7), (0x10CD, 0x10CD), (0x10D0, 0x10FA),
        (0x10FD, 0x10FF), (0x13A0, 0x13F5), (0x13F8, 0x13FD), (0x1C80, 0x1C88), (0x1C90, 0x1CBA),
        (0x1CBD, 0x1CBF), (0x1D00, 0x1DBF), (0x1E00, 0x1F15), (0x1F18, 0x1F1D), (0x1F20, 0x1F45),
        (0x1F48, 0x1F4D), (0x1F50, 0x1F57), (0x1F59, 0x1F59), (0x1F5B, 0x1F5B), (0x1F5D, 0x1F5D),
        (0x1F5F, 0x1F7D), (0x1F80, 0x1FB4), (0x1FB6, 0x1FBC), (0x1FBE, 0x1FBE), (0x1FC2, 0x1FC4),
        (0x1FC6, 0x1FCC), (0x1FD0, 0x1FD3), (0x1FD6, 0x1FDB), (0x1FE0, 0x1FEC), (0x1FF2, 0x1FF4),
        (0x1FF6, 0x1FFC), (0x2071, 0x2071), (0x207F, 0x207F), (0x2090, 0x209C), (0x2102, 0x2102),
        (0x2107, 0x2107), (0x210A, 0x2113), (0x2115, 0x2115), (0x2119, 0x211D), (0x2124, 0x2124),
        (0x2126, 0x2126), (0x2128, 0x2128), (0x212A, 0x212D), (0x212F, 0x2134), (0x2139, 0x2139),
        (0x213C, 0x213F), (0x2145, 0x2149), (0x214E, 0x214E), (0x2160, 0x217F), (0x2183, 0x2184),
        (0x24B6, 0x24E9), (0x2C00, 0x2CE4), (0x2CEB, 0x2CEE), (0x2CF2, 0x2CF3), (0x2D00, 0x2D25),
        (0x2D27, 0x2D27), (0x2D2D, 0x2D2D), (0xA640, 0xA66D), (0xA680, 0xA69D), (0xA722, 0xA787),
        (0xA78B, 0xA78E), (0xA790, 0xA7CA), (0xA7D0, 0xA7D1), (0xA7D3, 0xA7D3), (0xA7D5, 0xA7D9),
        (0xA7F5, 0xA7F6), (0xA7F8, 0xA7FA), (0xAB30, 0xAB5A), (0xAB5C, 0xAB68), (0xAB70, 0xABBF),
        (0xFB00, 0xFB06), (0xFB13, 0xFB17), (0xFF21, 0xFF3A), (0xFF41, 0xFF5A),
        (0x10400, 0x1044F), (0x104B0, 0x104D3), (0x104D8, 0x104FB), (0x10570, 0x1057A),
        (0x1057C, 0x1058A), (0x1058C, 0x10592), (0x10594, 0x10595), (0x10597, 0x105A1),
        (0x105A3, 0x105B1), (0x105B3, 0x105B9), (0x105BB, 0x105BC), (0x10780, 0x10780),
        (0x10783, 0x10785), (0x10787, 0x107B0), (0x107B2, 0x107BA), (0x10C80, 0x10CB2),
        (0x10CC0, 0x10CF2), (0x118A0, 0x118DF), (0x16E40, 0x16E7F), (0x1D400, 0x1D454),
        (0x1D456, 0x1D49C), (0x1D49E, 0x1D49F), (0x1D4A2, 0x1D4A2), (0x1D4A5, 0x1D4A6),
        (0x1D4A9, 0x1D4AC), (0x1D4AE, 0x1D4B9), (0x1D4BB, 0x1D4BB), (0x1D4BD, 0x1D4C3),
        (0x1D4C5, 0x1D505), (0x1D507, 0x1D50A), (0x1D50D, 0x1D514), (0x1D516, 0x1D51C),
        (0x1D51E, 0x1D539), (0x1D53B, 0x1D53E), (0x1D540, 0x1D544), (0x1D546, 0x1D546),
        (0x1D54A, 0x1D550), (0x1D552, 0x1D6A5), (0x1D6A8, 0x1D6C0), (0x1D6C2, 0x1D6DA),
        (0x1D6DC, 0x1D6FA), (0x1D6FC, 0x1D714), (0x1D716, 0x1D734), (0x1D736, 0x1D74E),
        (0x1D750, 0x1D76E), (0x1D770, 0x1D788), (0x1D78A, 0x1D7A8), (0x1D7AA, 0x1D7C2),
        (0x1D7C4, 0x1D7CB), (0x1DF00, 0x1DF09), (0x1DF0B, 0x1DF1E), (0x1E900, 0x1E943),
        (0x1F130, 0x1F149), (0x1F150, 0x1F169), (0x1F170, 0x1F189)]
       c"

definition is_case_ignorable :: "codepoint \<Rightarrow> bool" where
  "is_case_ignorable c =
     in_ranges
       [(0x27, 0x27), (0x2E, 0x2E), (0x3A, 0x3A), (0x5E, 0x5E), (0x60, 0x60), (0xA8, 0xA8),
        (0xAD, 0xAD), (0xAF, 0xAF), (0xB4, 0xB4), (0xB7, 0xB8), (0x2B0, 0x36F), (0x374, 0x375),
        (0x37A, 0x37A), (0x384, 0x385), (0x387, 0x387), (0x483, 0x489), (0x559, 0x559),
        (0x55F, 0x55F), (0x591, 0x5BD), (0x5BF, 0x5BF), (0x5C1, 0x5C2), (0x5C4, 0x5C5),
        (0x5C7, 0x5C7), (0x5F4, 0x5F4), (0x600, 0x605), (0x610, 0x61A), (0x61C, 0x61C),
        (0x640, 0x640), (0x64B, 0x65F), (0x670, 0x670), (0x6D6, 0x6DD), (0x6DF, 0x6E8),
        (0x6EA, 0x6ED), (0x70F, 0x70F), (0x711, 0x711), (0x730, 0x74A), (0x7A6, 0x7B0),
        (0x7EB, 0x7F5), (0x7FA, 0x7FA), (0x7FD, 0x7FD), (0x816, 0x82D), (0x859, 0x85B),
        (0x888, 0x888), (0x890, 0x891), (0x898, 0x89F), (0x8C9, 0x902), (0x93A, 0x93A),
        (0x93C, 0x93C), (0x941, 0x948), (0x94D, 0x94D), (0x951, 0x957), (0x962, 0x963),
        (0x971, 0x971), (0x981, 0x981), (0x9BC, 0x9BC), (0x9C1, 0x9C4), (0x9CD, 0x9CD),
        (0x9E2, 0x9E3), (0x9FE, 0x9FE), (0xA01, 0xA02), (0xA3C, 0xA3C), (0xA41, 0xA42),
        (0xA47, 0xA48), (0xA4B, 0xA4D), (0xA51, 0xA51), (0xA70, 0xA71), (0xA75, 0xA75),
        (0xA81, 0xA82), (0xABC, 0xABC), (0xAC1, 0xAC5), (0xAC7, 0xAC8), (0xACD, 0xACD),
        (0xAE2, 0xAE3), (0xAFA, 0xAFF), (0xB01, 0xB01), (0xB3C, 0xB3C), (0xB3F, 0xB3F),
        (0xB41, 0xB44), (0xB4D, 0xB4D), (0xB55, 0xB56), (0xB62, 0xB63), (0xB82, 0xB82),
        (0xBC0, 0xBC0), (0xBCD, 0xBCD), (0xC00, 0xC00), (0xC04, 0xC04), (0xC3C, 0xC3C),
        (0xC3E, 0xC40), (0xC46, 0xC48), (0xC4A, 0xC4D), (0xC55, 0xC56), (0xC62, 0xC63),
        (0xC81, 0xC81), (0xCBC, 0xCBC), (0xCBF, 0xCBF), (0xCC6, 0xCC6), (0xCCC, 0xCCD),
        (0xCE2, 0xCE3), (0xD00, 0xD01), (0xD3B, 0xD3C), (0xD41, 0xD44), (0xD4D, 0xD4D),
        (0xD62, 0xD63), (0xD81, 0xD81), (0xDCA, 0xDCA), (0xDD2, 0xDD4), (0xDD6, 0xDD6),
        (0xE31, 0xE31), (0xE34, 0xE3A), (0xE46, 0xE4E), (0xEB1, 0xEB1), (0xEB4, 0xEBC),
        (0xEC6, 0xEC6), (0xEC8, 0xECD), (0xF18, 0xF19), (0xF35, 0xF35), (0xF37, 0xF37),
        (0xF39, 0xF39), (0xF71, 0xF7E), (0xF80, 0xF84), (0xF86, 0xF87), (0xF8D, 0xF97),
        (0xF99, 0xFBC), (0xFC6, 0xFC6), (0x102D, 0x1030), (0x1032, 0x1037), (0x1039, 0x103A),
        (0x103D, 0x103E), (0x1058, 0x1059), (0x105E, 0x1060), (0x1071, 0x1074), (0x1082, 0x1082),
        (0x1085, 0x1086), (0x108D, 0x108D), (0x109D, 0x109D), (0x10FC, 0x10FC), (0x135D, 0x135F),
        (0x1712, 0x1714), (0x1732, 0x1733), (0x1752, 0x1753), (0x1772, 0x1773), (0x17B4, 0x17B5),
        (0x17B7, 0x17BD), (0x17C6, 0x17C6), (0x17C9, 0x17D3), (0x17D7, 0x17D7), (0x17DD, 0x17DD),
        (0x180B, 0x180F), (0x1843, 0x1843), (0x1885, 0x1886), (0x18A9, 0x18A9), (0x1920, 0x1922),
        (0x1927, 0x1928), (0x1932, 0x1932), (0x1939, 0x193B), (0x1A17, 0x1A18), (0x1A1B, 0x1A1B),
        (0x1A56, 0x1A56), (0x1A58, 0x1A5E), (0x1A60, 0x1A60), (0x1A62, 0x1A62), (0x1A65, 0x1A6C),
        (0x1A73, 0x1A7C), (0x1A7F, 0x1A7F), (0x1AA7, 0x1AA7), (0x1AB0, 0x1ACE), (0x1B00, 0x1B03),
        (0x1B34, 0x1B34), (0x1B36, 0x1B3A), (0x1B3C, 0x1B3C), (0x1B42, 0x1B42), (0x1B6B, 0x1B73),
        (0x1B80, 0x1B81), (0x1BA2, 0x1BA5), (0x1BA8, 0x1BA9), (0x1BAB, 0x1BAD), (0x1BE6, 0x1BE6),
        (0x1BE8, 0x1BE9), (0x1BED, 0x1BED), (0x1BEF, 0x1BF1), (0x1C2C, 0x1C33), (0x1C36, 0x1C37),
        (0x1C78, 0x1C7D), (0x1CD0, 0x1CD2), (0x1CD4, 0x1CE0), (0x1CE2, 0x1CE8), (0x1CED, 0x1CED),
        (0x1CF4, 0x1CF4), (0x1CF8, 0x1CF9), (0x1D2C, 0x1D6A), (0x1D78, 0x1D78), (0x1D9B, 0x1DFF),
        (0x1FBD, 0x1FBD), (0x1FBF, 0x1FC1), (0x1FCD, 0x1FCF), (0x1FDD, 0x1FDF), (0x1FED, 0x1FEF),
        (0x1FFD, 0x1FFE), (0x200B, 0x200F), (0x2018, 0x2019), (0x2024, 0x2024), (0x2027, 0x2027),
        (0x202A, 0x202E), (0x2060, 0x2064), (0x2066, 0x206F), (0x2071, 0x2071), (0x207F, 0x207F),
        (0x2090, 0x209C), (0x20D0, 0x20F0), (0x2C7C, 0x2C7D), (0x2CEF, 0x2CF1), (0x2D6F, 0x2D6F),
        (0x2D7F, 0x2D7F), (0x2DE0, 0x2DFF), (0x2E2F, 0x2E2F), (0x3005, 0x3005), (0x302A, 0x302D),
        (0x3031, 0x3035), (0x303B, 0x303B), (0x3099, 0x309E), (0x30FC, 0x30FE), (0xA015, 0xA015),
        (0xA4F8, 0xA4FD), (0xA60C, 0xA60C), (0xA66F, 0xA672), (0xA674, 0xA67D), (0xA67F, 0xA67F),
        (0xA69C, 0xA69F), (0xA6F0, 0xA6F1), (0xA700, 0xA721), (0xA770, 0xA770), (0xA788, 0xA78A),
        (0xA7F2, 0xA7F4), (0xA7F8, 0xA7F9), (0xA802, 0xA802), (0xA806, 0xA806), (0xA80B, 0xA80B),
        (0xA825, 0xA826), (0xA82C, 0xA82C), (0xA8C4, 0xA8C5), (0xA8E0, 0xA8F1), (0xA8FF, 0xA8FF),
        (0xA926, 0xA92D), (0xA947, 0xA951), (0xA980, 0xA982), (0xA9B3, 0xA9B3), (0xA9B6, 0xA9B9),
        (0xA9BC, 0xA9BD), (0xA9CF, 0xA9CF), (0xA9E5, 0xA9E6), (0xAA29, 0xAA2E), (0xAA31, 0xAA32),
        (0xAA35, 0xAA36), (0xAA43, 0xAA43), (0xAA4C, 0xAA4C), (0xAA70, 0xAA70), (0xAA7C, 0xAA7C),
        (0xAAB0, 0xAAB0), (0xAAB2, 0xAAB4), (0xAAB7, 0xAAB8), (0xAABE, 0xAABF), (0xAAC1, 0xAAC1),
        (0xAADD, 0xAADD), (0xAAEC, 0xAAED), (0xAAF3, 0xAAF4), (0xAAF6, 0xAAF6), (0xAB5B, 0xAB5F),
        (0xAB69, 0xAB6B), (0xABE5, 0xABE5), (0xABE8, 0xABE8), (0xABED, 0xABED), (0xFB1E, 0xFB1E),
        (0xFBB2, 0xFBC2), (0xFE00, 0xFE0F), (0xFE13, 0xFE13), (0xFE20, 0xFE2F), (0xFE52, 0xFE52),
        (0xFE55, 0xFE55), (0xFEFF, 0xFEFF), (0xFF07, 0xFF07), (0xFF0E, 0xFF0E), (0xFF1A, 0xFF1A),
        (0xFF3E, 0xFF3E), (0xFF40, 0xFF40), (0xFF70, 0xFF70), (0xFF9E, 0xFF9F), (0xFFE3, 0xFFE3),
        (0xFFF9, 0xFFFB), (0x101FD, 0x101FD), (0x102E0, 0x102E0), (0x10376, 0x1037A),
        (0x10780, 0x10785), (0x10787, 0x107B0), (0x107B2, 0x107BA), (0x10A01, 0x10A03),
        (0x10A05, 0x10A06), (0x10A0C, 0x10A0F), (0x10A38, 0x10A3A), (0x10A3F, 0x10A3F),
        (0x10AE5, 0x10AE6), (0x10D24, 0x10D27), (0x10EAB, 0x10EAC), (0x10F46, 0x10F50),
        (0x10F82, 0x10F85), (0x11001, 0x11001), (0x11038, 0x11046), (0x11070, 0x11070),
        (0x11073, 0x11074), (0x1107F, 0x11081), (0x110B3, 0x110B6), (0x110B9, 0x110BA),
        (0x110BD, 0x110BD), (0x110C2, 0x110C2), (0x110CD, 0x110CD), (0x11100, 0x11102),
        (0x11127, 0x1112B), (0x1112D, 0x11134), (0x11173, 0x11173), (0x11180, 0x11181),
        (0x111B6, 0x111BE), (0x111C9, 0x111CC), (0x111CF, 0x111CF), (0x1122F, 0x11231),
        (0x11234, 0x11234), (0x11236, 0x11237), (0x1123E, 0x1123E), (0x112DF, 0x112DF),
        (0x112E3, 0x112EA), (0x11300, 0x11301), (0x1133B, 0x1133C), (0x11340, 0x11340),
        (0x11366, 0x1136C), (0x11370, 0x11374), (0x11438, 0x1143F), (0x11442, 0x11444),
        (0x11446, 0x11446), (0x1145E, 0x1145E), (0x114B3, 0x114B8), (0x114BA, 0x114BA),
        (0x114BF, 0x114C0), (0x114C2, 0x114C3), (0x115B2, 0x115B5), (0x115BC, 0x115BD),
        (0x115BF, 0x115C0), (0x115DC, 0x115DD), (0x11633, 0x1163A), (0x1163D, 0x1163D),
        (0x1163F, 0x11640), (0x116AB, 0x116AB), (0x116AD, 0x116AD), (0x116B0, 0x116B5),
        (0x116B7, 0x116B7), (0x1171D, 0x1171F), (0x11722, 0x11725), (0x11727, 0x1172B),
        (0x1182F, 0x11837), (0x11839, 0x1183A), (0x1193B, 0x1193C), (0x1193E, 0x1193E),
        (0x11943, 0x11943), (0x119D4, 0x119D7), (0x119DA, 0x119DB), (0x119E0, 0x119E0),
        (0x11A01, 0x11A0A), (0x11A33, 0x11A38), (0x11A3B, 0x11A3E), (0x11A47, 0x11A47),
        (0x11A51, 0x11A56), (0x11A59, 0x11A5B), (0x11A8A, 0x11A96), (0x11A98, 0x11A99),
        (0x11C30, 0x11C36), (0x11C38, 0x11C3D), (0x11C3F, 0x11C3F), (0x11C92, 0x11CA7),
        (0x11CAA, 0x11CB0), (0x11CB2, 0x11CB3), (0x11CB5, 0x11CB6), (0x11D31, 0x11D36),
        (0x11D3A, 0x11D3A), (0x11D3C, 0x11D3D), (0x11D3F, 0x11D45), (0x11D47, 0x11D47),
        (0x11D90, 0x11D91), (0x11D95, 0x11D95), (0x11D97, 0x11D97), (0x11EF3, 0x11EF4),
        (0x13430, 0x13438), (0x16AF0, 0x16AF4), (0x16B30, 0x16B36), (0x16B40, 0x16B43),
        (0x16F4F, 0x16F4F), (0x16F8F, 0x16F9F), (0x16FE0, 0x16FE1), (0x16FE3, 0x16FE4),
        (0x1AFF0, 0x1AFF3), (0x1AFF5, 0x1AFFB), (0x1AFFD, 0x1AFFE), (0x1BC9D, 0x1BC9E),
        (0x1BCA0, 0x1BCA3), (0x1CF00, 0x1CF2D), (0x1CF30, 0x1CF46), (0x1D167, 0x1D169),
        (0x1D173, 0x1D182), (0x1D185, 0x1D18B), (0x1D1AA, 0x1D1AD), (0x1D242, 0x1D244),
        (0x1DA00, 0x1DA36), (0x1DA3B, 0x1DA6C), (0x1DA75, 0x1DA75), (0x1DA84, 0x1DA84),
        (0x1DA9B, 0x1DA9F), (0x1DAA1, 0x1DAAF), (0x1E000, 0x1E006), (0x1E008, 0x1E018),
        (0x1E01B, 0x1E021), (0x1E023, 0x1E024), (0x1E026, 0x1E02A), (0x1E130, 0x1E13D),
        (0x1E2AE, 0x1E2AE), (0x1E2EC, 0x1E2EF), (0x1E8D0, 0x1E8D6), (0x1E944, 0x1E94B),
        (0x1F3FB, 0x1F3FF), (0xE0001, 0xE0001), (0xE0020, 0xE007F), (0xE0100, 0xE01EF)]
       c"

definition final_sigma :: "str \<Rightarrow> str \<Rightarrow> bool" where
  "final_sigma pre post =
     (let b = dropWhile is_case_ignorable (rev pre);
          a = dropWhile is_case_ignorable post
      in b \<noteq> [] \<and> is_cased (hd b) \<and> (a = [] \<or> \<not> is_cased (hd a)))"

fun lower_from :: "str \<Rightarrow> str \<Rightarrow> str" where
  "lower_from pre [] = []"
| "lower_from pre (c # post) =
     (if c = 0x3A3 then [if final_sigma pre post then 0x3C2 else 0x3C3]
      else to_lower_full c)
     @ lower_from (pre @ [c]) post"

definition lower :: "str \<Rightarrow> str" where
  "lower s = lower_from [] s"

subsection \<open>Response values\<close>

text \<open>
  The values of an already parsed API response: \<^verbatim>\<open>None\<close>, booleans, integers,
  strings, lists and dictionaries with string keys. A dictionary is an association
  list in insertion order, looked up with \<^const>\<open>map_of\<close>.
\<close>

datatype json =
    JNull
  | JBool bool
  | JInt int
  | JStr str
  | JList "json list"
  | JDict "(str \<times> json) list"

text \<open>Truth value testing, as in \<^verbatim>\<open>x if x else y\<close> and \<^verbatim>\<open>if not x\<close>.\<close>

fun truthy :: "json \<Rightarrow> bool" where
  "truthy JNull = False"
| "truthy (JBool b) = b"
| "truthy (JInt n) = (n \<noteq> 0)"
| "truthy (JStr s) = (s \<noteq> [])"
| "truthy (JList xs) = (xs \<noteq> [])"
| "truthy (JDict kvs) = (kvs \<noteq> [])"

subsection \<open>Exceptions\<close>

text \<open>
  The classes of exceptions that the program names in a \<^verbatim>\<open>raise\<close> or an
  \<^verbatim>\<open>except\<close> clause or that the interpreter raises in the modelled operations,
  with their base classes; \<open>Class n\<close> is any other class, of name \<open>n\<close>.

  An exception object is known by the classes it is an instance of (the method
  resolution order of its class, from the class itself to \<^verbatim>\<open>BaseException\<close>), by
  what \<^verbatim>\<open>str(exc)\<close> returns and, for a \<^verbatim>\<open>SystemExit\<close>, by its exit code. An
  \<^verbatim>\<open>except C\<close> clause catches the instances of \<open>C\<close>, so an object of a class with
  several bases, such as botocore's \<^verbatim>\<open>InvalidRegionError\<close> (a \<^verbatim>\<open>BotoCoreError\<close> and a
  \<^verbatim>\<open>ValueError\<close>), is caught by the first clause that names one of them.
\<close>

datatype cls =
    BaseException
  | Exception
  | SystemExit
  | KeyboardInterrupt
  | ValueError
  | EOFError
  | LookupError
  | KeyError
  | IndexError
  | TypeError
  | BotoCoreError
  | NoCredentialsError
  | ClientError
  | Class string

datatype exn = Exn (mro: "cls list") (str_exn: str) (code: int)

definition isinstance :: "exn \<Rightarrow> cls \<Rightarrow> bool" where
  "isinstance e c \<longleftrightarrow> c \<in> set (mro e)"

text \<open>
  The method resolution order of the named classes: \<^verbatim>\<open>SystemExit\<close> and
  \<^verbatim>\<open>KeyboardInterrupt\<close> derive from \<^verbatim>\<open>BaseException\<close> and not from
  \<^verbatim>\<open>Exception\<close>; \<^verbatim>\<open>NoCredentialsError\<close> derives from \<^verbatim>\<open>BotoCoreError\<close>;
  \<^verbatim>\<open>ClientError\<close> derives from \<^verbatim>\<open>Exception\<close> and not from \<^verbatim>\<open>BotoCoreError\<close>.
\<close>

fun mro_of :: "cls \<Rightarrow> cls list" where
  "mro_of BaseException = [BaseException]"
| "mro_of SystemExit = [SystemExit, BaseException]"
| "mro_of KeyboardInterrupt = [KeyboardInterrupt, BaseException]"
| "mro_of KeyError = [KeyError, LookupError, Exception, BaseException]"
| "mro_of IndexError = [IndexError, LookupError, Exception, BaseException]"
| "mro_of NoCredentialsError = [NoCredentialsError, BotoCoreError, Exception, BaseException]"
| "mro_of Exception = [Exception, BaseException]"
| "mro_of c = [c, Exception, BaseException]"

text \<open>\<open>exception c m\<close> is a new instance of the class \<open>c\<close> with \<^verbatim>\<open>str\<close> value \<open>m\<close>.\<close>

definition exception :: "cls \<Rightarrow> str \<Rightarrow> exn" where
  "exception c m = Exn (mro_of c) m 0"

text \<open>Sequencing of computations that may raise.\<close>

definition bind_res :: "exn + 'a \<Rightarrow> ('a \<Rightarrow> exn + 'b) \<Rightarrow> exn + 'b" where
  "bind_res r f = (case r of Inl e \<Rightarrow> Inl e | Inr x \<Rightarrow> f x)"

subsection \<open>Rendering: \<^verbatim>\<open>str\<close>, \<^verbatim>\<open>repr\<close> and \<^verbatim>\<open>format\<close>\<close>

function show_nat :: "nat \<Rightarrow> str" where
  "show_nat n =
     (if n < 10 then [lit ''0123456789'' ! n]
      else show_nat (n div 10) @ [lit ''0123456789'' ! (n mod 10)])"
  by pat_completeness auto
termination
  by (relation "measure id") auto

definition show_int :: "int \<Rightarrow> str" where
  "show_int i = (if i < 0 then lit ''-'' @ show_nat (nat (- i)) else show_nat (nat i))"

text \<open>\<^verbatim>\<open>SystemExit(n)\<close> for an integer \<open>n\<close>.\<close>

definition system_exit :: "int \<Rightarrow> exn" where
  "system_exit n = Exn (mro_of SystemExit) (show_int n) n"

text \<open>
  \<^verbatim>\<open>repr\<close> of a string (\<^verbatim>\<open>unicode_repr\<close>): single quotes unless the string holds a
  single quote and no double quote; the quote and the backslash are escaped; tab, line
  feed and carriage return are written \<^verbatim>\<open>\t\<close>, \<^verbatim>\<open>\n\<close>, \<^verbatim>\<open>\r\<close>; every other character
  that is not printable (\<^verbatim>\<open>str.isprintable()\<close>) is written \<^verbatim>\<open>\xhh\<close>, \<^verbatim>\<open>\uhhhh\<close> or
  \<^verbatim>\<open>\Uhhhhhhhh\<close> with the least of these widths that holds it. The table lists the
  printable characters from 127 on.
\<close>

definition is_printable :: "codepoint \<Rightarrow> bool" where
  "is_printable c =
     ((32 \<le> c \<and> c < 127) \<or>
      in_ranges
        [(0xA1, 0xAC), (0xAE, 0x377), (0x37A, 0x37F), (0x384, 0x38A), (0x38C, 0x38C),
         (0x38E, 0x3A1), (0x3A3, 0x52F), (0x531, 0x556), (0x559, 0x58A), (0x58D, 0x58F),
         (0x591, 0x5C7), (0x5D0, 0x5EA), (0x5EF, 0x5F4), (0x606, 0x61B), (0x61D, 0x6DC),
         (0x6DE, 0x70D), (0x710, 0x74A), (0x74D, 0x7B1), (0x7C0, 0x7FA), (0x7FD, 0x82D),
         (0x830, 0x83E), (0x840, 0x85B), (0x85E, 0x85E), (0x860, 0x86A), (0x870, 0x88E),
         (0x898, 0x8E1), (0x8E3, 0x983), (0x985, 0x98C), (0x98F, 0x990), (0x993, 0x9A8),
         (0x9AA, 0x9B0), (0x9B2, 0x9B2), (0x9B6, 0x9B9), (0x9BC, 0x9C4), (0x9C7, 0x9C8),
         (0x9CB, 0x9CE), (0x9D7, 0x9D7), (0x9DC, 0x9DD), (0x9DF, 0x9E3), (0x9E6, 0x9FE),
         (0xA01, 0xA03), (0xA05, 0xA0A), (0xA0F, 0xA10), (0xA13, 0xA28), (0xA2A, 0xA30),
         (0xA32, 0xA33), (0xA35, 0xA36), (0xA38, 0xA39), (0xA3C, 0xA3C), (0xA3E, 0xA42),
         (0xA47, 0xA48), (0xA4B, 0xA4D), (0xA51, 0xA51), (0xA59, 0xA5C), (0xA5E, 0xA5E),
         (0xA66, 0xA76), (0xA81, 0xA83), (0xA85, 0xA8D), (0xA8F, 0xA91), (0xA93, 0xAA8),
         (0xAAA, 0xAB0), (0xAB2, 0xAB3), (0xAB5, 0xAB9), (0xABC, 0xAC5), (0xAC7, 0xAC9),
         (0xACB, 0xACD), (0xAD0, 0xAD0), (0xAE0, 0xAE3), (0xAE6, 0xAF1), (0xAF9, 0xAFF),
         (0xB01, 0xB03), (0xB05, 0xB0C), (0xB0F, 0xB10), (0xB13, 0xB28), (0xB2A, 0xB30),
         (0xB32, 0xB33), (0xB35, 0xB39), (0xB3C, 0xB44), (0xB47, 0xB48), (0xB4B, 0xB4D),
         (0xB55, 0xB57), (0xB5C, 0xB5D), (0xB5F, 0xB63), (0xB66, 0xB77), (0xB82, 0xB83),
         (0xB85, 0xB8A), (0xB8E, 0xB90), (0xB92, 0xB95), (0xB99, 0xB9A), (0xB9C, 0xB9C),
         (0xB9E, 0xB9F), (0xBA3, 0xBA4), (0xBA8, 0xBAA), (0xBAE, 0xBB9), (0xBBE, 0xBC2),
         (0xBC6, 0xBC8), (0xBCA, 0xBCD), (0xBD0, 0xBD0), (0xBD7, 0xBD7), (0xBE6, 0xBFA),
         (0xC00, 0xC0C), (0xC0E, 0xC10), (0xC12, 0xC28), (0xC2A, 0xC39), (0xC3C, 0xC44),
         (0xC46, 0xC48), (0xC4A, 0xC4D), (0xC55, 0xC56), (0xC58, 0xC5A), (0xC5D, 0xC5D),
         (0xC60, 0xC63), (0xC66, 0xC6F), (0xC77, 0xC8C), (0xC8E, 0xC90), (0xC92, 0xCA8),
         (0xCAA, 0xCB3), (0xCB5, 0xCB9), (0xCBC, 0xCC4), (0xCC6, 0xCC8), (0xCCA, 0xCCD),
         (0xCD5, 0xCD6), (0xCDD, 0xCDE), (0xCE0, 0xCE3), (0xCE6, 0xCEF), (0xCF1, 0xCF2),
         (0xD00, 0xD0C), (0xD0E, 0xD10), (0xD12, 0xD44), (0xD46, 0xD48), (0xD4A, 0xD4F),
         (0xD54, 0xD63), (0xD66, 0xD7F), (0xD81, 0xD83), (0xD85, 0xD96), (0xD9A, 0xDB1),
         (0xDB3, 0xDBB), (0xDBD, 0xDBD), (0xDC0, 0xDC6), (0xDCA, 0xDCA), (0xDCF, 0xDD4),
         (0xDD6, 0xDD6), (0xDD8, 0xDDF), (0xDE6, 0xDEF), (0xDF2, 0xDF4), (0xE01, 0xE3A),
         (0xE3F, 0xE5B), (0xE81, 0xE82), (0xE84, 0xE84), (0xE86, 0xE8A), (0xE8C, 0xEA3),
         (0xEA5, 0xEA5), (0xEA7, 0xEBD), (0xEC0, 0xEC4), (0xEC6, 0xEC6), (0xEC8, 0xECD),
         (0xED0, 0xED9), (0xEDC, 0xEDF), (0xF00, 0xF47), (0xF49, 0xF6C), (0xF71, 0xF97),
         (0xF99, 0xFBC), (0xFBE, 0xFCC), (0xFCE, 0xFDA), (0x1000, 0x10C5), (0x10C7, 0x10C7),
         (0x10CD, 0x10CD), (0x10D0, 0x1248), (0x124A, 0x124D), (0x1250, 0x1256), (0x1258, 0x1258),
         (0x125A, 0x125D), (0x1260, 0x1288), (0x128A, 0x128D), (0x1290, 0x12B0), (0x12B2, 0x12B5),
         (0x12B8, 0x12BE), (0x12C0, 0x12C0), (0x12C2, 0x12C5), (0x12C8, 0x12D6), (0x12D8, 0x1310),
         (0x1312, 0x1315), (0x1318, 0x135A), (0x135D, 0x137C), (0x1380, 0x1399), (0x13A0, 0x13F5),
         (0x13F8, 0x13FD), (0x1400, 0x167F), (0x1681, 0x169C), (0x16A0, 0x16F8), (0x1700, 0x1715),
         (0x171F, 0x1736), (0x1740, 0x1753), (0x1760, 0x176C), (0x176E, 0x1770), (0x1772, 0x1773),
         (0x1780, 0x17DD), (0x17E0, 0x17E9), (0x17F0, 0x17F9), (0x1800, 0x180D), (0x180F, 0x1819),
         (0x1820, 0x1878), (0x1880, 0x18AA), (0x18B0, 0x18F5), (0x1900, 0x191E), (0x1920, 0x192B),
         (0x1930, 0x193B), (0x1940, 0x1940), (0x1944, 0x196D), (0x1970, 0x1974), (0x1980, 0x19AB),
         (0x19B0, 0x19C9), (0x19D0, 0x19DA), (0x19DE, 0x1A1B), (0x1A1E, 0x1A5E), (0x1A60, 0x1A7C),
         (0x1A7F, 0x1A89), (0x1A90, 0x1A99), (0x1AA0, 0x1AAD), (0x1AB0, 0x1ACE), (0x1B00, 0x1B4C),
         (0x1B50, 0x1B7E), (0x1B80, 0x1BF3), (0x1BFC, 0x1C37), (0x1C3B, 0x1C49), (0x1C4D, 0x1C88),
         (0x1C90, 0x1CBA), (0x1CBD, 0x1CC7), (0x1CD0, 0x1CFA), (0x1D00, 0x1F15), (0x1F18, 0x1F1D),
         (0x1F20, 0x1F45), (0x1F48, 0x1F4D), (0x1F50, 0x1F57), (0x1F59, 0x1F59), (0x1F5B, 0x1F5B),
         (0x1F5D, 0x1F5D), (0x1F5F, 0x1F7D), (0x1F80, 0x1FB4), (0x1FB6, 0x1FC4), (0x1FC6, 0x1FD3),
         (0x1FD6, 0x1FDB), (0x1FDD, 0x1FEF), (0x1FF2, 0x1FF4), (0x1FF6, 0x1FFE), (0x2010, 0x2027),
         (0x2030, 0x205E), (0x2070, 0x2071), (0x2074, 0x208E), (0x2090, 0x209C), (0x20A0, 0x20C0),
         (0x20D0, 0x20F0), (0x2100, 0x218B), (0x2190, 0x2426), (0x2440, 0x244A), (0x2460, 0x2B73),
         (0x2B76, 0x2B95), (0x2B97, 0x2CF3), (0x2CF9, 0x2D25), (0x2D27, 0x2D27), (0x2D2D, 0x2D2D),
         (0x2D30, 0x2D67), (0x2D6F, 0x2D70), (0x2D7F, 0x2D96), (0x2DA0, 0x2DA6), (0x2DA8, 0x2DAE),
         (0x2DB0, 0x2DB6), (0x2DB8, 0x2DBE), (0x2DC0, 0x2DC6), (0x2DC8, 0x2DCE), (0x2DD0, 0x2DD6),
         (0x2DD8, 0x2DDE), (0x2DE0, 0x2E5D), (0x2E80, 0x2E99), (0x2E9B, 0x2EF3), (0x2F00, 0x2FD5),
         (0x2FF0, 0x2FFB), (0x3001, 0x303F), (0x3041, 0x3096), (0x3099, 0x30FF), (0x3105, 0x312F),
         (0x3131, 0x318E), (0x3190, 0x31E3), (0x31F0, 0x321E), (0x3220, 0xA48C), (0xA490, 0xA4C6),
         (0xA4D0, 0xA62B), (0xA640, 0xA6F7), (0xA700, 0xA7CA), (0xA7D0, 0xA7D1), (0xA7D3, 0xA7D3),
         (0xA7D5, 0xA7D9), (0xA7F2, 0xA82C), (0xA830, 0xA839), (0xA840, 0xA877), (0xA880, 0xA8C5),
         (0xA8CE, 0xA8D9), (0xA8E0, 0xA953), (0xA95F, 0xA97C), (0xA980, 0xA9CD), (0xA9CF, 0xA9D9),
         (0xA9DE, 0xA9FE), (0xAA00, 0xAA36), (0xAA40, 0xAA4D), (0xAA50, 0xAA59), (0xAA5C, 0xAAC2),
         (0xAADB, 0xAAF6), (0xAB01, 0xAB06), (0xAB09, 0xAB0E), (0xAB11, 0xAB16), (0xAB20, 0xAB26),
         (0xAB28, 0xAB2E), (0xAB30, 0xAB6B), (0xAB70, 0xABED), (0xABF0, 0xABF9), (0xAC00, 0xD7A3),
         (0xD7B0, 0xD7C6), (0xD7CB, 0xD7FB), (0xF900, 0xFA6D), (0xFA70, 0xFAD9), (0xFB00, 0xFB06),
         (0xFB13, 0xFB17), (0xFB1D, 0xFB36), (0xFB38, 0xFB3C), (0xFB3E, 0xFB3E), (0xFB40, 0xFB41),
         (0xFB43, 0xFB44), (0xFB46, 0xFBC2), (0xFBD3, 0xFD8F), (0xFD92, 0xFDC7), (0xFDCF, 0xFDCF),
         (0xFDF0, 0xFE19), (0xFE20, 0xFE52), (0xFE54, 0xFE66), (0xFE68, 0xFE6B), (0xFE70, 0xFE74),
         (0xFE76, 0xFEFC), (0xFF01, 0xFFBE), (0xFFC2, 0xFFC7), (0xFFCA, 0xFFCF), (0xFFD2, 0xFFD7),
         (0xFFDA, 0xFFDC), (0xFFE0, 0xFFE6), (0xFFE8, 0xFFEE), (0xFFFC, 0xFFFD),
         (0x10000, 0x1000B), (0x1000D, 0x10026), (0x10028, 0x1003A), (0x1003C, 0x1003D),
         (0x1003F, 0x1004D), (0x10050, 0x1005D), (0x10080, 0x100FA), (0x10100, 0x10102),
         (0x10107, 0x10133), (0x10137, 0x1018E), (0x10190, 0x1019C), (0x101A0, 0x101A0),
         (0x101D0, 0x101FD), (0x10280, 0x1029C), (0x102A0, 0x102D0), (0x102E0, 0x102FB),
         (0x10300, 0x10323), (0x1032D, 0x1034A), (0x10350, 0x1037A), (0x10380, 0x1039D),
         (0x1039F, 0x103C3), (0x103C8, 0x103D5), (0x10400, 0x1049D), (0x104A0, 0x104A9),
         (0x104B0, 0x104D3), (0x104D8, 0x104FB), (0x10500, 0x10527), (0x10530, 0x10563),
         (0x1056F, 0x1057A), (0x1057C, 0x1058A), (0x1058C, 0x10592), (0x10594, 0x10595),
         (0x10597, 0x105A1), (0x105A3, 0x105B1), (0x105B3, 0x105B9), (0x105BB, 0x105BC),
         (0x10600, 0x10736), (0x10740, 0x10755), (0x10760, 0x10767), (0x10780, 0x10785),
         (0x10787, 0x107B0), (0x107B2, 0x107BA), (0x10800, 0x10805), (0x10808, 0x10808),
         (0x1080A, 0x10835), (0x10837, 0x10838), (0x1083C, 0x1083C), (0x1083F, 0x10855),
         (0x10857, 0x1089E), (0x108A7, 0x108AF), (0x108E0, 0x108F2), (0x108F4, 0x108F5),
         (0x108FB, 0x1091B), (0x1091F, 0x10939), (0x1093F, 0x1093F), (0x10980, 0x109B7),
         (0x109BC, 0x109CF), (0x109D2, 0x10A03), (0x10A05, 0x10A06), (0x10A0C, 0x10A13),
         (0x10A15, 0x10A17), (0x10A19, 0x10A35), (0x10A38, 0x10A3A), (0x10A3F, 0x10A48),
         (0x10A50, 0x10A58), (0x10A60, 0x10A9F), (0x10AC0, 0x10AE6), (0x10AEB, 0x10AF6),
         (0x10B00, 0x10B35), (0x10B39, 0x10B55), (0x10B58, 0x10B72), (0x10B78, 0x10B91),
         (0x10B99, 0x10B9C), (0x10BA9, 0x10BAF), (0x10C00, 0x10C48), (0x10C80, 0x10CB2),
         (0x10CC0, 0x10CF2), (0x10CFA, 0x10D27), (0x10D30, 0x10D39), (0x10E60, 0x10E7E),
         (0x10E80, 0x10EA9), (0x10EAB, 0x10EAD), (0x10EB0, 0x10EB1), (0x10F00, 0x10F27),
         (0x10F30, 0x10F59), (0x10F70, 0x10F89), (0x10FB0, 0x10FCB), (0x10FE0, 0x10FF6),
         (0x11000, 0x1104D), (0x11052, 0x11075), (0x1107F, 0x110BC), (0x110BE, 0x110C2),
         (0x110D0, 0x110E8), (0x110F0, 0x110F9), (0x11100, 0x11134), (0x11136, 0x11147),
         (0x11150, 0x11176), (0x11180, 0x111DF), (0x111E1, 0x111F4), (0x11200, 0x11211),
         (0x11213, 0x1123E), (0x11280, 0x11286), (0x11288, 0x11288), (0x1128A, 0x1128D),
         (0x1128F, 0x1129D), (0x1129F, 0x112A9), (0x112B0, 0x112EA), (0x112F0, 0x112F9),
         (0x11300, 0x11303), (0x11305, 0x1130C), (0x1130F, 0x11310), (0x11313, 0x11328),
         (0x1132A, 0x11330), (0x11332, 0x11333), (0x11335, 0x11339), (0x1133B, 0x11344),
         (0x11347, 0x11348), (0x1134B, 0x1134D), (0x11350, 0x11350), (0x11357, 0x11357),
         (0x1135D, 0x11363), (0x11366, 0x1136C), (0x11370, 0x11374), (0x11400, 0x1145B),
         (0x1145D, 0x11461), (0x11480, 0x114C7), (0x114D0, 0x114D9), (0x11580, 0x115B5),
         (0x115B8, 0x115DD), (0x11600, 0x11644), (0x11650, 0x11659), (0x11660, 0x1166C),
         (0x11680, 0x116B9), (0x116C0, 0x116C9), (0x11700, 0x1171A), (0x1171D, 0x1172B),
         (0x11730, 0x11746), (0x11800, 0x1183B), (0x118A0, 0x118F2), (0x118FF, 0x11906),
         (0x11909, 0x11909), (0x1190C, 0x11913), (0x11915, 0x11916), (0x11918, 0x11935),
         (0x11937, 0x11938), (0x1193B, 0x11946), (0x11950, 0x11959), (0x119A0, 0x119A7),
         (0x119AA, 0x119D7), (0x119DA, 0x119E4), (0x11A00, 0x11A47), (0x11A50, 0x11AA2),
         (0x11AB0, 0x11AF8), (0x11C00, 0x11C08), (0x11C0A, 0x11C36), (0x11C38, 0x11C45),
         (0x11C50, 0x11C6C), (0x11C70, 0x11C8F), (0x11C92, 0x11CA7), (0x11CA9, 0x11CB6),
         (0x11D00, 0x11D06), (0x11D08, 0x11D09), (0x11D0B, 0x11D36), (0x11D3A, 0x11D3A),
         (0x11D3C, 0x11D3D), (0x11D3F, 0x11D47), (0x11D50, 0x11D59), (0x11D60, 0x11D65),
         (0x11D67, 0x11D68), (0x11D6A, 0x11D8E), (0x11D90, 0x11D91), (0x11D93, 0x11D98),
         (0x11DA0, 0x11DA9), (0x11EE0, 0x11EF8), (0x11FB0, 0x11FB0), (0x11FC0, 0x11FF1),
         (0x11FFF, 0x12399), (0x12400, 0x1246E), (0x12470, 0x12474), (0x12480, 0x12543),
         (0x12F90, 0x12FF2), (0x13000, 0x1342E), (0x14400, 0x14646), (0x16800, 0x16A38),
         (0x16A40, 0x16A5E), (0x16A60, 0x16A69), (0x16A6E, 0x16ABE), (0x16AC0, 0x16AC9),
         (0x16AD0, 0x16AED), (0x16AF0, 0x16AF5), (0x16B00, 0x16B45), (0x16B50, 0x16B59),
         (0x16B5B, 0x16B61), (0x16B63, 0x16B77), (0x16B7D, 0x16B8F), (0x16E40, 0x16E9A),
         (0x16F00, 0x16F4A), (0x16F4F, 0x16F87), (0x16F8F, 0x16F9F), (0x16FE0, 0x16FE4),
         (0x16FF0, 0x16FF1), (0x17000, 0x187F7), (0x18800, 0x18CD5), (0x18D00, 0x18D08),
         (0x1AFF0, 0x1AFF3), (0x1AFF5, 0x1AFFB), (0x1AFFD, 0x1AFFE), (0x1B000, 0x1B122),
         (0x1B150, 0x1B152), (0x1B164, 0x1B167), (0x1B170, 0x1B2FB), (0x1BC00, 0x1BC6A),
         (0x1BC70, 0x1BC7C), (0x1BC80, 0x1BC88), (0x1BC90, 0x1BC99), (0x1BC9C, 0x1BC9F),
         (0x1CF00, 0x1CF2D), (0x1CF30, 0x1CF46), (0x1CF50, 0x1CFC3), (0x1D000, 0x1D0F5),
         (0x1D100, 0x1D126), (0x1D129, 0x1D172), (0x1D17B, 0x1D1EA), (0x1D200, 0x1D245),
         (0x1D2E0, 0x1D2F3), (0x1D300, 0x1D356), (0x1D360, 0x1D378), (0x1D400, 0x1D454),
         (0x1D456, 0x1D49C), (0x1D49E, 0x1D49F), (0x1D4A2, 0x1D4A2), (0x1D4A5, 0x1D4A6),
         (0x1D4A9, 0x1D4AC), (0x1D4AE, 0x1D4B9), (0x1D4BB, 0x1D4BB), (0x1D4BD, 0x1D4C3),
         (0x1D4C5, 0x1D505), (0x1D507, 0x1D50A), (0x1D50D, 0x1D514), (0x1D516, 0x1D51C),
         (0x1D51E, 0x1D539), (0x1D53B, 0x1D53E), (0x1D540, 0x1D544), (0x1D546, 0x1D546),
         (0x1D54A, 0x1D550), (0x1D552, 0x1D6A5), (0x1D6A8, 0x1D7CB), (0x1D7CE, 0x1DA8B),
         (0x1DA9B, 0x1DA9F), (0x1DAA1, 0x1DAAF), (0x1DF00, 0x1DF1E), (0x1E000, 0x1E006),
         (0x1E008, 0x1E018), (0x1E01B, 0x1E021), (0x1E023, 0x1E024), (0x1E026, 0x1E02A),
         (0x1E100, 0x1E12C), (0x1E130, 0x1E13D), (0x1E140, 0x1E149), (0x1E14E, 0x1E14F),
         (0x1E290, 0x1E2AE), (0x1E2C0, 0x1E2F9), (0x1E2FF, 0x1E2FF), (0x1E7E0, 0x1E7E6),
         (0x1E7E8, 0x1E7EB), (0x1E7ED, 0x1E7EE), (0x1E7F0, 0x1E7FE), (0x1E800, 0x1E8C4),
         (0x1E8C7, 0x1E8D6), (0x1E900, 0x1E94B), (0x1E950, 0x1E959), (0x1E95E, 0x1E95F),
         (0x1EC71, 0x1ECB4), (0x1ED01, 0x1ED3D), (0x1EE00, 0x1EE03), (0x1EE05, 0x1EE1F),
         (0x1EE21, 0x1EE22), (0x1EE24, 0x1EE24), (0x1EE27, 0x1EE27), (0x1EE29, 0x1EE32),
         (0x1EE34, 0x1EE37), (0x1EE39, 0x1EE39), (0x1EE3B, 0x1EE3B), (0x1EE42, 0x1EE42),
         (0x1EE47, 0x1EE47), (0x1EE49, 0x1EE49), (0x1EE4B, 0x1EE4B), (0x1EE4D, 0x1EE4F),
         (0x1EE51, 0x1EE52), (0x1EE54, 0x1EE54), (0x1EE57, 0x1EE57), (0x1EE59, 0x1EE59),
         (0x1EE5B, 0x1EE5B), (0x1EE5D, 0x1EE5D), (0x1EE5F, 0x1EE5F), (0x1EE61, 0x1EE62),
         (0x1EE64, 0x1EE64), (0x1EE67, 0x1EE6A), (0x1EE6C, 0x1EE72), (0x1EE74, 0x1EE77),
         (0x1EE79, 0x1EE7C), (0x1EE7E, 0x1EE7E), (0x1EE80, 0x1EE89), (0x1EE8B, 0x1EE9B),
         (0x1EEA1, 0x1EEA3), (0x1EEA5, 0x1EEA9), (0x1EEAB, 0x1EEBB), (0x1EEF0, 0x1EEF1),
         (0x1F000, 0x1F02B), (0x1F030, 0x1F093), (0x1F0A0, 0x1F0AE), (0x1F0B1, 0x1F0BF),
         (0x1F0C1, 0x1F0CF), (0x1F0D1, 0x1F0F5), (0x1F100, 0x1F1AD), (0x1F1E6, 0x1F202),
         (0x1F210, 0x1F23B), (0x1F240, 0x1F248), (0x1F250, 0x1F251), (0x1F260, 0x1F265),
         (0x1F300, 0x1F6D7), (0x1F6DD, 0x1F6EC), (0x1F6F0, 0x1F6FC), (0x1F700, 0x1F773),
         (0x1F780, 0x1F7D8), (0x1F7E0, 0x1F7EB), (0x1F7F0, 0x1F7F0), (0x1F800, 0x1F80B),
         (0x1F810, 0x1F847), (0x1F850, 0x1F859), (0x1F860, 0x1F887), (0x1F890, 0x1F8AD),
         (0x1F8B0, 0x1F8B1), (0x1F900, 0x1FA53), (0x1FA60, 0x1FA6D), (0x1FA70, 0x1FA74),
         (0x1FA78, 0x1FA7C), (0x1FA80, 0x1FA86), (0x1FA90, 0x1FAAC), (0x1FAB0, 0x1FABA),
         (0x1FAC0, 0x1FAC5), (0x1FAD0, 0x1FAD9), (0x1FAE0, 0x1FAE7), (0x1FAF0, 0x1FAF6),
         (0x1FB00, 0x1FB92), (0x1FB94, 0x1FBCA), (0x1FBF0, 0x1FBF9), (0x20000, 0x2A6DF),
         (0x2A700, 0x2B738), (0x2B740, 0x2B81D), (0x2B820, 0x2CEA1), (0x2CEB0, 0x2EBE0),
         (0x2F800, 0x2FA1D), (0x30000, 0x3134A), (0xE0100, 0xE01EF)]
        c)"

fun hex :: "nat \<Rightarrow> nat \<Rightarrow> str" where
  "hex 0 n = []"
| "hex (Suc w) n = hex w (n div 16) @ [lit ''0123456789abcdef'' ! (n mod 16)]"

definition repr_char :: "codepoint \<Rightarrow> codepoint \<Rightarrow> str" where
  "repr_char q c =
     (if c = q \<or> c = 0x5C then [0x5C, c]
      else if c = 0x09 then lit [CHR 0x5C, CHR ''t'']
      else if c = 0x0A then lit [CHR 0x5C, CHR ''n'']
      else if c = 0x0D then lit [CHR 0x5C, CHR ''r'']
      else if is_printable c then [c]
      else if c \<le> 0xFF then lit [CHR 0x5C, CHR ''x''] @ hex 2 c
      else if c \<le> 0xFFFF then lit [CHR 0x5C, CHR ''u''] @ hex 4 c
      else lit [CHR 0x5C, CHR ''U''] @ hex 8 c)"

definition repr_str :: "str \<Rightarrow> str" where
  "repr_str s =
     (let q = (if 0x27 \<in> set s \<and> 0x22 \<notin> set s then 0x22 else 0x27)
      in q # concat (map (repr_char q) s) @ [q])"

fun join :: "str \<Rightarrow> str list \<Rightarrow> str" where
  "join sep [] = []"
| "join sep [x] = x"
| "join sep (x # y # ys) = x @ sep @ join sep (y # ys)"

fun py_repr :: "json \<Rightarrow> str" where
  "py_repr JNull = lit ''None''"
| "py_repr (JBool b) = (if b then lit ''True'' else lit ''False'')"
| "py_repr (JInt n) = show_int n"
| "py_repr (JStr s) = repr_str s"
| "py_repr (JList xs) = lit ''['' @ join (lit '', '') (map py_repr xs) @ lit '']''"
| "py_repr (JDict kvs) =
     lit ''{'' @
     join (lit '', '') (map (\<lambda>kv. repr_str (fst kv) @ lit '': '' @ py_repr (snd kv)) kvs) @
     lit ''}''"

fun py_str :: "json \<Rightarrow> str" where
  "py_str (JStr s) = s"
| "py_str v = py_repr v"

text \<open>\<^verbatim>\<open>format(v, "<w")\<close>, the conversion of an f-string field \<^verbatim>\<open>{v:<w}\<close>.\<close>

definition ljust :: "nat \<Rightarrow> str \<Rightarrow> str" where
  "ljust w s = s @ concat (replicate (w - length s) (lit '' ''))"

fun format_left :: "nat \<Rightarrow> json \<Rightarrow> exn + str" where
  "format_left w (JStr s) = Inr (ljust w s)"
| "format_left w (JInt n) = Inr (ljust w (show_int n))"
| "format_left w (JBool b) = Inr (ljust w (if b then lit ''1'' else lit ''0''))"
| "format_left w JNull =
     Inl (exception TypeError
            (lit ''unsupported format string passed to NoneType.__format__''))"
| "format_left w (JList xs) =
     Inl (exception TypeError (lit ''unsupported format string passed to list.__format__''))"
| "format_left w (JDict kvs) =
     Inl (exception TypeError (lit ''unsupported format string passed to dict.__format__''))"

subsection \<open>Subscripting and iteration\<close>

definition not_subscriptable :: "string \<Rightarrow> exn" where
  "not_subscriptable ty =
     exception TypeError (lit ([CHR 0x27] @ ty @ [CHR 0x27] @ '' object is not subscriptable''))"

text \<open>\<^verbatim>\<open>v[k]\<close> for a string key \<open>k\<close>.\<close>

fun subscript_key :: "json \<Rightarrow> str \<Rightarrow> exn + json" where
  "subscript_key (JDict kvs) k =
     (case map_of kvs k of Some x \<Rightarrow> Inr x | None \<Rightarrow> Inl (exception KeyError (repr_str k)))"
| "subscript_key (JList xs) k =
     Inl (exception TypeError (lit ''list indices must be integers or slices, not str''))"
| "subscript_key (JStr s) k =
     Inl (exception TypeError
            (lit ''string indices must be integers, not '' @ repr_str (lit ''str'')))"
| "subscript_key JNull k = Inl (not_subscriptable ''NoneType'')"
| "subscript_key (JBool b) k = Inl (not_subscriptable ''bool'')"
| "subscript_key (JInt n) k = Inl (not_subscriptable ''int'')"

text \<open>\<^verbatim>\<open>v[n]\<close> for a literal index \<open>n \<ge> 0\<close>.\<close>

fun subscript_index :: "json \<Rightarrow> nat \<Rightarrow> exn + json" where
  "subscript_index (JList xs) n =
     (if n < length xs then Inr (xs ! n)
      else Inl (exception IndexError (lit ''list index out of range'')))"
| "subscript_index (JStr s) n =
     (if n < length s then Inr (JStr [s ! n])
      else Inl (exception IndexError (lit ''string index out of range'')))"
| "subscript_index (JDict kvs) n = Inl (exception KeyError (show_nat n))"
| "subscript_index JNull n = Inl (not_subscriptable ''NoneType'')"
| "subscript_index (JBool b) n = Inl (not_subscriptable ''bool'')"
| "subscript_index (JInt i) n = Inl (not_subscriptable ''int'')"

definition not_iterable :: "string \<Rightarrow> exn" where
  "not_iterable ty =
     exception TypeError (lit ([CHR 0x27] @ ty @ [CHR 0x27] @ '' object is not iterable''))"

text \<open>The elements a \<^verbatim>\<open>for\<close> loop over \<open>v\<close> visits.\<close>

fun py_iter :: "json \<Rightarrow> exn + json list" where
  "py_iter (JList xs) = Inr xs"
| "py_iter (JDict kvs) = Inr (map (\<lambda>kv. JStr (fst kv)) kvs)"
| "py_iter (JStr s) = Inr (map (\<lambda>c. JStr [c]) s)"
| "py_iter JNull = Inl (not_iterable ''NoneType'')"
| "py_iter (JBool b) = Inl (not_iterable ''bool'')"
| "py_iter (JInt n) = Inl (not_iterable ''int'')"

section \<open>Response extraction (\<^verbatim>\<open>instances_cli.py\<close>)\<close>

text \<open>
  \<^verbatim>\<open>_extract_instances_from_response\<close> hands a JMESPath expression to
  \<^verbatim>\<open>jmespath.search\<close>. The interpreter of that library is modelled for the node kinds
  the expression parses to: a field (\<^verbatim>\<open>value.get(name)\<close>, \<^verbatim>\<open>None\<close> when the value is
  no dictionary), a subexpression \<^verbatim>\<open>a.b\<close>, the flatten operator \<^verbatim>\<open>[]\<close> (one level,
  \<^verbatim>\<open>None\<close> on a non-list), a projection (the right side applied to every element, the
  \<^verbatim>\<open>None\<close> results dropped, \<^verbatim>\<open>None\<close> on a non-list) and the multi-select hash
  \<^verbatim>\<open>{k: e, ...}\<close> (\<^verbatim>\<open>None\<close> on \<^verbatim>\<open>None\<close>).
\<close>

datatype expr =
    Field str
  | Subexpression "expr list"
  | Flatten expr
  | Projection expr expr
  | MultiSelectDict "(str \<times> expr) list"

fun visit :: "expr \<Rightarrow> json \<Rightarrow> json" where
  "visit (Field k) v =
     (case v of
        JDict kvs \<Rightarrow> (case map_of kvs k of Some x \<Rightarrow> x | None \<Rightarrow> JNull)
      | _ \<Rightarrow> JNull)"
| "visit (Subexpression es) v = fold (\<lambda>e r. visit e r) es v"
| "visit (Flatten e) v =
     (case visit e v of
        JList xs \<Rightarrow> JList (concat (map (\<lambda>x. case x of JList ys \<Rightarrow> ys | _ \<Rightarrow> [x]) xs))
      | _ \<Rightarrow> JNull)"
| "visit (Projection l r) v =
     (case visit l v of
        JList xs \<Rightarrow> JList (filter (\<lambda>c. c \<noteq> JNull) (map (visit r) xs))
      | _ \<Rightarrow> JNull)"
| "visit (MultiSelectDict kes) v =
     (if v = JNull then JNull else JDict (map (\<lambda>(k, e). (k, visit e v)) kes))"

text \<open>
  The expression
  \<^verbatim>\<open>Reservations[].Instances[].{id: InstanceId, state: State.Name, type: InstanceType, az: Placement.AvailabilityZone}\<close>
  as the library parses it: each \<^verbatim>\<open>[]\<close> flattens what stands to its left and projects
  what follows it.
\<close>

definition expression :: expr where
  "expression =
     Projection
       (Flatten (Projection (Flatten (Field (lit ''Reservations''))) (Field (lit ''Instances''))))
       (MultiSelectDict
          [(lit ''id'', Field (lit ''InstanceId'')),
           (lit ''state'', Subexpression [Field (lit ''State''), Field (lit ''Name'')]),
           (lit ''type'', Field (lit ''InstanceType'')),
           (lit ''az'',
            Subexpression [Field (lit ''Placement''), Field (lit ''AvailabilityZone'')])])"

definition search :: "expr \<Rightarrow> json \<Rightarrow> json" where
  "search e v = visit e v"

definition extract_instances_from_response :: "json \<Rightarrow> json" where
  "extract_instances_from_response response =
     (let instances = search expression response
      in if truthy instances then instances else JList [])"

section \<open>Credential resolution (\<^verbatim>\<open>config.py\<close>)\<close>

text \<open>
  The process environment \<^verbatim>\<open>os.environ\<close>, after the one-time \<^verbatim>\<open>load_dotenv()\<close>
  at import, is a map from names to values; \<^verbatim>\<open>os.getenv(k)\<close> is the lookup and
  \<^verbatim>\<open>os.getenv(k, d)\<close> the lookup with a default.
\<close>

type_synonym env = "str \<rightharpoonup> str"

definition getenv_default :: "env \<Rightarrow> str \<Rightarrow> str \<Rightarrow> str" where
  "getenv_default environ k d = (case environ k of Some v \<Rightarrow> v | None \<Rightarrow> d)"

definition get_aws_region :: "env \<Rightarrow> str" where
  "get_aws_region environ =
     getenv_default environ (lit ''AWS_DEFAULT_REGION'') (lit ''us-east-1'')"

text \<open>\<^verbatim>\<open>not x\<close> for \<^verbatim>\<open>x = os.getenv(k)\<close>: the value is \<^verbatim>\<open>None\<close> or the empty string.\<close>

definition falsy :: "str option \<Rightarrow> bool" where
  "falsy x = (case x of None \<Rightarrow> True | Some s \<Rightarrow> s = [])"

definition get_aws_credentials :: "env \<Rightarrow> exn + (str \<rightharpoonup> str)" where
  "get_aws_credentials environ =
     (let access_key = environ (lit ''AWS_ACCESS_KEY_ID'');
          secret_key = environ (lit ''AWS_SECRET_ACCESS_KEY'');
          session_token = environ (lit ''AWS_SESSION_TOKEN'')
      in if falsy access_key \<or> falsy secret_key
         then Inl (exception ValueError
                (lit (''AWS credentials not found. '' @
                 ''Please set AWS_ACCESS_KEY_ID and AWS_SECRET_ACCESS_KEY in your .env file.'')))
         else
           (let credentials =
                  [lit ''aws_access_key_id'' \<mapsto> the access_key,
                   lit ''aws_secret_access_key'' \<mapsto> the secret_key,
                   lit ''region_name'' \<mapsto> get_aws_region environ]
            in if \<not> falsy session_token
               then Inr (credentials(lit ''aws_session_token'' \<mapsto> the session_token))
               else Inr credentials))"

section \<open>The terminal and the remote API\<close>

text \<open>
  What a handler does besides returning is kept in a \<open>world\<close>: the lines still to
  be read from standard input (\<^verbatim>\<open>input()\<close> at the end of the input raises
  \<^verbatim>\<open>EOFError\<close>), what was written to standard output (one entry for each
  \<^verbatim>\<open>print\<close> call and for each prompt of \<^verbatim>\<open>input\<close>), and the requests sent to the
  remote API so far.
\<close>

record ec2_filter =
  Name :: str
  Values :: "str list"

datatype request =
    DescribeInstances "ec2_filter list option"
  | RunInstances (ImageId: str) (InstanceType: str) (MinCount: int) (MaxCount: int)
  | StopInstances "str list"
  | StartInstances "str list"
  | RebootInstances "str list"
  | TerminateInstances "str list"

datatype out = Prompt str | Print str

record world =
  stdin :: "str list"
  stdout :: "out list"
  calls :: "request list"

text \<open>
  The EC2 client is the remote side: it answers a request, given the requests sent
  before it, with a response or by raising.
\<close>

type_synonym ec2_client = "request list \<Rightarrow> request \<Rightarrow> exn + json"

type_synonym 'a io = "world \<Rightarrow> (exn + 'a) \<times> world"

definition bind_io :: "'a io \<Rightarrow> ('a \<Rightarrow> 'b io) \<Rightarrow> 'b io" where
  "bind_io m f w = (case m w of (Inl e, w') \<Rightarrow> (Inl e, w') | (Inr x, w') \<Rightarrow> f x w')"

definition seq_io :: "'a io \<Rightarrow> 'b io \<Rightarrow> 'b io" where
  "seq_io m k = bind_io m (\<lambda>_. k)"

definition return_io :: "'a \<Rightarrow> 'a io" where
  "return_io x w = (Inr x, w)"

definition raise_io :: "exn \<Rightarrow> 'a io" where
  "raise_io e w = (Inl e, w)"

definition lift_res :: "exn + 'a \<Rightarrow> 'a io" where
  "lift_res r w = (r, w)"

text \<open>A run of consecutive \<^verbatim>\<open>print\<close> calls.\<close>

definition prints :: "str list \<Rightarrow> unit io" where
  "prints ls w = (Inr (), w\<lparr>stdout := stdout w @ map Print ls\<rparr>)"

definition py_input :: "str \<Rightarrow> str io" where
  "py_input prompt w =
     (case stdin w of
        [] \<Rightarrow> (Inl (exception EOFError (lit ''EOF when reading a line'')),
               w\<lparr>stdout := stdout w @ [Prompt prompt]\<rparr>)
      | l # ls \<Rightarrow> (Inr l, w\<lparr>stdin := ls, stdout := stdout w @ [Prompt prompt]\<rparr>))"

definition remote_call :: "ec2_client \<Rightarrow> request \<Rightarrow> json io" where
  "remote_call ec2 req w = (ec2 (calls w) req, w\<lparr>calls := calls w @ [req]\<rparr>)"

text \<open>
  \<^verbatim>\<open>try: body except ClientError as exc: handler\<close>; the handlers of the program use
  \<open>exc\<close> only through \<^verbatim>\<open>str(exc)\<close>, in an f-string.
\<close>

definition except_ClientError :: "'a io \<Rightarrow> (str \<Rightarrow> 'a io) \<Rightarrow> 'a io" where
  "except_ClientError body handler w =
     (case body w of
        (Inl e, w') \<Rightarrow> if isinstance e ClientError then handler (str_exn e) w' else (Inl e, w')
      | (Inr x, w') \<Rightarrow> (Inr x, w'))"

text \<open>\<^verbatim>\<open>"=" * n\<close>.\<close>

definition rule :: "nat \<Rightarrow> str" where
  "rule n = concat (replicate n (lit ''=''))"

section \<open>Command handlers (\<^verbatim>\<open>instances_cli.py\<close>)\<close>

function prompt_non_empty :: "str \<Rightarrow> str io" where
  "prompt_non_empty prompt_text w =
     (case py_input prompt_text w of
        (Inl e, w') \<Rightarrow> (Inl e, w')
      | (Inr line, w') \<Rightarrow>
          (let v = strip line
           in if v \<noteq> [] then (Inr v, w')
              else prompt_non_empty prompt_text
                     (snd (prints [lit ''Error: This value is required. Please try again.'']
                             w'))))"
  by pat_completeness auto
termination
  by (relation "measure (\<lambda>(p, w). length (stdin w))")
     (auto simp: py_input_def prints_def split: list.splits)

text \<open>One row of the listing; the fields are read and formatted from left to right.\<close>

definition instance_row :: "json \<Rightarrow> exn + str" where
  "instance_row inst =
     bind_res (subscript_key inst (lit ''id'')) (\<lambda>i.
     bind_res (format_left 20 i) (\<lambda>fi.
     bind_res (subscript_key inst (lit ''state'')) (\<lambda>s.
     bind_res (format_left 12 s) (\<lambda>fs.
     bind_res (subscript_key inst (lit ''type'')) (\<lambda>t.
     bind_res (format_left 12 t) (\<lambda>ft.
     bind_res (subscript_key inst (lit ''az'')) (\<lambda>a.
       Inr (lit ''ID: '' @ fi @ lit '' State: '' @ fs @ lit '' Type: '' @ ft @
            lit '' AZ: '' @ py_str a))))))))"

fun print_rows :: "json list \<Rightarrow> unit io" where
  "print_rows [] = return_io ()"
| "print_rows (inst # insts) =
     bind_io (lift_res (instance_row inst)) (\<lambda>row.
     seq_io (prints [row]) (print_rows insts))"

definition list_instances :: "ec2_client \<Rightarrow> str option \<Rightarrow> unit io" where
  "list_instances ec2 state_filter =
     except_ClientError
       (let filters = (if \<not> falsy state_filter
                       then [\<lparr>Name = lit ''instance-state-name'',
                              Values = [the state_filter]\<rparr>]
                       else [])
        in bind_io (remote_call ec2
                      (if filters \<noteq> [] then DescribeInstances (Some filters)
                       else DescribeInstances None)) (\<lambda>response.
           let instances = extract_instances_from_response response
           in if \<not> truthy instances
              then (if \<not> falsy state_filter
                    then prints [lit ''\<newline>No instances found in state: '' @ the state_filter]
                    else prints [lit ''\<newline>No instances found in this account or region.''])
              else
                seq_io (prints [lit ''\<newline>'' @ rule 70,
                                if \<not> falsy state_filter
                                then lit ''Instances with state: '' @ the state_filter
                                else lit ''All Instances'',
                                rule 70])
               (bind_io (lift_res (py_iter instances)) (\<lambda>insts.
                seq_io (print_rows insts)
                       (prints [rule 70])))))
       (\<lambda>exc. prints [lit ''\<newline>Error: Failed to list instances.'', lit ''Details: '' @ exc])"

definition create_instance :: "ec2_client \<Rightarrow> unit io" where
  "create_instance ec2 =
     seq_io (prints [lit ''\<newline>'' @ rule 70, lit ''Create EC2 Instance'', rule 70,
                     lit ''Note: Use Free Tier eligible options (t2.micro or t3.micro)'', []])
    (bind_io (prompt_non_empty
                (lit ''AMI ID (example for us-west-2 AL2023: ami-0b8c6b923777519db): ''))
       (\<lambda>ami_id.
     bind_io (prompt_non_empty
                (lit ''Instance type (Free Tier: t2.micro or t3.micro): ''))
       (\<lambda>instance_type.
     except_ClientError
       (bind_io (remote_call ec2 (RunInstances ami_id instance_type 1 1)) (\<lambda>response.
        bind_io (lift_res
                   (bind_res (subscript_key response (lit ''Instances'')) (\<lambda>is.
                    bind_res (subscript_index is 0) (\<lambda>i.
                    subscript_key i (lit ''InstanceId''))))) (\<lambda>instance_id.
        prints [lit ''\<newline>Success: Instance created with ID: '' @ py_str instance_id,
                rule 70])))
       (\<lambda>exc. prints [lit ''\<newline>Error: Failed to create instance.'', lit ''Details: '' @ exc,
                       rule 70]))))"

definition stop_instance :: "ec2_client \<Rightarrow> unit io" where
  "stop_instance ec2 =
     seq_io (prints [lit ''\<newline>'' @ rule 70, lit ''Stop EC2 Instance'', rule 70])
    (bind_io (prompt_non_empty (lit ''Instance ID to stop: '')) (\<lambda>instance_id.
     except_ClientError
       (seq_io (remote_call ec2 (StopInstances [instance_id]))
               (prints [lit ''\<newline>Success: Stop request sent for instance '' @ instance_id,
                        rule 70]))
       (\<lambda>exc. prints [lit ''\<newline>Error: Failed to stop instance '' @ instance_id,
                       lit ''Details: '' @ exc, rule 70])))"

definition start_instance :: "ec2_client \<Rightarrow> unit io" where
  "start_instance ec2 =
     seq_io (prints [lit ''\<newline>'' @ rule 70, lit ''Start EC2 Instance'', rule 70])
    (bind_io (prompt_non_empty (lit ''Instance ID to start: '')) (\<lambda>instance_id.
     except_ClientError
       (seq_io (remote_call ec2 (StartInstances [instance_id]))
               (prints [lit ''\<newline>Success: Start request sent for instance '' @ instance_id,
                        rule 70]))
       (\<lambda>exc. prints [lit ''\<newline>Error: Failed to start instance '' @ instance_id,
                       lit ''Details: '' @ exc, rule 70])))"

definition reboot_instance :: "ec2_client \<Rightarrow> unit io" where
  "reboot_instance ec2 =
     seq_io (prints [lit ''\<newline>'' @ rule 70, lit ''Reboot EC2 Instance'', rule 70])
    (bind_io (prompt_non_empty (lit ''Instance ID to reboot: '')) (\<lambda>instance_id.
     except_ClientError
       (seq_io (remote_call ec2 (RebootInstances [instance_id]))
               (prints [lit ''\<newline>Success: Reboot request sent for instance '' @ instance_id,
                        rule 70]))
       (\<lambda>exc. prints [lit ''\<newline>Error: Failed to reboot instance '' @ instance_id,
                       lit ''Details: '' @ exc, rule 70])))"

definition terminate_instance :: "ec2_client \<Rightarrow> unit io" where
  "terminate_instance ec2 =
     seq_io (prints [lit ''\<newline>'' @ rule 70, lit ''Terminate EC2 Instance'', rule 70,
                     lit ''WARNING: This action cannot be undone!''])
    (bind_io (prompt_non_empty (lit ''Instance ID to terminate: '')) (\<lambda>instance_id.
     bind_io (py_input (lit ''\<newline>Are you sure you want to terminate '' @ instance_id @
                        lit (''?\<newline>'' @ ''Type '' @ [CHR 0x27] @ ''yes'' @ [CHR 0x27] @
                             '' to confirm: ''))) (\<lambda>line.
     let confirmation = lower (strip line)
     in if confirmation \<noteq> lit ''yes''
        then prints [lit ''\<newline>Termination cancelled.'', rule 70]
        else
          except_ClientError
            (seq_io (remote_call ec2 (TerminateInstances [instance_id]))
                    (prints [lit ''\<newline>Success: Terminate request sent for instance '' @
                               instance_id, rule 70]))
            (\<lambda>exc. prints [lit ''\<newline>Error: Failed to terminate instance '' @ instance_id,
                            lit ''Details: '' @ exc, rule 70]))))"

section \<open>The client factory (\<^verbatim>\<open>aws_client.py\<close>)\<close>

text \<open>
  \<^verbatim>\<open>boto3.client(service, **credentials)\<close> belongs to the SDK: it is a parameter that
  returns a client or raises. The \<^verbatim>\<open>except\<close> clauses are tried in the order of the
  source, each catching the instances of its class; an exception that is an instance of
  none of the three classes leaves the factory as it is.
\<close>

type_synonym boto3_client = "str \<Rightarrow> (str \<rightharpoonup> str) \<Rightarrow> exn + ec2_client"

definition create_ec2_client :: "env \<Rightarrow> boto3_client \<Rightarrow> ec2_client io" where
  "create_ec2_client environ boto3_client =
     (case bind_res (get_aws_credentials environ)
             (\<lambda>credentials. boto3_client (lit ''ec2'') credentials) of
        Inr ec2 \<Rightarrow> return_io ec2
      | Inl exc \<Rightarrow>
          if isinstance exc ValueError
          then seq_io (prints [lit ''Configuration error: '' @ str_exn exc])
                      (raise_io (system_exit 1))
          else if isinstance exc NoCredentialsError
          then seq_io (prints [lit (''AWS credentials not found. '' @
                                    ''Please run '' @ [CHR 0x27] @ ''aws configure'' @
                                    [CHR 0x27] @ '' or set environment variables.'')])
                      (raise_io (system_exit 1))
          else if isinstance exc BotoCoreError
          then seq_io (prints [lit ''Unexpected error while creating EC2 client: '' @
                               str_exn exc])
                      (raise_io (system_exit 1))
          else raise_io exc)"

section \<open>The menu loop (\<^verbatim>\<open>main.py\<close>)\<close>

definition print_menu :: "unit io" where
  "print_menu =
     prints [lit ''\<newline>'' @ rule 50, lit ''Cloud Instance Manager'', rule 50,
             lit ''1. List all instances'', lit ''2. Create new instance'',
             lit ''3. Stop instance'', lit ''4. Start instance'', lit ''5. Reboot instance'',
             lit ''6. Terminate instance'', lit ''7. Filter instances by state'',
             lit ''0. Exit'', rule 50]"

definition valid_states :: "str list" where
  "valid_states =
     [lit ''pending'', lit ''running'', lit ''stopping'', lit ''stopped'', lit ''terminated'']"

definition handle_filter_by_state :: "ec2_client \<Rightarrow> unit io" where
  "handle_filter_by_state ec2 =
     seq_io (prints [lit ''\<newline>'' @ rule 50, lit ''Filter Instances by State'', rule 50,
                     lit ''Available states:'', lit ''  - pending'', lit ''  - running'',
                     lit ''  - stopping'', lit ''  - stopped'', lit ''  - terminated''])
    (bind_io (py_input (lit ''\<newline>Enter state to filter by: '')) (\<lambda>line.
     let state = lower (strip line)
     in if state = [] then prints [lit ''Error: State cannot be empty.'']
        else
          seq_io (if state \<notin> set valid_states
                  then prints [lit (''Warning: '' @ [CHR 0x27]) @ state @
                                 lit ([CHR 0x27] @ '' might not be a valid state.''),
                               lit ''Proceeding anyway...'']
                  else return_io ())
                 (list_instances ec2 (Some state))))"

text \<open>
  The body of the \<^verbatim>\<open>try\<close> inside \<^verbatim>\<open>while True\<close>; the result says whether the loop
  is left with \<^verbatim>\<open>break\<close>.
\<close>

definition dispatch :: "ec2_client \<Rightarrow> bool io" where
  "dispatch ec2 =
     seq_io print_menu
    (bind_io (py_input (lit ''Select an option: '')) (\<lambda>line.
     let option = strip line
     in if option = lit ''1'' then seq_io (list_instances ec2 None) (return_io False)
        else if option = lit ''2'' then seq_io (create_instance ec2) (return_io False)
        else if option = lit ''3'' then seq_io (stop_instance ec2) (return_io False)
        else if option = lit ''4'' then seq_io (start_instance ec2) (return_io False)
        else if option = lit ''5'' then seq_io (reboot_instance ec2) (return_io False)
        else if option = lit ''6'' then seq_io (terminate_instance ec2) (return_io False)
        else if option = lit ''7'' then seq_io (handle_filter_by_state ec2) (return_io False)
        else if option = lit ''0''
          then seq_io (prints [lit ''\<newline>Exiting Cloud Instance Manager. Goodbye!''])
                      (return_io True)
        else seq_io (prints [lit (''Error: '' @ [CHR 0x27]) @ option @
                               lit ([CHR 0x27] @ '' is not a valid option.'')])
                    (return_io False)))"

text \<open>
  One pass of the loop with its two \<^verbatim>\<open>except\<close> clauses, \<^verbatim>\<open>KeyboardInterrupt\<close>
  first and \<^verbatim>\<open>Exception\<close> second.
\<close>

definition loop_body :: "ec2_client \<Rightarrow> bool io" where
  "loop_body ec2 w =
     (case dispatch ec2 w of
        (Inr stop, w') \<Rightarrow> (Inr stop, w')
      | (Inl exc, w') \<Rightarrow>
          if isinstance exc KeyboardInterrupt
          then seq_io (prints [lit ''\<newline>\<newline>Operation cancelled by user.'',
                               lit ''Exiting Cloud Instance Manager. Goodbye!''])
                      (return_io True) w'
          else if isinstance exc Exception
          then seq_io (prints [lit ''\<newline>Unexpected error: '' @ str_exn exc,
                               lit ''Please try again or contact support.''])
                      (return_io False) w'
          else (Inl exc, w'))"

text \<open>
  The loop need not end (at the end of the input every pass raises \<^verbatim>\<open>EOFError\<close>,
  which the second clause catches): \<open>None\<close> is the run that never returns.
\<close>

partial_function (option) main_loop :: "ec2_client \<Rightarrow> world \<Rightarrow> ((exn + unit) \<times> world) option"
where
  "main_loop ec2 w =
     (case loop_body ec2 w of
        (Inl e, w') \<Rightarrow> Some (Inl e, w')
      | (Inr stop, w') \<Rightarrow> if stop then Some (Inr (), w') else main_loop ec2 w')"

text \<open>
  \<^verbatim>\<open>main()\<close>: the call of the factory stands in a \<^verbatim>\<open>try\<close> whose only clause,
  \<^verbatim>\<open>except SystemExit\<close>, returns.
\<close>

definition main :: "env \<Rightarrow> boto3_client \<Rightarrow> world \<Rightarrow> ((exn + unit) \<times> world) option" where
  "main environ boto3_client w =
     (case create_ec2_client environ boto3_client w of
        (Inr ec2, w') \<Rightarrow> main_loop ec2 w'
      | (Inl exc, w') \<Rightarrow>
          if isinstance exc SystemExit then Some (Inr (), w') else Some (Inl exc, w'))"

text \<open>
  The module runs \<^verbatim>\<open>main()\<close> and ends. The interpreter's exit status is 0 after a
  normal return, the code of an uncaught \<^verbatim>\<open>SystemExit\<close> (its low eight bits), and 1
  after any other uncaught exception (an uncaught interrupt ends the process by its signal, which a
  shell reports as 130).
\<close>

definition exit_status :: "exn + unit \<Rightarrow> int" where
  "exit_status r =
     (case r of
        Inr u \<Rightarrow> 0
      | Inl exc \<Rightarrow>
          if isinstance exc SystemExit then code exc mod 256
          else if isinstance exc KeyboardInterrupt then 130
          else 1)"

definition run_module :: "env \<Rightarrow> boto3_client \<Rightarrow> world \<Rightarrow> (int \<times> world) option" where
  "run_module environ boto3_client w =
     map_option (\<lambda>(r, w'). (exit_status r, w')) (main environ boto3_client w)"

section \<open>The summary of an instance, in the words of the specification\<close>

text \<open>
  The specification (section 4.3) describes the result of the extraction without
  JMESPath: every instance record is projected to exactly four fields, the identifier,
  the lifecycle-state name, the instance-type name and the availability-zone name, the
  second and the fourth nested under a sub-record. \<open>instance_summary\<close> writes this
  down for an instance record given as a dictionary; a field that is missing is
  \<^verbatim>\<open>None\<close>. It is compared below with what the code computes.
\<close>

definition member :: "(str \<times> json) list \<Rightarrow> str \<Rightarrow> json" where
  "member record k = (case map_of record k of Some v \<Rightarrow> v | None \<Rightarrow> JNull)"

definition nested_member :: "(str \<times> json) list \<Rightarrow> str \<Rightarrow> str \<Rightarrow> json" where
  "nested_member record k1 k2 =
     (case map_of record k1 of
        Some (JDict sub) \<Rightarrow> member sub k2
      | _ \<Rightarrow> JNull)"

definition instance_summary :: "(str \<times> json) list \<Rightarrow> json" where
  "instance_summary inst =
     JDict [(lit ''id'', member inst (lit ''InstanceId'')),
            (lit ''state'', nested_member inst (lit ''State'') (lit ''Name'')),
            (lit ''type'', member inst (lit ''InstanceType'')),
            (lit ''az'', nested_member inst (lit ''Placement'') (lit ''AvailabilityZone''))]"

section \<open>Properties of strings and exceptions\<close>

lemma lit_Nil [simp]: "lit [] = []"
  by (simp add: lit_def)

lemma lit_Cons: "lit (c # s) = of_char c # lit s"
  by (simp add: lit_def)

lemma lit_eq_iff [simp]: "lit a = lit b \<longleftrightarrow> a = b"
  unfolding lit_def by (rule inj_map_eq_map) (simp add: inj_on_def)

lemma lit_eq_Nil_iff [simp]: "lit a = [] \<longleftrightarrow> a = []" "[] = lit a \<longleftrightarrow> a = []"
  by (auto simp: lit_def)

lemma length_lit [simp]: "length (lit a) = length a"
  by (simp add: lit_def)

lemma lit_append_lit [simp]:
  "lit a @ lit b = lit (a @ b)" "lit a @ lit b @ r = lit (a @ b) @ r"
  by (simp_all add: lit_def)

text \<open>Evaluation of \<open>strip\<close> and \<open>lower\<close> on given strings.\<close>

lemmas strip_eval = strip_def is_space_def in_ranges_def lit_def

lemma to_lower_full_below:
  "c < 0xC0 \<Longrightarrow> to_lower_full c = [if 0x41 \<le> c \<and> c \<le> 0x5A then c + 0x20 else c]"
  by (simp add: to_lower_full_def lower_table_def)

lemma lower_from_below:
  "\<forall>c\<in>set s. c < 0xC0 \<Longrightarrow>
   lower_from pre s = map (\<lambda>c. if 0x41 \<le> c \<and> c \<le> 0x5A then c + 0x20 else c) s"
  by (induction s arbitrary: pre) (simp_all add: to_lower_full_below)

lemma lower_below:
  "\<forall>c\<in>set s. c < 0xC0 \<Longrightarrow>
   lower s = map (\<lambda>c. if 0x41 \<le> c \<and> c \<le> 0x5A then c + 0x20 else c) s"
  by (simp add: lower_def lower_from_below)

lemma isinstance_exception [simp]: "isinstance (exception c m) k \<longleftrightarrow> k \<in> set (mro_of c)"
  by (simp add: isinstance_def exception_def)

lemma str_exn_exception [simp]: "str_exn (exception c m) = m"
  by (simp add: exception_def)

lemma exception_eq_iff [simp]:
  "exception c m = exception c' m' \<longleftrightarrow> mro_of c = mro_of c' \<and> m = m'"
  by (simp add: exception_def)

lemma isinstance_system_exit [simp]:
  "isinstance (system_exit n) k \<longleftrightarrow> k = SystemExit \<or> k = BaseException"
  by (auto simp: isinstance_def system_exit_def)

lemma code_system_exit [simp]: "code (system_exit n) = n"
  by (simp add: system_exit_def)

section \<open>Properties of the response extraction\<close>

lemma flatten_records:
  "concat (map (\<lambda>x. case x of JList ys \<Rightarrow> ys | _ \<Rightarrow> [x]) (map JDict rs)) = map JDict rs"
  by (induction rs) simp_all

lemma project_instances:
  "list_all2 (\<lambda>r is. map_of r (lit ''Instances'') = Some (JList (map JDict is))) rs iss \<Longrightarrow>
   filter (\<lambda>c. c \<noteq> JNull) (map (visit (Field (lit ''Instances''))) (map JDict rs))
     = map (\<lambda>is. JList (map JDict is)) iss"
  by (induction rs iss rule: list_all2_induct) simp_all

lemma flatten_instances:
  "concat (map (\<lambda>x. case x of JList ys \<Rightarrow> ys | _ \<Rightarrow> [x]) (map (\<lambda>is. JList (map JDict is)) iss))
     = map JDict (concat iss)"
  by (induction iss) simp_all

lemma project_summaries:
  "filter (\<lambda>c. c \<noteq> JNull)
     (map (visit (MultiSelectDict
          [(lit ''id'', Field (lit ''InstanceId'')),
           (lit ''state'', Subexpression [Field (lit ''State''), Field (lit ''Name'')]),
           (lit ''type'', Field (lit ''InstanceType'')),
           (lit ''az'', Subexpression [Field (lit ''Placement''), Field (lit ''AvailabilityZone'')])]))
        (map JDict is))
   = map instance_summary is"
proof -
  have "visit (MultiSelectDict
          [(lit ''id'', Field (lit ''InstanceId'')),
           (lit ''state'', Subexpression [Field (lit ''State''), Field (lit ''Name'')]),
           (lit ''type'', Field (lit ''InstanceType'')),
           (lit ''az'', Subexpression [Field (lit ''Placement''), Field (lit ''AvailabilityZone'')])])
        (JDict i) = instance_summary i" for i
    by (simp add: instance_summary_def member_def nested_member_def
             split: option.splits json.splits)
  then show ?thesis by (induction "is") (simp_all add: instance_summary_def)
qed

lemma extract_well_formed:
  assumes "map_of response (lit ''Reservations'') = Some (JList (map JDict rs))"
    and "list_all2 (\<lambda>r is. map_of r (lit ''Instances'') = Some (JList (map JDict is))) rs iss"
  shows "extract_instances_from_response (JDict response)
           = JList (map instance_summary (concat iss))"
proof -
  let ?reservations = "Flatten (Field (lit ''Reservations''))"
  let ?instances = "Flatten (Projection ?reservations (Field (lit ''Instances'')))"
  have 1: "visit ?reservations (JDict response) = JList (map JDict rs)"
    using assms(1) by (simp add: flatten_records del: map_map)
  have 2: "visit (Projection ?reservations (Field (lit ''Instances''))) (JDict response)
             = JList (map (\<lambda>is. JList (map JDict is)) iss)"
    unfolding visit.simps(4) 1 using project_instances [OF assms(2)] by (simp del: map_map)
  have 3: "visit ?instances (JDict response) = JList (map JDict (concat iss))"
    unfolding visit.simps(3) 2 by (simp only: json.case flatten_instances)
  have "search expression (JDict response) = JList (map instance_summary (concat iss))"
    unfolding search_def expression_def visit.simps(4) [of ?instances] 3
    by (simp only: json.case project_summaries)
  then show ?thesis
    by (cases "concat iss") (simp_all add: extract_instances_from_response_def)
qed

text \<open>
  Claim C1. Let the response be a dictionary whose \<^verbatim>\<open>Reservations\<close> entry is the list
  of the reservation records \<open>rs\<close>, and let \<open>iss\<close> list, reservation by reservation,
  the instance records under \<^verbatim>\<open>Instances\<close>. Then the extraction returns the summaries
  of all instances, flattened in reservation order and, within a reservation, in
  instance order; every element is the dictionary with exactly the keys \<^verbatim>\<open>id\<close>,
  \<^verbatim>\<open>state\<close>, \<^verbatim>\<open>type\<close>, \<^verbatim>\<open>az\<close> that \<^const>\<open>instance_summary\<close> builds. In particular
  two reservations with one instance each give the two summaries, the first
  reservation's first.
\<close>

theorem extract_flattens_in_order:
  assumes "map_of response (lit ''Reservations'') = Some (JList (map JDict rs))"
    and "list_all2 (\<lambda>r is. map_of r (lit ''Instances'') = Some (JList (map JDict is))) rs iss"
  shows "extract_instances_from_response (JDict response)
           = JList (map instance_summary (concat iss))
         \<and> (\<forall>i1 i2. iss = [[i1], [i2]] \<longrightarrow>
              extract_instances_from_response (JDict response)
                = JList [JDict [(lit ''id'', member i1 (lit ''InstanceId'')),
                                (lit ''state'', nested_member i1 (lit ''State'') (lit ''Name'')),
                                (lit ''type'', member i1 (lit ''InstanceType'')),
                                (lit ''az'',
                                 nested_member i1 (lit ''Placement'')
                                   (lit ''AvailabilityZone''))],
                         JDict [(lit ''id'', member i2 (lit ''InstanceId'')),
                                (lit ''state'', nested_member i2 (lit ''State'') (lit ''Name'')),
                                (lit ''type'', member i2 (lit ''InstanceType'')),
                                (lit ''az'',
                                 nested_member i2 (lit ''Placement'')
                                   (lit ''AvailabilityZone''))]])"
  using extract_well_formed [OF assms] by (simp add: instance_summary_def)

theorem extract_flattens_in_order_witness:
  "extract_instances_from_response
     (JDict [(lit ''Reservations'', JList
        [JDict [(lit ''Instances'', JList
           [JDict [(lit ''InstanceId'', JStr (lit ''i-111'')),
                   (lit ''State'', JDict [(lit ''Name'', JStr (lit ''running''))]),
                   (lit ''InstanceType'', JStr (lit ''t2.micro'')),
                   (lit ''Placement'', JDict [(lit ''AvailabilityZone'', JStr (lit ''us-west-2a''))])]])],
         JDict [(lit ''Instances'', JList
           [JDict [(lit ''InstanceId'', JStr (lit ''i-222'')),
                   (lit ''State'', JDict [(lit ''Name'', JStr (lit ''stopped''))]),
                   (lit ''InstanceType'', JStr (lit ''t3.micro'')),
                   (lit ''Placement'', JDict [(lit ''AvailabilityZone'', JStr (lit ''us-west-2b''))])]])]])])
   = JList [JDict [(lit ''id'', JStr (lit ''i-111'')), (lit ''state'', JStr (lit ''running'')),
                   (lit ''type'', JStr (lit ''t2.micro'')), (lit ''az'', JStr (lit ''us-west-2a''))],
            JDict [(lit ''id'', JStr (lit ''i-222'')), (lit ''state'', JStr (lit ''stopped'')),
                   (lit ''type'', JStr (lit ''t3.micro'')), (lit ''az'', JStr (lit ''us-west-2b''))]]"
  using extract_flattens_in_order
    [of "[(lit ''Reservations'', JList
        [JDict [(lit ''Instances'', JList
           [JDict [(lit ''InstanceId'', JStr (lit ''i-111'')),
                   (lit ''State'', JDict [(lit ''Name'', JStr (lit ''running''))]),
                   (lit ''InstanceType'', JStr (lit ''t2.micro'')),
                   (lit ''Placement'', JDict [(lit ''AvailabilityZone'', JStr (lit ''us-west-2a''))])]])],
         JDict [(lit ''Instances'', JList
           [JDict [(lit ''InstanceId'', JStr (lit ''i-222'')),
                   (lit ''State'', JDict [(lit ''Name'', JStr (lit ''stopped''))]),
                   (lit ''InstanceType'', JStr (lit ''t3.micro'')),
                   (lit ''Placement'', JDict [(lit ''AvailabilityZone'', JStr (lit ''us-west-2b''))])]])]])]"
        "[[(lit ''Instances'', JList
           [JDict [(lit ''InstanceId'', JStr (lit ''i-111'')),
                   (lit ''State'', JDict [(lit ''Name'', JStr (lit ''running''))]),
                   (lit ''InstanceType'', JStr (lit ''t2.micro'')),
                   (lit ''Placement'', JDict [(lit ''AvailabilityZone'', JStr (lit ''us-west-2a''))])]])],
          [(lit ''Instances'', JList
           [JDict [(lit ''InstanceId'', JStr (lit ''i-222'')),
                   (lit ''State'', JDict [(lit ''Name'', JStr (lit ''stopped''))]),
                   (lit ''InstanceType'', JStr (lit ''t3.micro'')),
                   (lit ''Placement'', JDict [(lit ''AvailabilityZone'', JStr (lit ''us-west-2b''))])]])]]"
        "[[[(lit ''InstanceId'', JStr (lit ''i-111'')),
            (lit ''State'', JDict [(lit ''Name'', JStr (lit ''running''))]),
            (lit ''InstanceType'', JStr (lit ''t2.micro'')),
            (lit ''Placement'', JDict [(lit ''AvailabilityZone'', JStr (lit ''us-west-2a''))])]],
          [[(lit ''InstanceId'', JStr (lit ''i-222'')),
            (lit ''State'', JDict [(lit ''Name'', JStr (lit ''stopped''))]),
            (lit ''InstanceType'', JStr (lit ''t3.micro'')),
            (lit ''Placement'', JDict [(lit ''AvailabilityZone'', JStr (lit ''us-west-2b''))])]]]"]
  by (simp add: instance_summary_def member_def nested_member_def)

lemma projection_cases:
  "visit (Projection l r) v = JNull \<or> (\<exists>xs. visit (Projection l r) v = JList xs)"
  by (cases "visit l v") simp_all

text \<open>
  Claim C2. The extraction is total: whatever the response is, it returns a list and
  raises nothing. A response without the \<^verbatim>\<open>Reservations\<close> key, one with an empty
  reservation list and one whose only reservation has an empty instance list all give
  the empty list.
\<close>

theorem extract_total:
  "(\<exists>xs. extract_instances_from_response response = JList xs)
   \<and> extract_instances_from_response (JDict []) = JList []
   \<and> extract_instances_from_response (JDict [(lit ''Reservations'', JList [])]) = JList []
   \<and> extract_instances_from_response
        (JDict [(lit ''Reservations'', JList [JDict [(lit ''Instances'', JList [])]])]) = JList []"
proof (intro conjI)
  have "search expression response = JNull
        \<or> (\<exists>xs. search expression response = JList xs)"
    unfolding search_def expression_def by (rule projection_cases)
  then show "\<exists>xs. extract_instances_from_response response = JList xs"
    unfolding extract_instances_from_response_def by (auto simp: Let_def)
qed (simp_all add: extract_instances_from_response_def search_def expression_def)

theorem extract_total_witness:
  "\<exists>xs. extract_instances_from_response (JStr (lit ''not a response'')) = JList xs"
  using extract_total [of "JStr (lit ''not a response'')"] by simp

section \<open>Properties of the credential resolution\<close>

text \<open>
  Claim C3. When the access key or the secret key is absent from the environment or
  empty, the resolution fails with the \<^verbatim>\<open>ValueError\<close> that reports missing
  credentials. When both are present and not empty it succeeds, the bundle holds both
  keys, and its region is the value of \<^verbatim>\<open>AWS_DEFAULT_REGION\<close> when that is set and
  \<^verbatim>\<open>us-east-1\<close> when it is absent.
\<close>

theorem credentials_resolution:
  "(falsy (environ (lit ''AWS_ACCESS_KEY_ID''))
    \<or> falsy (environ (lit ''AWS_SECRET_ACCESS_KEY''))
      \<longrightarrow> (\<exists>m. get_aws_credentials environ = Inl (exception ValueError m)))
   \<and> (environ (lit ''AWS_ACCESS_KEY_ID'') = Some a \<and> a \<noteq> [] \<and>
        environ (lit ''AWS_SECRET_ACCESS_KEY'') = Some s \<and> s \<noteq> []
      \<longrightarrow> (\<exists>bundle. get_aws_credentials environ = Inr bundle
             \<and> bundle (lit ''aws_access_key_id'') = Some a
             \<and> bundle (lit ''aws_secret_access_key'') = Some s
             \<and> (\<forall>r. environ (lit ''AWS_DEFAULT_REGION'') = Some r
                  \<longrightarrow> bundle (lit ''region_name'') = Some r)
             \<and> (environ (lit ''AWS_DEFAULT_REGION'') = None
                  \<longrightarrow> bundle (lit ''region_name'') = Some (lit ''us-east-1''))))"
  by (auto simp: get_aws_credentials_def falsy_def get_aws_region_def getenv_default_def Let_def)

theorem credentials_resolution_witness:
  "(\<exists>m. get_aws_credentials Map.empty = Inl (exception ValueError m))
   \<and> (\<exists>m. get_aws_credentials [lit ''AWS_ACCESS_KEY_ID'' \<mapsto> lit ''A'', lit ''AWS_SECRET_ACCESS_KEY'' \<mapsto> []]
             = Inl (exception ValueError m))
   \<and> (\<exists>bundle. get_aws_credentials
                   [lit ''AWS_ACCESS_KEY_ID'' \<mapsto> lit ''A'', lit ''AWS_SECRET_ACCESS_KEY'' \<mapsto> lit ''B'']
                 = Inr bundle
        \<and> bundle (lit ''region_name'') = Some (lit ''us-east-1''))
   \<and> (\<exists>bundle. get_aws_credentials
                   [lit ''AWS_ACCESS_KEY_ID'' \<mapsto> lit ''test_access_key'',
                    lit ''AWS_SECRET_ACCESS_KEY'' \<mapsto> lit ''test_secret_key'',
                    lit ''AWS_DEFAULT_REGION'' \<mapsto> lit ''us-west-2'']
                 = Inr bundle
        \<and> bundle (lit ''region_name'') = Some (lit ''us-west-2''))"
  using credentials_resolution [of Map.empty]
    credentials_resolution
      [of "[lit ''AWS_ACCESS_KEY_ID'' \<mapsto> lit ''A'', lit ''AWS_SECRET_ACCESS_KEY'' \<mapsto> []]"]
    credentials_resolution
      [of "[lit ''AWS_ACCESS_KEY_ID'' \<mapsto> lit ''A'', lit ''AWS_SECRET_ACCESS_KEY'' \<mapsto> lit ''B'']"
          "lit ''A''" "lit ''B''"]
    credentials_resolution
      [of "[lit ''AWS_ACCESS_KEY_ID'' \<mapsto> lit ''test_access_key'',
            lit ''AWS_SECRET_ACCESS_KEY'' \<mapsto> lit ''test_secret_key'',
            lit ''AWS_DEFAULT_REGION'' \<mapsto> lit ''us-west-2'']"
          "lit ''test_access_key''" "lit ''test_secret_key''"]
  by (auto simp: falsy_def)

text \<open>
  Claim C4. When the resolution succeeds, the bundle has an \<^verbatim>\<open>aws_session_token\<close>
  entry if and only if \<^verbatim>\<open>AWS_SESSION_TOKEN\<close> is present in the environment and not
  empty; the entry then is that value, and it is never the empty string (an absent or
  empty token leaves the key out).
\<close>

theorem session_token_iff:
  "get_aws_credentials environ = Inr bundle \<Longrightarrow>
   (lit ''aws_session_token'' \<in> dom bundle
      \<longleftrightarrow> (\<exists>t. environ (lit ''AWS_SESSION_TOKEN'') = Some t \<and> t \<noteq> []))
   \<and> (lit ''aws_session_token'' \<in> dom bundle
        \<longrightarrow> bundle (lit ''aws_session_token'') = environ (lit ''AWS_SESSION_TOKEN''))
   \<and> bundle (lit ''aws_session_token'') \<noteq> Some []"
  by (auto simp: get_aws_credentials_def falsy_def Let_def split: if_splits option.splits)

theorem session_token_iff_witness:
  "(\<exists>bundle. get_aws_credentials
                [lit ''AWS_ACCESS_KEY_ID'' \<mapsto> lit ''A'', lit ''AWS_SECRET_ACCESS_KEY'' \<mapsto> lit ''B'',
                 lit ''AWS_SESSION_TOKEN'' \<mapsto> lit ''T''] = Inr bundle
      \<and> bundle (lit ''aws_session_token'') = Some (lit ''T''))
   \<and> (\<exists>bundle. get_aws_credentials
                [lit ''AWS_ACCESS_KEY_ID'' \<mapsto> lit ''A'', lit ''AWS_SECRET_ACCESS_KEY'' \<mapsto> lit ''B'',
                 lit ''AWS_SESSION_TOKEN'' \<mapsto> []] = Inr bundle
      \<and> lit ''aws_session_token'' \<notin> dom bundle)
   \<and> (\<exists>bundle. get_aws_credentials
                [lit ''AWS_ACCESS_KEY_ID'' \<mapsto> lit ''A'', lit ''AWS_SECRET_ACCESS_KEY'' \<mapsto> lit ''B'']
              = Inr bundle
      \<and> lit ''aws_session_token'' \<notin> dom bundle)"
proof -
  let ?e1 = "[lit ''AWS_ACCESS_KEY_ID'' \<mapsto> lit ''A'', lit ''AWS_SECRET_ACCESS_KEY'' \<mapsto> lit ''B'',
              lit ''AWS_SESSION_TOKEN'' \<mapsto> lit ''T'']"
  let ?e2 = "[lit ''AWS_ACCESS_KEY_ID'' \<mapsto> lit ''A'', lit ''AWS_SECRET_ACCESS_KEY'' \<mapsto> lit ''B'',
              lit ''AWS_SESSION_TOKEN'' \<mapsto> []]"
  let ?e3 = "[lit ''AWS_ACCESS_KEY_ID'' \<mapsto> lit ''A'', lit ''AWS_SECRET_ACCESS_KEY'' \<mapsto> lit ''B'']"
  obtain b1 where b1: "get_aws_credentials ?e1 = Inr b1"
    by (auto simp: get_aws_credentials_def falsy_def Let_def)
  obtain b2 where b2: "get_aws_credentials ?e2 = Inr b2"
    by (auto simp: get_aws_credentials_def falsy_def Let_def)
  obtain b3 where b3: "get_aws_credentials ?e3 = Inr b3"
    by (auto simp: get_aws_credentials_def falsy_def Let_def)
  show ?thesis
    using session_token_iff [OF b1] session_token_iff [OF b2] session_token_iff [OF b3] b1 b2 b3
    by auto
qed

section \<open>Properties of the command handlers\<close>

lemma seq_prints [simp]:
  "seq_io (prints ls) k w = k (w\<lparr>stdout := stdout w @ map Print ls\<rparr>)"
  by (simp add: seq_io_def bind_io_def prints_def)

lemma bind_io_Inr: "m w = (Inr x, w') \<Longrightarrow> bind_io m f w = f x w'"
  by (simp add: bind_io_def)

lemma bind_io_Inl: "m w = (Inl e, w') \<Longrightarrow> bind_io m f w = (Inl e, w')"
  by (simp add: bind_io_def)

declare prompt_non_empty.simps [simp del]

lemma prompt_non_empty_eof:
  "stdin w = [] \<Longrightarrow>
   prompt_non_empty p w
     = (Inl (exception EOFError (lit ''EOF when reading a line'')), w\<lparr>stdout := stdout w @ [Prompt p]\<rparr>)"
  by (subst prompt_non_empty.simps) (simp add: py_input_def)

lemma prompt_non_empty_value:
  "stdin w = l # ls \<Longrightarrow> strip l \<noteq> [] \<Longrightarrow>
   prompt_non_empty p w = (Inr (strip l), w\<lparr>stdin := ls, stdout := stdout w @ [Prompt p]\<rparr>)"
  by (subst prompt_non_empty.simps) (simp add: py_input_def)

lemma prompt_non_empty_blank:
  "stdin w = l # ls \<Longrightarrow> strip l = [] \<Longrightarrow>
   prompt_non_empty p w
     = prompt_non_empty p
         (w\<lparr>stdin := ls,
            stdout := stdout w @
              [Prompt p, Print (lit ''Error: This value is required. Please try again.'')]\<rparr>)"
  by (subst prompt_non_empty.simps) (simp add: py_input_def prints_def)

lemma prompt_non_empty_reads:
  "stdin w = blanks @ l # rest \<Longrightarrow> \<forall>b\<in>set blanks. strip b = [] \<Longrightarrow> strip l \<noteq> [] \<Longrightarrow>
   prompt_non_empty p w
     = (Inr (strip l),
        w\<lparr>stdin := rest,
          stdout := stdout w @
            concat (map (\<lambda>b. [Prompt p,
                               Print (lit ''Error: This value is required. Please try again.'')])
                      blanks) @
            [Prompt p]\<rparr>)"
proof (induction blanks arbitrary: w)
  case Nil
  then show ?case by (simp add: prompt_non_empty_value)
next
  case (Cons b blanks)
  then show ?case by (simp add: prompt_non_empty_blank)
qed

lemma prompt_non_empty_cases:
  "(\<exists>m w'. prompt_non_empty p w = (Inl (exception EOFError m), w') \<and> calls w' = calls w)
   \<or> (\<exists>v w'. prompt_non_empty p w = (Inr v, w') \<and> v \<noteq> [] \<and> calls w' = calls w)"
proof (induction p w rule: prompt_non_empty.induct)
  case (1 p w)
  show ?case
  proof (cases "stdin w")
    case Nil
    then show ?thesis by (simp add: prompt_non_empty_eof)
  next
    case (Cons l ls)
    show ?thesis
    proof (cases "strip l = []")
      case False
      with Cons show ?thesis by (simp add: prompt_non_empty_value)
    next
      case True
      have "py_input p w = (Inr l, w\<lparr>stdin := ls, stdout := stdout w @ [Prompt p]\<rparr>)"
        using Cons by (simp add: py_input_def)
      from "1.IH" [OF this [symmetric] refl refl] True
      show ?thesis
        using Cons by (simp add: prompt_non_empty_blank [OF Cons True] prints_def)
    qed
  qed
qed

lemma except_ClientError_Inr:
  "body w = (Inr x, w') \<Longrightarrow> except_ClientError body handler w = (Inr x, w')"
  by (simp add: except_ClientError_def)

lemma except_ClientError_caught:
  "body w = (Inl e, w') \<Longrightarrow> isinstance e ClientError \<Longrightarrow>
   except_ClientError body handler w = handler (str_exn e) w'"
  by (simp add: except_ClientError_def)

lemma except_ClientError_other:
  "body w = (Inl e, w') \<Longrightarrow> \<not> isinstance e ClientError \<Longrightarrow>
   except_ClientError body handler w = (Inl e, w')"
  by (simp add: except_ClientError_def)

lemma bind_prompt:
  "prompt_non_empty p w = (Inr v, w') \<Longrightarrow> bind_io (prompt_non_empty p) f w = f v w'"
  by (simp add: bind_io_def)

text \<open>
  Claim C9. Let the input hold, after any number of blank lines, a line \<open>a\<close> that is
  not blank and, after further blank lines, a line \<open>t\<close> that is not blank. The create
  handler prompts again after every blank line (the prompts and error lines are the
  ones listed), reads no more than that, and sends exactly one request, a launch with
  image \<open>strip a\<close>, instance type \<open>strip t\<close>, minimum count 1 and maximum count 1.
  When the response holds \<^verbatim>\<open>response["Instances"][0]["InstanceId"]\<close>, the handler
  returns normally and its last report is the success line with that identifier.
\<close>

theorem create_launches_one:
  assumes "stdin w = blanks1 @ a # blanks2 @ t # rest"
    and "\<forall>b\<in>set blanks1. strip b = []" and "strip a \<noteq> []"
    and "\<forall>b\<in>set blanks2. strip b = []" and "strip t \<noteq> []"
  shows "calls (snd (create_instance ec2 w))
           = calls w @ [RunInstances (strip a) (strip t) 1 1]
       \<and> stdin (snd (create_instance ec2 w)) = rest
       \<and> (\<exists>after. stdout (snd (create_instance ec2 w))
             = stdout w
               @ map Print [lit ''\<newline>'' @ rule 70, lit ''Create EC2 Instance'', rule 70,
                   lit ''Note: Use Free Tier eligible options (t2.micro or t3.micro)'', []]
               @ concat (map (\<lambda>b.
                   [Prompt (lit ''AMI ID (example for us-west-2 AL2023: ami-0b8c6b923777519db): ''),
                    Print (lit ''Error: This value is required. Please try again.'')]) blanks1)
               @ [Prompt (lit ''AMI ID (example for us-west-2 AL2023: ami-0b8c6b923777519db): '')]
               @ concat (map (\<lambda>b.
                   [Prompt (lit ''Instance type (Free Tier: t2.micro or t3.micro): ''),
                    Print (lit ''Error: This value is required. Please try again.'')]) blanks2)
               @ [Prompt (lit ''Instance type (Free Tier: t2.micro or t3.micro): '')]
               @ after)
       \<and> (\<forall>response insts inst instance_id.
            ec2 (calls w) (RunInstances (strip a) (strip t) 1 1) = Inr (JDict response)
            \<and> map_of response (lit ''Instances'') = Some (JList (JDict inst # insts))
            \<and> map_of inst (lit ''InstanceId'') = Some instance_id
            \<longrightarrow> fst (create_instance ec2 w) = Inr ()
              \<and> (\<exists>before. stdout (snd (create_instance ec2 w))
                    = before @ [Print ((lit ''\<newline>Success: Instance created with ID: '')
                                        @ py_str instance_id),
                                Print (rule 70)]))"
proof -
  let ?err = "lit ''Error: This value is required. Please try again.''"
  let ?p1 = "lit ''AMI ID (example for us-west-2 AL2023: ami-0b8c6b923777519db): ''"
  let ?p2 = "lit ''Instance type (Free Tier: t2.micro or t3.micro): ''"
  let ?req = "RunInstances (strip a) (strip t) 1 1"
  define try_block where "try_block = (\<lambda>ami_id instance_type.
     except_ClientError
       (bind_io (remote_call ec2 (RunInstances ami_id instance_type 1 1)) (\<lambda>response.
        bind_io (lift_res
                   (bind_res (subscript_key response (lit ''Instances'')) (\<lambda>is.
                    bind_res (subscript_index is 0) (\<lambda>i.
                    subscript_key i (lit ''InstanceId''))))) (\<lambda>instance_id.
        prints [lit ''\<newline>Success: Instance created with ID: '' @ py_str instance_id, rule 70])))
       (\<lambda>exc. prints [lit ''\<newline>Error: Failed to create instance.'', lit ''Details: '' @ exc,
                       rule 70]))"
  define w1 where "w1 = w\<lparr>stdout := stdout w @ map Print
     [lit ''\<newline>'' @ rule 70, lit ''Create EC2 Instance'', rule 70,
      lit ''Note: Use Free Tier eligible options (t2.micro or t3.micro)'', []]\<rparr>"
  define w2 where "w2 = w1\<lparr>stdin := blanks2 @ t # rest,
     stdout := stdout w1 @ concat (map (\<lambda>b. [Prompt ?p1, Print ?err]) blanks1) @ [Prompt ?p1]\<rparr>"
  define w3 where "w3 = w2\<lparr>stdin := rest,
     stdout := stdout w2 @ concat (map (\<lambda>b. [Prompt ?p2, Print ?err]) blanks2) @ [Prompt ?p2]\<rparr>"
  have r1: "prompt_non_empty ?p1 w1 = (Inr (strip a), w2)"
    unfolding w2_def using assms(1-3) by (intro prompt_non_empty_reads) (simp_all add: w1_def)
  have r2: "prompt_non_empty ?p2 w2 = (Inr (strip t), w3)"
    unfolding w3_def using assms(4-5) by (intro prompt_non_empty_reads) (simp_all add: w2_def)
  have unfold: "create_instance ec2 w = try_block (strip a) (strip t) w3"
    unfolding create_instance_def try_block_def
    by (simp only: seq_prints w1_def [symmetric] bind_prompt [OF r1] bind_prompt [OF r2])
  have frame: "calls (snd (try_block ami ty v)) = calls v @ [RunInstances ami ty 1 1]
      \<and> stdin (snd (try_block ami ty v)) = stdin v
      \<and> (\<exists>after. stdout (snd (try_block ami ty v)) = stdout v @ after)" for ami ty v
    unfolding try_block_def
    by (auto simp: except_ClientError_def bind_io_def remote_call_def lift_res_def prints_def
             split: sum.splits if_splits)
  have success: "fst (try_block ami ty v) = Inr ()
     \<and> (\<exists>before. stdout (snd (try_block ami ty v))
           = before @ [Print (lit ''\<newline>Success: Instance created with ID: '' @ py_str instance_id),
                       Print (rule 70)])"
    if "ec2 (calls v) (RunInstances ami ty 1 1) = Inr (JDict response)"
      and "map_of response (lit ''Instances'') = Some (JList (JDict inst # insts))"
      and "map_of inst (lit ''InstanceId'') = Some instance_id"
    for response insts inst instance_id ami ty v
    unfolding try_block_def using that
    by (simp add: except_ClientError_def bind_io_def remote_call_def lift_res_def
                  bind_res_def prints_def)
  have w3: "calls w3 = calls w" "stdin w3 = rest"
    "stdout w3 = stdout w
               @ map Print [lit ''\<newline>'' @ rule 70, lit ''Create EC2 Instance'', rule 70,
                   lit ''Note: Use Free Tier eligible options (t2.micro or t3.micro)'', []]
               @ concat (map (\<lambda>b. [Prompt ?p1, Print ?err]) blanks1) @ [Prompt ?p1]
               @ concat (map (\<lambda>b. [Prompt ?p2, Print ?err]) blanks2) @ [Prompt ?p2]"
    by (simp_all add: w3_def w2_def w1_def)
  from frame [of "strip a" "strip t" w3]
  obtain after where after: "stdout (snd (try_block (strip a) (strip t) w3)) = stdout w3 @ after"
    by blast
  show ?thesis
  proof (intro conjI allI impI)
    show "calls (snd (create_instance ec2 w)) = calls w @ [?req]"
      using frame [of "strip a" "strip t" w3] by (simp add: unfold w3(1))
    show "stdin (snd (create_instance ec2 w)) = rest"
      using frame [of "strip a" "strip t" w3] by (simp add: unfold w3(2))
    show "\<exists>after. stdout (snd (create_instance ec2 w))
             = stdout w
               @ map Print [lit ''\<newline>'' @ rule 70, lit ''Create EC2 Instance'', rule 70,
                   lit ''Note: Use Free Tier eligible options (t2.micro or t3.micro)'', []]
               @ concat (map (\<lambda>b. [Prompt ?p1, Print ?err]) blanks1) @ [Prompt ?p1]
               @ concat (map (\<lambda>b. [Prompt ?p2, Print ?err]) blanks2) @ [Prompt ?p2]
               @ after"
      unfolding unfold after w3(3) by (intro exI [of _ after]) (simp only: append_assoc)
  next
    fix response insts inst instance_id
    assume "ec2 (calls w) ?req = Inr (JDict response)
            \<and> map_of response (lit ''Instances'') = Some (JList (JDict inst # insts))
            \<and> map_of inst (lit ''InstanceId'') = Some instance_id"
    then show "fst (create_instance ec2 w) = Inr ()"
      and "\<exists>before. stdout (snd (create_instance ec2 w))
                    = before @ [Print ((lit ''\<newline>Success: Instance created with ID: '')
                                        @ py_str instance_id),
                                Print (rule 70)]"
      using success [of w3 "strip a" "strip t" response inst insts instance_id]
      by (simp_all add: unfold w3(1))
  qed
qed

theorem create_launches_one_witness:
  "calls (snd (create_instance
       (\<lambda>history request.
          Inr (JDict [(lit ''Instances'',
                       JList [JDict [(lit ''InstanceId'', JStr (lit ''i-new123''))]])]))
       \<lparr>stdin = [[0x3000], lit ''ami-12345'', lit ''  '', lit '' t2.micro ''],
        stdout = [], calls = []\<rparr>))
     = [RunInstances (lit ''ami-12345'') (lit ''t2.micro'') 1 1]
   \<and> fst (create_instance
       (\<lambda>history request.
          Inr (JDict [(lit ''Instances'',
                       JList [JDict [(lit ''InstanceId'', JStr (lit ''i-new123''))]])]))
       \<lparr>stdin = [[0x3000], lit ''ami-12345'', lit ''  '', lit '' t2.micro ''],
        stdout = [], calls = []\<rparr>)
     = Inr ()
   \<and> (\<exists>before. stdout (snd (create_instance
       (\<lambda>history request.
          Inr (JDict [(lit ''Instances'',
                       JList [JDict [(lit ''InstanceId'', JStr (lit ''i-new123''))]])]))
       \<lparr>stdin = [[0x3000], lit ''ami-12345'', lit ''  '', lit '' t2.micro ''],
        stdout = [], calls = []\<rparr>))
     = before @ [Print (lit ''\<newline>Success: Instance created with ID: i-new123''),
                 Print (rule 70)])"
proof -
  let ?w = "\<lparr>stdin = [[0x3000], lit ''ami-12345'', lit ''  '', lit '' t2.micro ''],
        stdout = [], calls = []\<rparr>"
  have shape: "stdin ?w = [[0x3000]] @ lit ''ami-12345'' # [lit ''  ''] @ lit '' t2.micro '' # []"
    by simp
  have blank1: "\<forall>b\<in>set [[0x3000]]. strip b = []"
    and blank2: "\<forall>b\<in>set [lit ''  '']. strip b = []"
    and value1: "strip (lit ''ami-12345'') \<noteq> []"
    and value2: "strip (lit '' t2.micro '') \<noteq> []"
    by (simp_all add: strip_eval)
  have strips: "strip (lit ''ami-12345'') = lit ''ami-12345''"
    "strip (lit '' t2.micro '') = lit ''t2.micro''"
    by (simp_all add: strip_eval)
  show ?thesis
    using create_launches_one [OF shape blank1 value1 blank2 value2,
        of "\<lambda>history request.
              Inr (JDict [(lit ''Instances'',
                           JList [JDict [(lit ''InstanceId'', JStr (lit ''i-new123''))]])])"]
    by (simp add: strips)
qed

lemma bind_input:
  "stdin v = l # ls \<Longrightarrow>
   bind_io (py_input p) f v = f l (v\<lparr>stdin := ls, stdout := stdout v @ [Prompt p]\<rparr>)"
  by (simp add: bind_io_def py_input_def)

lemma try_request:
  "except_ClientError (seq_io (remote_call ec2 req) (prints ok)) (\<lambda>exc. prints (err exc)) v
     = (case ec2 (calls v) req of
          Inr response \<Rightarrow>
            (Inr (), v\<lparr>stdout := stdout v @ map Print ok, calls := calls v @ [req]\<rparr>)
        | Inl e \<Rightarrow>
            if isinstance e ClientError
            then (Inr (), v\<lparr>stdout := stdout v @ map Print (err (str_exn e)),
                            calls := calls v @ [req]\<rparr>)
            else (Inl e, v\<lparr>calls := calls v @ [req]\<rparr>))"
  by (simp add: except_ClientError_def seq_io_def bind_io_def remote_call_def prints_def
           split: sum.splits if_splits)

text \<open>
  Claim C5, as amended. Let the terminate handler read the instance identifier (the
  first line \<open>l\<close> that is not blank, stripped) and then the confirmation line \<open>c\<close>.
  When \<open>c\<close>, stripped of surrounding white space and put in lower case, is \<^verbatim>\<open>yes\<close>,
  the handler sends exactly one terminate request, for the one-element list of the
  identifier. Otherwise it sends nothing, returns normally, and ends its output with
  the cancellation message.
\<close>

theorem terminate_confirmation:
  assumes "stdin w = blanks @ l # c # rest"
    and "\<forall>b\<in>set blanks. strip b = []" and "strip l \<noteq> []"
  shows "(lower (strip c) = lit ''yes'' \<longrightarrow>
            calls (snd (terminate_instance ec2 w)) = calls w @ [TerminateInstances [strip l]])
       \<and> (lower (strip c) \<noteq> lit ''yes'' \<longrightarrow>
            calls (snd (terminate_instance ec2 w)) = calls w
            \<and> fst (terminate_instance ec2 w) = Inr ()
            \<and> (\<exists>before. stdout (snd (terminate_instance ec2 w))
                  = before @ [Print (lit ''\<newline>Termination cancelled.''), Print (rule 70)]))"
proof -
  let ?err = "lit ''Error: This value is required. Please try again.''"
  let ?p = "lit ''Instance ID to terminate: ''"
  define w1 where "w1 = w\<lparr>stdout := stdout w @ map Print
     [lit ''\<newline>'' @ rule 70, lit ''Terminate EC2 Instance'', rule 70,
      lit ''WARNING: This action cannot be undone!'']\<rparr>"
  define w2 where "w2 = w1\<lparr>stdin := c # rest,
     stdout := stdout w1 @ concat (map (\<lambda>b. [Prompt ?p, Print ?err]) blanks) @ [Prompt ?p]\<rparr>"
  define w3 where "w3 = w2\<lparr>stdin := rest,
     stdout := stdout w2 @
       [Prompt (lit ''\<newline>Are you sure you want to terminate '' @ strip l @
                lit (''?\<newline>'' @ ''Type '' @ [CHR 0x27] @ ''yes'' @ [CHR 0x27] @
                     '' to confirm: ''))]\<rparr>"
  have r1: "prompt_non_empty ?p w1 = (Inr (strip l), w2)"
    unfolding w2_def using assms by (intro prompt_non_empty_reads) (simp_all add: w1_def)
  have in2: "stdin w2 = c # rest" by (simp add: w2_def)
  have c3: "calls w3 = calls w" by (simp add: w3_def w2_def w1_def)
  have unfold: "terminate_instance ec2 w =
      (if lower (strip c) \<noteq> lit ''yes''
       then prints [lit ''\<newline>Termination cancelled.'', rule 70] w3
       else except_ClientError
            (seq_io (remote_call ec2 (TerminateInstances [strip l]))
                    (prints [lit ''\<newline>Success: Terminate request sent for instance '' @
                               strip l, rule 70]))
            (\<lambda>exc. prints [lit ''\<newline>Error: Failed to terminate instance '' @ strip l,
                            lit ''Details: '' @ exc, rule 70]) w3)"
    unfolding terminate_instance_def
    by (simp only: seq_prints w1_def [symmetric] bind_prompt [OF r1] bind_input [OF in2]
                   w3_def [symmetric] Let_def if_distribR)
  show ?thesis
  proof (intro conjI impI)
    assume "lower (strip c) = lit ''yes''"
    then show "calls (snd (terminate_instance ec2 w)) = calls w @ [TerminateInstances [strip l]]"
      unfolding unfold try_request
      by (simp add: c3 split: sum.splits if_splits)
  next
    assume no: "lower (strip c) \<noteq> lit ''yes''"
    then show "calls (snd (terminate_instance ec2 w)) = calls w"
      and "fst (terminate_instance ec2 w) = Inr ()"
      and "\<exists>before. stdout (snd (terminate_instance ec2 w))
                  = before @ [Print (lit ''\<newline>Termination cancelled.''), Print (rule 70)]"
      unfolding unfold by (simp_all add: prints_def c3)
  qed
qed

theorem terminate_confirmation_witness:
  "calls (snd (terminate_instance (\<lambda>history request. Inr (JDict []))
       \<lparr>stdin = [lit ''i-x'', lit ''YES''], stdout = [], calls = []\<rparr>))
     = [TerminateInstances [lit ''i-x'']]
   \<and> calls (snd (terminate_instance (\<lambda>history request. Inr (JDict []))
       \<lparr>stdin = [lit ''i-x'', lit ''yes'' @ [0xA0]], stdout = [], calls = []\<rparr>))
     = [TerminateInstances [lit ''i-x'']]
   \<and> calls (snd (terminate_instance (\<lambda>history request. Inr (JDict []))
       \<lparr>stdin = [lit ''i-x'', lit ''no''], stdout = [], calls = []\<rparr>)) = []
   \<and> fst (terminate_instance (\<lambda>history request. Inr (JDict []))
       \<lparr>stdin = [lit ''i-x'', lit ''no''], stdout = [], calls = []\<rparr>) = Inr ()
   \<and> (\<exists>before. stdout (snd (terminate_instance (\<lambda>history request. Inr (JDict []))
       \<lparr>stdin = [lit ''i-x'', lit ''no''], stdout = [], calls = []\<rparr>))
         = before @ [Print (lit ''\<newline>Termination cancelled.''), Print (rule 70)])"
proof -
  have id: "strip (lit ''i-x'') \<noteq> []" "strip (lit ''i-x'') = lit ''i-x''"
    by (simp_all add: strip_eval)
  have yes: "lower (strip (lit ''YES'')) = lit ''yes''"
    and nbsp: "lower (strip (lit ''yes'' @ [0xA0])) = lit ''yes''"
    and no: "lower (strip (lit ''no'')) \<noteq> lit ''yes''"
    by (simp_all add: strip_eval lower_below)
  have blank: "\<forall>b\<in>set ([] :: str list). strip b = []" by simp
  have s1: "stdin \<lparr>stdin = [lit ''i-x'', lit ''YES''], stdout = [], calls = []\<rparr>
              = [] @ lit ''i-x'' # lit ''YES'' # []"
    and s2: "stdin \<lparr>stdin = [lit ''i-x'', lit ''yes'' @ [0xA0]], stdout = [], calls = []\<rparr>
              = [] @ lit ''i-x'' # (lit ''yes'' @ [0xA0]) # []"
    and s3: "stdin \<lparr>stdin = [lit ''i-x'', lit ''no''], stdout = [], calls = []\<rparr>
              = [] @ lit ''i-x'' # lit ''no'' # []"
    by simp_all
  show ?thesis
    using terminate_confirmation [OF s1 blank id(1), of "\<lambda>history request. Inr (JDict [])"]
      terminate_confirmation [OF s2 blank id(1), of "\<lambda>history request. Inr (JDict [])"]
      terminate_confirmation [OF s3 blank id(1), of "\<lambda>history request. Inr (JDict [])"]
    by (simp add: yes nbsp no id(2))
qed

text \<open>
  The claim as stated compares the confirmation case-insensitively only. The line
  \<^verbatim>\<open>" yes"\<close> is not \<^verbatim>\<open>yes\<close> in any case, and yet the request is sent: the source strips
  the line before it compares.
\<close>

theorem terminate_confirmation_counterexample:
  "lower (lit '' yes'') \<noteq> lit ''yes''
   \<and> calls (snd (terminate_instance (\<lambda>history request. Inr (JDict []))
       \<lparr>stdin = [lit ''i-x'', lit '' yes''], stdout = [], calls = []\<rparr>))
     = [TerminateInstances [lit ''i-x'']]"
proof -
  have id: "strip (lit ''i-x'') \<noteq> []" "strip (lit ''i-x'') = lit ''i-x''"
    by (simp_all add: strip_eval)
  have "prompt_non_empty (lit ''Instance ID to terminate: '')
          \<lparr>stdin = [lit ''i-x'', lit '' yes''],
           stdout = map Print [lit ''\<newline>'' @ rule 70, lit ''Terminate EC2 Instance'', rule 70,
                               lit ''WARNING: This action cannot be undone!''],
           calls = []\<rparr>
        = (Inr (lit ''i-x''),
           \<lparr>stdin = [lit '' yes''],
            stdout = map Print [lit ''\<newline>'' @ rule 70, lit ''Terminate EC2 Instance'', rule 70,
                                lit ''WARNING: This action cannot be undone!'']
                     @ [Prompt (lit ''Instance ID to terminate: '')],
            calls = []\<rparr>)"
    by (subst prompt_non_empty_value [where l = "lit ''i-x''" and ls = "[lit '' yes'']"])
       (simp_all add: id)
  then show ?thesis
    by (simp add: terminate_instance_def bind_io_def py_input_def try_request
                  strip_eval lower_below)
qed

text \<open>
  Claim C10. When the line entered at the filter entry point is empty after stripping
  white space, the handler prints the error line and returns at once: it sends no
  request, so the empty filter never becomes an unfiltered listing.
\<close>

theorem filter_empty_state:
  assumes "stdin w = l # rest" and "strip l = []"
  shows "handle_filter_by_state ec2 w
           = (Inr (),
              w\<lparr>stdin := rest,
                stdout := stdout w @
                  map Print [lit ''\<newline>'' @ rule 50, lit ''Filter Instances by State'', rule 50,
                     lit ''Available states:'', lit ''  - pending'', lit ''  - running'', lit ''  - stopping'',
                     lit ''  - stopped'', lit ''  - terminated''] @
                  [Prompt (lit ''\<newline>Enter state to filter by: ''),
                   Print (lit ''Error: State cannot be empty.'')]\<rparr>)
       \<and> calls (snd (handle_filter_by_state ec2 w)) = calls w"
  using assms
  by (simp add: handle_filter_by_state_def bind_io_def py_input_def prints_def lower_def)

theorem filter_empty_state_witness:
  "calls (snd (handle_filter_by_state (\<lambda>history request. Inr (JDict []))
       \<lparr>stdin = [[0x20, 0x3000, 0xA0, 0x85]], stdout = [], calls = []\<rparr>)) = []
   \<and> fst (handle_filter_by_state (\<lambda>history request. Inr (JDict []))
       \<lparr>stdin = [[0x20, 0x3000, 0xA0, 0x85]], stdout = [], calls = []\<rparr>) = Inr ()
   \<and> last (stdout (snd (handle_filter_by_state (\<lambda>history request. Inr (JDict []))
       \<lparr>stdin = [[0x20, 0x3000, 0xA0, 0x85]], stdout = [], calls = []\<rparr>)))
       = Print (lit ''Error: State cannot be empty.'')"
proof -
  have s: "stdin \<lparr>stdin = [[0x20, 0x3000, 0xA0, 0x85]], stdout = [], calls = []\<rparr>
             = [0x20, 0x3000, 0xA0, 0x85] # []"
    by simp
  have b: "strip [0x20, 0x3000, 0xA0, 0x85] = []" by (simp add: strip_eval)
  show ?thesis
    using filter_empty_state [OF s b, of "\<lambda>history request. Inr (JDict [])"] by simp
qed

lemma print_rows_calls: "calls (snd (print_rows insts v)) = calls v"
proof (induction insts arbitrary: v)
  case Nil
  then show ?case by (simp add: return_io_def)
next
  case (Cons inst insts)
  then show ?case
    by (cases "instance_row inst") (simp_all add: bind_io_def lift_res_def)
qed

lemma except_ClientError_calls:
  "calls (snd (body v)) = c \<Longrightarrow>
   calls (snd (except_ClientError body (\<lambda>exc. prints (err exc)) v)) = c"
  by (cases "body v")
     (auto simp: except_ClientError_def prints_def split: sum.splits if_splits)

lemma bind_remote_calls:
  "(\<And>response u. calls (snd (k response u)) = calls u) \<Longrightarrow>
   calls (snd (bind_io (remote_call ec2 req) k v)) = calls v @ [req]"
  by (simp add: bind_io_def remote_call_def split: sum.splits)

lemma listing_calls:
  "calls (snd (bind_io (lift_res r) (\<lambda>insts. seq_io (print_rows insts) (prints ls)) u))
     = calls u"
proof (cases r)
  case (Inl e)
  then show ?thesis by (simp add: bind_io_def lift_res_def)
next
  case (Inr insts)
  then show ?thesis
    using print_rows_calls [of insts u]
    by (cases "print_rows insts u")
       (auto simp: bind_io_def lift_res_def seq_io_def prints_def split: sum.splits)
qed

lemma list_instances_calls:
  "calls (snd (list_instances ec2 state_filter v))
     = calls v @ [if \<not> falsy state_filter
                  then DescribeInstances
                         (Some [\<lparr>Name = lit ''instance-state-name'', Values = [the state_filter]\<rparr>])
                  else DescribeInstances None]"
  unfolding list_instances_def Let_def
  by (rule except_ClientError_calls, subst bind_remote_calls)
     (simp_all add: listing_calls, simp_all add: prints_def)

text \<open>
  Claim C8, as amended. Let the state be the line entered at the filter entry point,
  stripped of surrounding white space and put in lower case. When that state is not
  empty and not among the known states, the handler prints the warning (naming the
  state in this form) and the line \<^verbatim>\<open>Proceeding anyway...\<close>, and then is the list
  operation with that state as the filter: exactly one describe request is sent, its
  filter value the state.
\<close>

theorem filter_unknown_state:
  assumes "stdin w = l # rest"
    and "lower (strip l) \<noteq> []" and "lower (strip l) \<notin> set valid_states"
  shows "handle_filter_by_state ec2 w
           = list_instances ec2 (Some (lower (strip l)))
               (w\<lparr>stdin := rest,
                  stdout := stdout w @
                    map Print [lit ''\<newline>'' @ rule 50, lit ''Filter Instances by State'', rule 50,
                       lit ''Available states:'', lit ''  - pending'', lit ''  - running'',
                       lit ''  - stopping'', lit ''  - stopped'', lit ''  - terminated''] @
                    [Prompt (lit ''\<newline>Enter state to filter by: ''),
                     Print (lit (''Warning: '' @ [CHR 0x27]) @ lower (strip l) @
                              lit ([CHR 0x27] @ '' might not be a valid state.'')),
                     Print (lit ''Proceeding anyway...'')]\<rparr>)
       \<and> calls (snd (handle_filter_by_state ec2 w))
           = calls w @ [DescribeInstances
                          (Some [\<lparr>Name = lit ''instance-state-name'',
                                  Values = [lower (strip l)]\<rparr>])]"
proof -
  have eq: "handle_filter_by_state ec2 w
           = list_instances ec2 (Some (lower (strip l)))
               (w\<lparr>stdin := rest,
                  stdout := stdout w @
                    map Print [lit ''\<newline>'' @ rule 50, lit ''Filter Instances by State'', rule 50,
                       lit ''Available states:'', lit ''  - pending'', lit ''  - running'',
                       lit ''  - stopping'', lit ''  - stopped'', lit ''  - terminated''] @
                    [Prompt (lit ''\<newline>Enter state to filter by: ''),
                     Print (lit (''Warning: '' @ [CHR 0x27]) @ lower (strip l) @
                              lit ([CHR 0x27] @ '' might not be a valid state.'')),
                     Print (lit ''Proceeding anyway...'')]\<rparr>)"
    using assms
    by (simp add: handle_filter_by_state_def bind_io_def py_input_def Let_def)
  show ?thesis
    unfolding eq list_instances_calls using assms(2) by (simp add: eq falsy_def)
qed

theorem filter_unknown_state_witness:
  "calls (snd (handle_filter_by_state
       (\<lambda>history request. Inr (JDict [(lit ''Reservations'', JList [])]))
       \<lparr>stdin = [lit '' Shutting-Down ''], stdout = [], calls = []\<rparr>))
     = [DescribeInstances
          (Some [\<lparr>Name = lit ''instance-state-name'', Values = [lit ''shutting-down'']\<rparr>])]
   \<and> calls (snd (handle_filter_by_state
       (\<lambda>history request. Inr (JDict [(lit ''Reservations'', JList [])]))
       \<lparr>stdin = [0xC9 # lit ''TEINT''], stdout = [], calls = []\<rparr>))
     = [DescribeInstances
          (Some [\<lparr>Name = lit ''instance-state-name'', Values = [0xE9 # lit ''teint'']\<rparr>])]"
proof -
  have s1: "stdin \<lparr>stdin = [lit '' Shutting-Down ''], stdout = [], calls = []\<rparr>
             = lit '' Shutting-Down '' # []"
    and s2: "stdin \<lparr>stdin = [0xC9 # lit ''TEINT''], stdout = [], calls = []\<rparr>
             = (0xC9 # lit ''TEINT'') # []"
    by simp_all
  have n1: "lower (strip (lit '' Shutting-Down '')) = lit ''shutting-down''"
    by (simp add: strip_eval lower_below)
  have n2: "lower (strip (0xC9 # lit ''TEINT'')) = 0xE9 # lit ''teint''"
    by (simp add: strip_eval lower_def to_lower_full_def lower_table_def)
  have a1: "lower (strip (lit '' Shutting-Down '')) \<noteq> []"
    and b1: "lower (strip (lit '' Shutting-Down '')) \<notin> set valid_states"
    unfolding n1 by (simp_all add: valid_states_def)
  have a2: "lower (strip (0xC9 # lit ''TEINT'')) \<noteq> []"
    and b2: "lower (strip (0xC9 # lit ''TEINT'')) \<notin> set valid_states"
    unfolding n2 by (simp_all add: valid_states_def lit_def)
  show ?thesis
    using filter_unknown_state [OF s1 a1 b1,
        of "\<lambda>history request. Inr (JDict [(lit ''Reservations'', JList [])])",
        THEN conjunct2]
      filter_unknown_state [OF s2 a2 b2,
        of "\<lambda>history request. Inr (JDict [(lit ''Reservations'', JList [])])",
        THEN conjunct2]
    by (simp add: n1 n2)
qed

text \<open>
  The claim as stated speaks of the string entered. \<^verbatim>\<open>STOPPED\<close> is not empty and not in
  the list of known states; the handler prints no warning for it and filters by
  \<^verbatim>\<open>stopped\<close>, not by the string entered.
\<close>

theorem filter_unknown_state_counterexample:
  "lit ''STOPPED'' \<noteq> [] \<and> lit ''STOPPED'' \<notin> set valid_states
   \<and> handle_filter_by_state
       (\<lambda>history request. Inr (JDict [(lit ''Reservations'', JList [])]))
       \<lparr>stdin = [lit ''STOPPED''], stdout = [], calls = []\<rparr>
     = (Inr (),
        \<lparr>stdin = [],
         stdout = map Print [lit ''\<newline>'' @ rule 50, lit ''Filter Instances by State'', rule 50,
                       lit ''Available states:'', lit ''  - pending'', lit ''  - running'',
                       lit ''  - stopping'', lit ''  - stopped'', lit ''  - terminated''] @
                  [Prompt (lit ''\<newline>Enter state to filter by: ''),
                   Print (lit ''\<newline>No instances found in state: stopped'')],
         calls = [DescribeInstances
                    (Some [\<lparr>Name = lit ''instance-state-name'',
                            Values = [lit ''stopped'']\<rparr>])]\<rparr>)"
proof -
  have n: "lower (strip (lit ''STOPPED'')) = lit ''stopped''"
    by (simp add: strip_eval lower_below)
  have e: "extract_instances_from_response (JDict [(lit ''Reservations'', JList [])]) = JList []"
    by (simp add: extract_instances_from_response_def search_def expression_def)
  show ?thesis
    by (simp add: handle_filter_by_state_def bind_io_def py_input_def n valid_states_def
          return_io_def seq_io_def list_instances_def falsy_def except_ClientError_def
          remote_call_def e prints_def Let_def)
qed

subsection \<open>Failures of the remote call\<close>

lemma try_bind_request_calls:
  "(\<And>response u. calls (snd (k response u)) = calls u) \<Longrightarrow>
   calls (snd (except_ClientError (bind_io (remote_call ec2 req) k)
                 (\<lambda>exc. prints (err exc)) v)) = calls v @ [req]"
  by (rule except_ClientError_calls) (rule bind_remote_calls)

lemma try_bind_request_failure:
  "ec2 (calls v) req = Inl e \<Longrightarrow>
   except_ClientError (bind_io (remote_call ec2 req) k) (\<lambda>exc. prints (err exc)) v
     = (if isinstance e ClientError
        then (Inr (), v\<lparr>stdout := stdout v @ map Print (err (str_exn e)),
                        calls := calls v @ [req]\<rparr>)
        else (Inl e, v\<lparr>calls := calls v @ [req]\<rparr>))"
  by (simp add: except_ClientError_def bind_io_def remote_call_def prints_def)

lemma try_request_calls:
  "calls (snd (except_ClientError (seq_io (remote_call ec2 req) (prints ok))
                 (\<lambda>exc. prints (err exc)) v)) = calls v @ [req]"
  unfolding try_request by (simp split: sum.splits)

lemma try_request_failure:
  "ec2 (calls v) req = Inl e \<Longrightarrow>
   except_ClientError (seq_io (remote_call ec2 req) (prints ok)) (\<lambda>exc. prints (err exc)) v
     = (if isinstance e ClientError
        then (Inr (), v\<lparr>stdout := stdout v @ map Print (err (str_exn e)),
                        calls := calls v @ [req]\<rparr>)
        else (Inl e, v\<lparr>calls := calls v @ [req]\<rparr>))"
  unfolding try_request by simp

lemma prompt_then_try:
  assumes "calls (snd (bind_io (prompt_non_empty p) (\<lambda>i.
             except_ClientError (seq_io (remote_call ec2 (mk i)) (prints (ok i)))
               (\<lambda>exc. prints (err i exc))) v)) = calls v @ [req]"
    and "ec2 (calls v) req = Inl e"
  shows "if isinstance e ClientError
         then fst (bind_io (prompt_non_empty p) (\<lambda>i.
                except_ClientError (seq_io (remote_call ec2 (mk i)) (prints (ok i)))
                  (\<lambda>exc. prints (err i exc))) v) = Inr ()
            \<and> (\<exists>i before. req = mk i
                 \<and> stdout (snd (bind_io (prompt_non_empty p) (\<lambda>i.
                      except_ClientError (seq_io (remote_call ec2 (mk i)) (prints (ok i)))
                        (\<lambda>exc. prints (err i exc))) v))
                     = before @ map Print (err i (str_exn e)))
         else fst (bind_io (prompt_non_empty p) (\<lambda>i.
                except_ClientError (seq_io (remote_call ec2 (mk i)) (prints (ok i)))
                  (\<lambda>exc. prints (err i exc))) v) = Inl e"
proof -
  let ?attempt = "\<lambda>i. except_ClientError (seq_io (remote_call ec2 (mk i)) (prints (ok i)))
               (\<lambda>exc. prints (err i exc))"
  from prompt_non_empty_cases [of p v] show ?thesis
  proof (elim disjE exE conjE)
    fix m v'
    assume "prompt_non_empty p v = (Inl (exception EOFError m), v')" and "calls v' = calls v"
    with assms(1) show ?thesis by (simp add: bind_io_def)
  next
    fix i v'
    assume r: "prompt_non_empty p v = (Inr i, v')" and c: "calls v' = calls v"
    have b: "bind_io (prompt_non_empty p) ?attempt v = ?attempt i v'"
      by (rule bind_prompt [OF r])
    have "calls (snd (?attempt i v')) = calls v @ [mk i]"
      by (simp only: try_request_calls c)
    with assms(1) have req: "req = mk i" by (simp only: b) simp
    have "?attempt i v'
            = (if isinstance e ClientError
               then (Inr (), v'\<lparr>stdout := stdout v' @ map Print (err i (str_exn e)),
                                calls := calls v' @ [mk i]\<rparr>)
               else (Inl e, v'\<lparr>calls := calls v' @ [mk i]\<rparr>))"
      using assms(2) by (intro try_request_failure) (simp add: c req)
    then show ?thesis
      unfolding b by (auto simp: req)
  qed
qed

lemma stop_failure:
  assumes "calls (snd (stop_instance ec2 w)) = calls w @ [req]"
    and "ec2 (calls w) req = Inl e"
  shows "if isinstance e ClientError
         then fst (stop_instance ec2 w) = Inr ()
            \<and> (\<exists>i before. req = StopInstances [i]
                 \<and> stdout (snd (stop_instance ec2 w))
                     = before @ [Print (lit ''\<newline>Error: Failed to stop instance '' @ i),
                                 Print (lit ''Details: '' @ str_exn e), Print (rule 70)])
         else fst (stop_instance ec2 w) = Inl e"
  using assms
    prompt_then_try [of "lit ''Instance ID to stop: ''" ec2 "\<lambda>i. StopInstances [i]"
      "\<lambda>i. [lit ''\<newline>Success: Stop request sent for instance '' @ i, rule 70]"
      "\<lambda>i exc. [lit ''\<newline>Error: Failed to stop instance '' @ i, lit ''Details: '' @ exc,
                 rule 70]"
      "w\<lparr>stdout := stdout w @
           map Print [lit ''\<newline>'' @ rule 70, lit ''Stop EC2 Instance'', rule 70]\<rparr>"
      req e]
  unfolding stop_instance_def seq_prints by (simp split: if_splits)

lemma start_failure:
  assumes "calls (snd (start_instance ec2 w)) = calls w @ [req]"
    and "ec2 (calls w) req = Inl e"
  shows "if isinstance e ClientError
         then fst (start_instance ec2 w) = Inr ()
            \<and> (\<exists>i before. req = StartInstances [i]
                 \<and> stdout (snd (start_instance ec2 w))
                     = before @ [Print (lit ''\<newline>Error: Failed to start instance '' @ i),
                                 Print (lit ''Details: '' @ str_exn e), Print (rule 70)])
         else fst (start_instance ec2 w) = Inl e"
  using assms
    prompt_then_try [of "lit ''Instance ID to start: ''" ec2 "\<lambda>i. StartInstances [i]"
      "\<lambda>i. [lit ''\<newline>Success: Start request sent for instance '' @ i, rule 70]"
      "\<lambda>i exc. [lit ''\<newline>Error: Failed to start instance '' @ i, lit ''Details: '' @ exc,
                 rule 70]"
      "w\<lparr>stdout := stdout w @
           map Print [lit ''\<newline>'' @ rule 70, lit ''Start EC2 Instance'', rule 70]\<rparr>"
      req e]
  unfolding start_instance_def seq_prints by (simp split: if_splits)

lemma reboot_failure:
  assumes "calls (snd (reboot_instance ec2 w)) = calls w @ [req]"
    and "ec2 (calls w) req = Inl e"
  shows "if isinstance e ClientError
         then fst (reboot_instance ec2 w) = Inr ()
            \<and> (\<exists>i before. req = RebootInstances [i]
                 \<and> stdout (snd (reboot_instance ec2 w))
                     = before @ [Print (lit ''\<newline>Error: Failed to reboot instance '' @ i),
                                 Print (lit ''Details: '' @ str_exn e), Print (rule 70)])
         else fst (reboot_instance ec2 w) = Inl e"
  using assms
    prompt_then_try [of "lit ''Instance ID to reboot: ''" ec2 "\<lambda>i. RebootInstances [i]"
      "\<lambda>i. [lit ''\<newline>Success: Reboot request sent for instance '' @ i, rule 70]"
      "\<lambda>i exc. [lit ''\<newline>Error: Failed to reboot instance '' @ i, lit ''Details: '' @ exc,
                 rule 70]"
      "w\<lparr>stdout := stdout w @
           map Print [lit ''\<newline>'' @ rule 70, lit ''Reboot EC2 Instance'', rule 70]\<rparr>"
      req e]
  unfolding reboot_instance_def seq_prints by (simp split: if_splits)

lemma list_failure:
  assumes "calls (snd (list_instances ec2 state_filter w)) = calls w @ [req]"
    and "ec2 (calls w) req = Inl e"
  shows "if isinstance e ClientError
         then fst (list_instances ec2 state_filter w) = Inr ()
            \<and> (\<exists>before. stdout (snd (list_instances ec2 state_filter w))
                 = before @ [Print (lit ''\<newline>Error: Failed to list instances.''),
                             Print (lit ''Details: '' @ str_exn e)])
         else fst (list_instances ec2 state_filter w) = Inl e"
proof (cases "falsy state_filter")
  case True
  then have "req = DescribeInstances None"
    using assms(1) unfolding list_instances_calls by simp
  with assms(2) have r: "ec2 (calls w) (DescribeInstances None) = Inl e"
    by simp
  show ?thesis
    using True unfolding list_instances_def Let_def
    by (simp add: try_bind_request_failure
                    [of ec2 w "DescribeInstances None", OF r])
next
  case False
  then have "req = DescribeInstances
                     (Some [\<lparr>Name = lit ''instance-state-name'', Values = [the state_filter]\<rparr>])"
    using assms(1) unfolding list_instances_calls by simp
  with assms(2)
  have r: "ec2 (calls w)
             (DescribeInstances
                (Some [\<lparr>Name = lit ''instance-state-name'', Values = [the state_filter]\<rparr>]))
           = Inl e"
    by simp
  show ?thesis
    using False unfolding list_instances_def Let_def
    by (simp add: try_bind_request_failure
                    [of ec2 w "DescribeInstances
                       (Some [\<lparr>Name = lit ''instance-state-name'',
                                Values = [the state_filter]\<rparr>])",
                     OF r])
qed

lemma terminate_failure:
  assumes "calls (snd (terminate_instance ec2 w)) = calls w @ [req]"
    and "ec2 (calls w) req = Inl e"
  shows "if isinstance e ClientError
         then fst (terminate_instance ec2 w) = Inr ()
            \<and> (\<exists>i before. req = TerminateInstances [i]
                 \<and> stdout (snd (terminate_instance ec2 w))
                     = before @ [Print (lit ''\<newline>Error: Failed to terminate instance '' @ i),
                                 Print (lit ''Details: '' @ str_exn e), Print (rule 70)])
         else fst (terminate_instance ec2 w) = Inl e"
proof -
  let ?p = "lit ''Instance ID to terminate: ''"
  define w1 where "w1 = w\<lparr>stdout := stdout w @ map Print
     [lit ''\<newline>'' @ rule 70, lit ''Terminate EC2 Instance'', rule 70,
      lit ''WARNING: This action cannot be undone!'']\<rparr>"
  define after_id where "after_id = (\<lambda>instance_id.
     bind_io (py_input (lit ''\<newline>Are you sure you want to terminate '' @ instance_id @
                        lit (''?\<newline>'' @ ''Type '' @ [CHR 0x27] @ ''yes'' @ [CHR 0x27] @
                             '' to confirm: ''))) (\<lambda>line.
     let confirmation = lower (strip line)
     in if confirmation \<noteq> lit ''yes''
        then prints [lit ''\<newline>Termination cancelled.'', rule 70]
        else
          except_ClientError
            (seq_io (remote_call ec2 (TerminateInstances [instance_id]))
                    (prints [lit ''\<newline>Success: Terminate request sent for instance '' @
                               instance_id, rule 70]))
            (\<lambda>exc. prints [lit ''\<newline>Error: Failed to terminate instance '' @ instance_id,
                            lit ''Details: '' @ exc, rule 70])))"
  have unfold: "terminate_instance ec2 w = bind_io (prompt_non_empty ?p) after_id w1"
    unfolding terminate_instance_def after_id_def
    by (simp only: seq_prints w1_def [symmetric])
  have c1: "calls w1 = calls w" by (simp add: w1_def)
  from prompt_non_empty_cases [of ?p w1] show ?thesis
  proof (elim disjE exE conjE)
    fix m v
    assume "prompt_non_empty ?p w1 = (Inl (exception EOFError m), v)" and "calls v = calls w1"
    with assms(1) show ?thesis by (simp add: unfold bind_io_def c1)
  next
    fix i v
    assume r: "prompt_non_empty ?p w1 = (Inr i, v)" and c: "calls v = calls w1"
    have b: "terminate_instance ec2 w = after_id i v"
      unfolding unfold by (rule bind_prompt [OF r])
    show ?thesis
    proof (cases "stdin v")
      case Nil
      then have "calls (snd (after_id i v)) = calls v"
        by (simp add: after_id_def bind_io_def py_input_def)
      with assms(1) show ?thesis by (simp add: b c c1)
    next
      case (Cons line rest)
      define v' where "v' = v\<lparr>stdin := rest, stdout := stdout v @
         [Prompt (lit ''\<newline>Are you sure you want to terminate '' @ i @
                  lit (''?\<newline>'' @ ''Type '' @ [CHR 0x27] @ ''yes'' @ [CHR 0x27] @
                       '' to confirm: ''))]\<rparr>"
      have c': "calls v' = calls w" by (simp add: v'_def c c1)
      show ?thesis
      proof (cases "lower (strip line) = lit ''yes''")
        case False
        then have "calls (snd (after_id i v)) = calls v"
          by (simp add: after_id_def bind_input [OF Cons] prints_def)
        with assms(1) show ?thesis by (simp add: b c c1)
      next
        case True
        let ?attempt = "except_ClientError
            (seq_io (remote_call ec2 (TerminateInstances [i]))
                    (prints [lit ''\<newline>Success: Terminate request sent for instance '' @ i,
                             rule 70]))
            (\<lambda>exc. prints [lit ''\<newline>Error: Failed to terminate instance '' @ i,
                            lit ''Details: '' @ exc, rule 70])"
        have t: "terminate_instance ec2 w = ?attempt v'"
          unfolding b after_id_def using True
          by (simp only: bind_input [OF Cons] v'_def [symmetric] Let_def) simp
        have "calls (snd (?attempt v')) = calls w @ [TerminateInstances [i]]"
          by (simp only: try_request_calls c')
        with assms(1) have req: "req = TerminateInstances [i]" by (simp add: t)
        have "?attempt v'
                = (if isinstance e ClientError
                   then (Inr (), v'\<lparr>stdout := stdout v' @ map Print
                           [lit ''\<newline>Error: Failed to terminate instance '' @ i,
                            lit ''Details: '' @ str_exn e, rule 70],
                         calls := calls v' @ [TerminateInstances [i]]\<rparr>)
                   else (Inl e, v'\<lparr>calls := calls v' @ [TerminateInstances [i]]\<rparr>))"
          using assms(2) by (intro try_request_failure) (simp add: c' req)
        then show ?thesis
          unfolding t by (auto simp: req)
      qed
    qed
  qed
qed

lemma create_failure:
  assumes "calls (snd (create_instance ec2 w)) = calls w @ [req]"
    and "ec2 (calls w) req = Inl e"
  shows "if isinstance e ClientError
         then fst (create_instance ec2 w) = Inr ()
            \<and> (\<exists>before. stdout (snd (create_instance ec2 w))
                 = before @ [Print (lit ''\<newline>Error: Failed to create instance.''),
                             Print (lit ''Details: '' @ str_exn e), Print (rule 70)])
         else fst (create_instance ec2 w) = Inl e"
proof -
  let ?p1 = "lit ''AMI ID (example for us-west-2 AL2023: ami-0b8c6b923777519db): ''"
  let ?p2 = "lit ''Instance type (Free Tier: t2.micro or t3.micro): ''"
  define w1 where "w1 = w\<lparr>stdout := stdout w @ map Print
     [lit ''\<newline>'' @ rule 70, lit ''Create EC2 Instance'', rule 70,
      lit ''Note: Use Free Tier eligible options (t2.micro or t3.micro)'', []]\<rparr>"
  define report where "report = (\<lambda>response.
        bind_io (lift_res
                   (bind_res (subscript_key response (lit ''Instances'')) (\<lambda>is.
                    bind_res (subscript_index is 0) (\<lambda>i.
                    subscript_key i (lit ''InstanceId''))))) (\<lambda>instance_id.
        prints [lit ''\<newline>Success: Instance created with ID: '' @ py_str instance_id,
                rule 70]))"
  define try_block where "try_block = (\<lambda>ami_id instance_type.
     except_ClientError
       (bind_io (remote_call ec2 (RunInstances ami_id instance_type 1 1)) report)
       (\<lambda>exc. prints [lit ''\<newline>Error: Failed to create instance.'', lit ''Details: '' @ exc,
                       rule 70]))"
  define after_ami where "after_ami = (\<lambda>ami_id.
     bind_io (prompt_non_empty ?p2) (\<lambda>instance_type. try_block ami_id instance_type))"
  have unfold: "create_instance ec2 w = bind_io (prompt_non_empty ?p1) after_ami w1"
    unfolding create_instance_def after_ami_def try_block_def report_def
    by (simp only: seq_prints w1_def [symmetric])
  have c1: "calls w1 = calls w" by (simp add: w1_def)
  have report_calls: "calls (snd (report response u)) = calls u" for response u
    unfolding report_def
    by (cases "bind_res (subscript_key response (lit ''Instances'')) (\<lambda>is.
                    bind_res (subscript_index is 0) (\<lambda>i.
                    subscript_key i (lit ''InstanceId'')))")
       (simp_all add: bind_io_def lift_res_def prints_def)
  from prompt_non_empty_cases [of ?p1 w1] show ?thesis
  proof (elim disjE exE conjE)
    fix m v
    assume "prompt_non_empty ?p1 w1 = (Inl (exception EOFError m), v)"
      and "calls v = calls w1"
    with assms(1) show ?thesis by (simp add: unfold bind_io_def c1)
  next
    fix a v
    assume r1: "prompt_non_empty ?p1 w1 = (Inr a, v)" and cv: "calls v = calls w1"
    have b1: "create_instance ec2 w = after_ami a v"
      unfolding unfold by (rule bind_prompt [OF r1])
    from prompt_non_empty_cases [of ?p2 v] show ?thesis
    proof (elim disjE exE conjE)
      fix m u
      assume "prompt_non_empty ?p2 v = (Inl (exception EOFError m), u)"
        and "calls u = calls v"
      with assms(1) show ?thesis by (simp add: b1 after_ami_def bind_io_def c1 cv)
    next
      fix t u
      assume r2: "prompt_non_empty ?p2 v = (Inr t, u)" and cu: "calls u = calls v"
      have b2: "create_instance ec2 w = try_block a t u"
        unfolding b1 after_ami_def by (rule bind_prompt [OF r2])
      have c: "calls u = calls w" by (simp add: cu cv c1)
      have "calls (snd (try_block a t u)) = calls w @ [RunInstances a t 1 1]"
        unfolding try_block_def by (simp only: try_bind_request_calls [OF report_calls] c)
      with assms(1) have req: "req = RunInstances a t 1 1" by (simp add: b2)
      have "try_block a t u
              = (if isinstance e ClientError
                 then (Inr (), u\<lparr>stdout := stdout u @ map Print
                         [lit ''\<newline>Error: Failed to create instance.'',
                          lit ''Details: '' @ str_exn e, rule 70],
                       calls := calls u @ [RunInstances a t 1 1]\<rparr>)
                 else (Inl e, u\<lparr>calls := calls u @ [RunInstances a t 1 1]\<rparr>))"
        unfolding try_block_def using assms(2)
        by (intro try_bind_request_failure) (simp add: c req)
      then show ?thesis
        unfolding b2 by (auto simp: req)
    qed
  qed
qed

text \<open>
  Claim C6, as amended. Each of the six handlers (list, create, stop, start, reboot,
  terminate) sends at most one request. Let the handler send its request and let the
  remote call raise an exception. When the exception is a \<^verbatim>\<open>ClientError\<close>, it is
  caught inside the handler: the handler returns normally, and the last lines it prints
  name the operation that failed (and, for the four operations on one instance, the
  instance) and give the text of the error. When the exception is not a
  \<^verbatim>\<open>ClientError\<close>, the handler does not catch it: the handler ends by raising this
  exception to its caller.
\<close>

theorem handlers_catch_only_ClientError:
  assumes "ec2 (calls w) req = Inl e"
  shows "(calls (snd (list_instances ec2 state_filter w)) = calls w @ [req] \<longrightarrow>
          (if isinstance e ClientError
           then fst (list_instances ec2 state_filter w) = Inr ()
              \<and> (\<exists>before. stdout (snd (list_instances ec2 state_filter w))
                   = before @ [Print (lit ''\<newline>Error: Failed to list instances.''),
                               Print (lit ''Details: '' @ str_exn e)])
           else fst (list_instances ec2 state_filter w) = Inl e))
       \<and> (calls (snd (create_instance ec2 w)) = calls w @ [req] \<longrightarrow>
          (if isinstance e ClientError
           then fst (create_instance ec2 w) = Inr ()
              \<and> (\<exists>before. stdout (snd (create_instance ec2 w))
                   = before @ [Print (lit ''\<newline>Error: Failed to create instance.''),
                               Print (lit ''Details: '' @ str_exn e), Print (rule 70)])
           else fst (create_instance ec2 w) = Inl e))
       \<and> (calls (snd (stop_instance ec2 w)) = calls w @ [req] \<longrightarrow>
          (if isinstance e ClientError
           then fst (stop_instance ec2 w) = Inr ()
              \<and> (\<exists>i before. req = StopInstances [i]
                   \<and> stdout (snd (stop_instance ec2 w))
                   = before @ [Print (lit ''\<newline>Error: Failed to stop instance '' @ i),
                               Print (lit ''Details: '' @ str_exn e), Print (rule 70)])
           else fst (stop_instance ec2 w) = Inl e))
       \<and> (calls (snd (start_instance ec2 w)) = calls w @ [req] \<longrightarrow>
          (if isinstance e ClientError
           then fst (start_instance ec2 w) = Inr ()
              \<and> (\<exists>i before. req = StartInstances [i]
                   \<and> stdout (snd (start_instance ec2 w))
                   = before @ [Print (lit ''\<newline>Error: Failed to start instance '' @ i),
                               Print (lit ''Details: '' @ str_exn e), Print (rule 70)])
           else fst (start_instance ec2 w) = Inl e))
       \<and> (calls (snd (reboot_instance ec2 w)) = calls w @ [req] \<longrightarrow>
          (if isinstance e ClientError
           then fst (reboot_instance ec2 w) = Inr ()
              \<and> (\<exists>i before. req = RebootInstances [i]
                   \<and> stdout (snd (reboot_instance ec2 w))
                   = before @ [Print (lit ''\<newline>Error: Failed to reboot instance '' @ i),
                               Print (lit ''Details: '' @ str_exn e), Print (rule 70)])
           else fst (reboot_instance ec2 w) = Inl e))
       \<and> (calls (snd (terminate_instance ec2 w)) = calls w @ [req] \<longrightarrow>
          (if isinstance e ClientError
           then fst (terminate_instance ec2 w) = Inr ()
              \<and> (\<exists>i before. req = TerminateInstances [i]
                   \<and> stdout (snd (terminate_instance ec2 w))
                   = before @ [Print (lit ''\<newline>Error: Failed to terminate instance '' @ i),
                               Print (lit ''Details: '' @ str_exn e), Print (rule 70)])
           else fst (terminate_instance ec2 w) = Inl e))"
proof (intro conjI impI)
  assume "calls (snd (list_instances ec2 state_filter w)) = calls w @ [req]"
  then show "if isinstance e ClientError
             then fst (list_instances ec2 state_filter w) = Inr ()
                \<and> (\<exists>before. stdout (snd (list_instances ec2 state_filter w))
                     = before @ [Print (lit ''\<newline>Error: Failed to list instances.''),
                                 Print (lit ''Details: '' @ str_exn e)])
             else fst (list_instances ec2 state_filter w) = Inl e"
    using assms by (rule list_failure)
next
  assume "calls (snd (create_instance ec2 w)) = calls w @ [req]"
  then show "if isinstance e ClientError
             then fst (create_instance ec2 w) = Inr ()
                \<and> (\<exists>before. stdout (snd (create_instance ec2 w))
                     = before @ [Print (lit ''\<newline>Error: Failed to create instance.''),
                                 Print (lit ''Details: '' @ str_exn e), Print (rule 70)])
             else fst (create_instance ec2 w) = Inl e"
    using assms by (rule create_failure)
next
  assume "calls (snd (stop_instance ec2 w)) = calls w @ [req]"
  then show "if isinstance e ClientError
             then fst (stop_instance ec2 w) = Inr ()
                \<and> (\<exists>i before. req = StopInstances [i]
                   \<and> stdout (snd (stop_instance ec2 w))
                     = before @ [Print (lit ''\<newline>Error: Failed to stop instance '' @ i),
                                 Print (lit ''Details: '' @ str_exn e), Print (rule 70)])
             else fst (stop_instance ec2 w) = Inl e"
    using assms by (rule stop_failure)
next
  assume "calls (snd (start_instance ec2 w)) = calls w @ [req]"
  then show "if isinstance e ClientError
             then fst (start_instance ec2 w) = Inr ()
                \<and> (\<exists>i before. req = StartInstances [i]
                   \<and> stdout (snd (start_instance ec2 w))
                     = before @ [Print (lit ''\<newline>Error: Failed to start instance '' @ i),
                                 Print (lit ''Details: '' @ str_exn e), Print (rule 70)])
             else fst (start_instance ec2 w) = Inl e"
    using assms by (rule start_failure)
next
  assume "calls (snd (reboot_instance ec2 w)) = calls w @ [req]"
  then show "if isinstance e ClientError
             then fst (reboot_instance ec2 w) = Inr ()
                \<and> (\<exists>i before. req = RebootInstances [i]
                   \<and> stdout (snd (reboot_instance ec2 w))
                     = before @ [Print (lit ''\<newline>Error: Failed to reboot instance '' @ i),
                                 Print (lit ''Details: '' @ str_exn e), Print (rule 70)])
             else fst (reboot_instance ec2 w) = Inl e"
    using assms by (rule reboot_failure)
next
  assume "calls (snd (terminate_instance ec2 w)) = calls w @ [req]"
  then show "if isinstance e ClientError
             then fst (terminate_instance ec2 w) = Inr ()
                \<and> (\<exists>i before. req = TerminateInstances [i]
                   \<and> stdout (snd (terminate_instance ec2 w))
                     = before @ [Print (lit ''\<newline>Error: Failed to terminate instance '' @ i),
                                 Print (lit ''Details: '' @ str_exn e), Print (rule 70)])
             else fst (terminate_instance ec2 w) = Inl e"
    using assms by (rule terminate_failure)
qed

lemma prompt_non_empty_Nil:
  "prompt_non_empty p \<lparr>stdin = [], stdout = out, calls = cs\<rparr>
     = (Inl (exception EOFError (lit ''EOF when reading a line'')),
        \<lparr>stdin = [], stdout = out @ [Prompt p], calls = cs\<rparr>)"
  by (simp add: prompt_non_empty_eof)

lemma prompt_non_empty_Cons:
  "prompt_non_empty p \<lparr>stdin = l # ls, stdout = out, calls = cs\<rparr>
     = (if strip l \<noteq> []
        then (Inr (strip l), \<lparr>stdin = ls, stdout = out @ [Prompt p], calls = cs\<rparr>)
        else prompt_non_empty p
               \<lparr>stdin = ls,
                stdout = out @ [Prompt p,
                                Print (lit ''Error: This value is required. Please try again.'')],
                calls = cs\<rparr>)"
  by (simp add: prompt_non_empty_value prompt_non_empty_blank)

lemmas run_handler =
  prompt_non_empty_Nil prompt_non_empty_Cons bind_io_def py_input_def try_request

theorem handlers_catch_only_ClientError_witness:
  "fst (list_instances
          (\<lambda>history request. Inl (exception ClientError (lit ''An error occurred (AuthFailure)''))) None
          \<lparr>stdin = [], stdout = [], calls = []\<rparr>) = Inr ()
   \<and> fst (create_instance
          (\<lambda>history request. Inl (exception ClientError (lit ''An error occurred (AuthFailure)'')))
          \<lparr>stdin = [lit ''ami-invalid'', lit ''t2.micro''], stdout = [], calls = []\<rparr>) = Inr ()
   \<and> fst (stop_instance
          (\<lambda>history request. Inl (exception ClientError (lit ''An error occurred (AuthFailure)'')))
          \<lparr>stdin = [lit ''i-123''], stdout = [], calls = []\<rparr>) = Inr ()
   \<and> (\<exists>before. stdout (snd (stop_instance
          (\<lambda>history request. Inl (exception ClientError (lit ''An error occurred (AuthFailure)'')))
          \<lparr>stdin = [lit ''i-123''], stdout = [], calls = []\<rparr>))
        = before @ [Print (lit ''\<newline>Error: Failed to stop instance i-123''),
                    Print (lit ''Details: An error occurred (AuthFailure)''), Print (rule 70)])
   \<and> fst (start_instance
          (\<lambda>history request. Inl (exception ClientError (lit ''An error occurred (AuthFailure)'')))
          \<lparr>stdin = [lit ''i-123''], stdout = [], calls = []\<rparr>) = Inr ()
   \<and> fst (reboot_instance
          (\<lambda>history request. Inl (exception ClientError (lit ''An error occurred (AuthFailure)'')))
          \<lparr>stdin = [lit ''i-123''], stdout = [], calls = []\<rparr>) = Inr ()
   \<and> fst (terminate_instance
          (\<lambda>history request. Inl (exception ClientError (lit ''An error occurred (AuthFailure)'')))
          \<lparr>stdin = [lit ''i-123'', lit ''yes''], stdout = [], calls = []\<rparr>) = Inr ()
   \<and> fst (list_instances
          (\<lambda>history request. Inl (exception BotoCoreError (lit ''Could not connect to the endpoint URL''))) None
          \<lparr>stdin = [], stdout = [], calls = []\<rparr>)
        = Inl (exception BotoCoreError (lit ''Could not connect to the endpoint URL''))
   \<and> fst (create_instance
          (\<lambda>history request. Inl (exception BotoCoreError (lit ''Could not connect to the endpoint URL'')))
          \<lparr>stdin = [lit ''ami-invalid'', lit ''t2.micro''], stdout = [], calls = []\<rparr>)
        = Inl (exception BotoCoreError (lit ''Could not connect to the endpoint URL''))
   \<and> fst (stop_instance
          (\<lambda>history request. Inl (exception BotoCoreError (lit ''Could not connect to the endpoint URL'')))
          \<lparr>stdin = [lit ''i-123''], stdout = [], calls = []\<rparr>)
        = Inl (exception BotoCoreError (lit ''Could not connect to the endpoint URL''))
   \<and> fst (start_instance
          (\<lambda>history request. Inl (exception BotoCoreError (lit ''Could not connect to the endpoint URL'')))
          \<lparr>stdin = [lit ''i-123''], stdout = [], calls = []\<rparr>)
        = Inl (exception BotoCoreError (lit ''Could not connect to the endpoint URL''))
   \<and> fst (reboot_instance
          (\<lambda>history request. Inl (exception BotoCoreError (lit ''Could not connect to the endpoint URL'')))
          \<lparr>stdin = [lit ''i-123''], stdout = [], calls = []\<rparr>)
        = Inl (exception BotoCoreError (lit ''Could not connect to the endpoint URL''))
   \<and> fst (terminate_instance
          (\<lambda>history request. Inl (exception BotoCoreError (lit ''Could not connect to the endpoint URL'')))
          \<lparr>stdin = [lit ''i-123'', lit ''yes''], stdout = [], calls = []\<rparr>)
        = Inl (exception BotoCoreError (lit ''Could not connect to the endpoint URL''))"
proof -
  have strips [simp]:
    "strip (lit ''i-123'') = lit ''i-123''" "strip (lit ''ami-invalid'') = lit ''ami-invalid''"
    "strip (lit ''t2.micro'') = lit ''t2.micro''" "lower (strip (lit ''yes'')) = lit ''yes''"
    by (simp_all add: strip_eval lower_below)
  have sent:
    "calls (snd (list_instances ec2 None \<lparr>stdin = [], stdout = [], calls = []\<rparr>))
       = calls \<lparr>stdin = [], stdout = [], calls = []\<rparr> @ [DescribeInstances None]"
    "calls (snd (create_instance ec2 \<lparr>stdin = [lit ''ami-invalid'', lit ''t2.micro''], stdout = [], calls = []\<rparr>))
       = calls \<lparr>stdin = [lit ''ami-invalid'', lit ''t2.micro''], stdout = [], calls = []\<rparr>
         @ [RunInstances (lit ''ami-invalid'') (lit ''t2.micro'') 1 1]"
    "calls (snd (stop_instance ec2 \<lparr>stdin = [lit ''i-123''], stdout = [], calls = []\<rparr>))
       = calls \<lparr>stdin = [lit ''i-123''], stdout = [], calls = []\<rparr> @ [StopInstances [lit ''i-123'']]"
    "calls (snd (start_instance ec2 \<lparr>stdin = [lit ''i-123''], stdout = [], calls = []\<rparr>))
       = calls \<lparr>stdin = [lit ''i-123''], stdout = [], calls = []\<rparr> @ [StartInstances [lit ''i-123'']]"
    "calls (snd (reboot_instance ec2 \<lparr>stdin = [lit ''i-123''], stdout = [], calls = []\<rparr>))
       = calls \<lparr>stdin = [lit ''i-123''], stdout = [], calls = []\<rparr> @ [RebootInstances [lit ''i-123'']]"
    "calls (snd (terminate_instance ec2 \<lparr>stdin = [lit ''i-123'', lit ''yes''], stdout = [], calls = []\<rparr>))
       = calls \<lparr>stdin = [lit ''i-123'', lit ''yes''], stdout = [], calls = []\<rparr>
         @ [TerminateInstances [lit ''i-123'']]"
    for ec2
    by (simp_all add: list_instances_calls falsy_def create_instance_def stop_instance_def
          start_instance_def reboot_instance_def terminate_instance_def run_handler
          try_bind_request_calls lift_res_def prints_def split: sum.splits)
  from handlers_catch_only_ClientError
      [of "\<lambda>history request. Inl (exception ClientError (lit ''An error occurred (AuthFailure)''))"
          "\<lparr>stdin = [], stdout = [], calls = []\<rparr>"
          "DescribeInstances None"
          "exception ClientError (lit ''An error occurred (AuthFailure)'')" None]
    handlers_catch_only_ClientError
      [of "\<lambda>history request. Inl (exception ClientError (lit ''An error occurred (AuthFailure)''))"
          "\<lparr>stdin = [lit ''ami-invalid'', lit ''t2.micro''], stdout = [], calls = []\<rparr>"
          "RunInstances (lit ''ami-invalid'') (lit ''t2.micro'') 1 1"
          "exception ClientError (lit ''An error occurred (AuthFailure)'')" None]
    handlers_catch_only_ClientError
      [of "\<lambda>history request. Inl (exception ClientError (lit ''An error occurred (AuthFailure)''))"
          "\<lparr>stdin = [lit ''i-123''], stdout = [], calls = []\<rparr>"
          "StopInstances [lit ''i-123'']"
          "exception ClientError (lit ''An error occurred (AuthFailure)'')" None]
    handlers_catch_only_ClientError
      [of "\<lambda>history request. Inl (exception ClientError (lit ''An error occurred (AuthFailure)''))"
          "\<lparr>stdin = [lit ''i-123''], stdout = [], calls = []\<rparr>"
          "StartInstances [lit ''i-123'']"
          "exception ClientError (lit ''An error occurred (AuthFailure)'')" None]
    handlers_catch_only_ClientError
      [of "\<lambda>history request. Inl (exception ClientError (lit ''An error occurred (AuthFailure)''))"
          "\<lparr>stdin = [lit ''i-123''], stdout = [], calls = []\<rparr>"
          "RebootInstances [lit ''i-123'']"
          "exception ClientError (lit ''An error occurred (AuthFailure)'')" None]
    handlers_catch_only_ClientError
      [of "\<lambda>history request. Inl (exception ClientError (lit ''An error occurred (AuthFailure)''))"
          "\<lparr>stdin = [lit ''i-123'', lit ''yes''], stdout = [], calls = []\<rparr>"
          "TerminateInstances [lit ''i-123'']"
          "exception ClientError (lit ''An error occurred (AuthFailure)'')" None]
    handlers_catch_only_ClientError
      [of "\<lambda>history request. Inl (exception BotoCoreError (lit ''Could not connect to the endpoint URL''))"
          "\<lparr>stdin = [], stdout = [], calls = []\<rparr>"
          "DescribeInstances None"
          "exception BotoCoreError (lit ''Could not connect to the endpoint URL'')" None]
    handlers_catch_only_ClientError
      [of "\<lambda>history request. Inl (exception BotoCoreError (lit ''Could not connect to the endpoint URL''))"
          "\<lparr>stdin = [lit ''ami-invalid'', lit ''t2.micro''], stdout = [], calls = []\<rparr>"
          "RunInstances (lit ''ami-invalid'') (lit ''t2.micro'') 1 1"
          "exception BotoCoreError (lit ''Could not connect to the endpoint URL'')" None]
    handlers_catch_only_ClientError
      [of "\<lambda>history request. Inl (exception BotoCoreError (lit ''Could not connect to the endpoint URL''))"
          "\<lparr>stdin = [lit ''i-123''], stdout = [], calls = []\<rparr>"
          "StopInstances [lit ''i-123'']"
          "exception BotoCoreError (lit ''Could not connect to the endpoint URL'')" None]
    handlers_catch_only_ClientError
      [of "\<lambda>history request. Inl (exception BotoCoreError (lit ''Could not connect to the endpoint URL''))"
          "\<lparr>stdin = [lit ''i-123''], stdout = [], calls = []\<rparr>"
          "StartInstances [lit ''i-123'']"
          "exception BotoCoreError (lit ''Could not connect to the endpoint URL'')" None]
    handlers_catch_only_ClientError
      [of "\<lambda>history request. Inl (exception BotoCoreError (lit ''Could not connect to the endpoint URL''))"
          "\<lparr>stdin = [lit ''i-123''], stdout = [], calls = []\<rparr>"
          "RebootInstances [lit ''i-123'']"
          "exception BotoCoreError (lit ''Could not connect to the endpoint URL'')" None]
    handlers_catch_only_ClientError
      [of "\<lambda>history request. Inl (exception BotoCoreError (lit ''Could not connect to the endpoint URL''))"
          "\<lparr>stdin = [lit ''i-123'', lit ''yes''], stdout = [], calls = []\<rparr>"
          "TerminateInstances [lit ''i-123'']"
          "exception BotoCoreError (lit ''Could not connect to the endpoint URL'')" None]
    sent
  show ?thesis by (simp add: isinstance_def exception_def)
qed

text \<open>
  The claim as stated speaks of a failure of any kind. Only \<^verbatim>\<open>ClientError\<close> is caught in
  the handlers: a connection failure, which the remote library raises as a
  \<^verbatim>\<open>BotoCoreError\<close>, leaves \<^verbatim>\<open>stop_instance\<close> as an exception.
\<close>

theorem handlers_catch_only_ClientError_counterexample:
  "fst (stop_instance
          (\<lambda>history request. Inl (exception BotoCoreError (lit ''Could not connect to the endpoint URL'')))
          \<lparr>stdin = [lit ''i-123''], stdout = [], calls = []\<rparr>)
     = Inl (exception BotoCoreError (lit ''Could not connect to the endpoint URL''))"
proof -
  have "strip (lit ''i-123'') = lit ''i-123''"
    by (simp add: strip_eval)
  then show ?thesis
    by (simp add: stop_instance_def run_handler isinstance_def exception_def)
qed

section \<open>Properties of the start-up\<close>

text \<open>
  Claim C7, as amended. Let the start-up fail with an exception that the client factory
  catches: the \<^verbatim>\<open>ValueError\<close> of missing credentials or any other \<^verbatim>\<open>ValueError\<close>, a
  \<^verbatim>\<open>NoCredentialsError\<close>, or any other \<^verbatim>\<open>BotoCoreError\<close> raised when the client is
  constructed. Then the factory prints exactly one line and raises \<^verbatim>\<open>SystemExit(1)\<close>.
  The wording of the line is fixed by the first of the three \<^verbatim>\<open>except\<close> clauses that
  the exception is an instance of: \<^verbatim>\<open>Configuration error:\<close> with the text of the
  exception for a \<^verbatim>\<open>ValueError\<close>, the fixed line on credentials not found for a
  \<^verbatim>\<open>NoCredentialsError\<close>, \<^verbatim>\<open>Unexpected error while creating EC2 client:\<close> with the
  text of the exception otherwise. \<^verbatim>\<open>main\<close> catches the \<^verbatim>\<open>SystemExit\<close> and returns at
  once: nothing is read, no request is sent and nothing else is printed, so no handler
  runs.
\<close>

theorem startup_failure:
  assumes "bind_res (get_aws_credentials environ) (boto3_client (lit ''ec2'')) = Inl e"
      and "isinstance e ValueError \<or> isinstance e NoCredentialsError
           \<or> isinstance e BotoCoreError"
  shows "\<exists>line.
           create_ec2_client environ boto3_client w
             = (Inl (system_exit 1), w\<lparr>stdout := stdout w @ [Print line]\<rparr>)
         \<and> main environ boto3_client w = Some (Inr (), w\<lparr>stdout := stdout w @ [Print line]\<rparr>)
         \<and> (isinstance e ValueError \<longrightarrow> line = lit ''Configuration error: '' @ str_exn e)
         \<and> (\<not> isinstance e ValueError \<and> isinstance e NoCredentialsError \<longrightarrow>
                line = lit (''AWS credentials not found. '' @
                            ''Please run '' @ [CHR 0x27] @ ''aws configure'' @ [CHR 0x27] @
                            '' or set environment variables.''))
         \<and> (\<not> isinstance e ValueError \<and> \<not> isinstance e NoCredentialsError \<longrightarrow>
                line = lit ''Unexpected error while creating EC2 client: '' @ str_exn e)"
proof -
  consider (v) "isinstance e ValueError"
    | (n) "\<not> isinstance e ValueError" "isinstance e NoCredentialsError"
    | (b) "\<not> isinstance e ValueError" "\<not> isinstance e NoCredentialsError"
          "isinstance e BotoCoreError"
    using assms(2) by blast
  then show ?thesis
  proof cases
    case v
    with assms(1)
    have "create_ec2_client environ boto3_client w
            = (Inl (system_exit 1),
               w\<lparr>stdout := stdout w @ [Print (lit ''Configuration error: '' @ str_exn e)]\<rparr>)"
      by (simp add: create_ec2_client_def raise_io_def)
    then show ?thesis
      using v by (simp add: main_def)
  next
    case n
    with assms(1)
    have "create_ec2_client environ boto3_client w
            = (Inl (system_exit 1),
               w\<lparr>stdout := stdout w @
                  [Print (lit (''AWS credentials not found. '' @
                               ''Please run '' @ [CHR 0x27] @ ''aws configure'' @ [CHR 0x27] @
                               '' or set environment variables.''))]\<rparr>)"
      by (simp add: create_ec2_client_def raise_io_def)
    then show ?thesis
      using n by (simp add: main_def)
  next
    case b
    with assms(1)
    have "create_ec2_client environ boto3_client w
            = (Inl (system_exit 1),
               w\<lparr>stdout := stdout w @
                  [Print (lit ''Unexpected error while creating EC2 client: '' @
                          str_exn e)]\<rparr>)"
      by (simp add: create_ec2_client_def raise_io_def)
    then show ?thesis
      using b by (simp add: main_def)
  qed
qed

theorem startup_failure_witness:
  "main Map.empty (\<lambda>service credentials. Inr (\<lambda>history request. Inr JNull))
       \<lparr>stdin = [lit ''1''], stdout = [], calls = []\<rparr>
     = Some (Inr (),
             \<lparr>stdin = [lit ''1''],
              stdout = [Print (lit (''Configuration error: AWS credentials not found. '' @
                  ''Please set AWS_ACCESS_KEY_ID and AWS_SECRET_ACCESS_KEY in your .env file.''))],
              calls = []\<rparr>)
   \<and> main [lit ''AWS_ACCESS_KEY_ID'' \<mapsto> lit ''A'', lit ''AWS_SECRET_ACCESS_KEY'' \<mapsto> lit ''B'']
       (\<lambda>service credentials.
          Inl (exception NoCredentialsError (lit ''Unable to locate credentials'')))
       \<lparr>stdin = [lit ''1''], stdout = [], calls = []\<rparr>
     = Some (Inr (),
             \<lparr>stdin = [lit ''1''],
              stdout = [Print (lit (''AWS credentials not found. '' @
                          ''Please run '' @ [CHR 0x27] @ ''aws configure'' @ [CHR 0x27] @
                          '' or set environment variables.''))],
              calls = []\<rparr>)
   \<and> main [lit ''AWS_ACCESS_KEY_ID'' \<mapsto> lit ''A'', lit ''AWS_SECRET_ACCESS_KEY'' \<mapsto> lit ''B'']
       (\<lambda>service credentials. Inl (exception BotoCoreError (lit ''Unknown service'')))
       \<lparr>stdin = [lit ''1''], stdout = [], calls = []\<rparr>
     = Some (Inr (),
             \<lparr>stdin = [lit ''1''],
              stdout = [Print (lit ''Unexpected error while creating EC2 client: Unknown service'')],
              calls = []\<rparr>)
   \<and> main [lit ''AWS_ACCESS_KEY_ID'' \<mapsto> lit ''A'', lit ''AWS_SECRET_ACCESS_KEY'' \<mapsto> lit ''B'']
       (\<lambda>service credentials.
          Inl (Exn [Class ''InvalidRegionError'', Class ''ValidationError'', BotoCoreError,
                    ValueError, Exception, BaseException]
                 (lit ''Provided region_name does not match a supported format.'') 0))
       \<lparr>stdin = [lit ''1''], stdout = [], calls = []\<rparr>
     = Some (Inr (),
             \<lparr>stdin = [lit ''1''],
              stdout = [Print (lit (''Configuration error: '' @
                          ''Provided region_name does not match a supported format.''))],
              calls = []\<rparr>)"
proof -
  let ?env = "[lit ''AWS_ACCESS_KEY_ID'' \<mapsto> lit ''A'', lit ''AWS_SECRET_ACCESS_KEY'' \<mapsto> lit ''B'']"
  let ?w = "\<lparr>stdin = [lit ''1''], stdout = [], calls = []\<rparr>"
  let ?region = "Exn [Class ''InvalidRegionError'', Class ''ValidationError'', BotoCoreError,
                      ValueError, Exception, BaseException]
                   (lit ''Provided region_name does not match a supported format.'') 0"
  have v: "bind_res (get_aws_credentials Map.empty)
             ((\<lambda>service credentials. Inr (\<lambda>history request. Inr JNull)) (lit ''ec2''))
           = Inl (exception ValueError (lit (''AWS credentials not found. '' @
               ''Please set AWS_ACCESS_KEY_ID and AWS_SECRET_ACCESS_KEY in your .env file.'')))"
    by (simp add: get_aws_credentials_def falsy_def bind_res_def)
  have n: "bind_res (get_aws_credentials ?env)
             ((\<lambda>service credentials.
                 Inl (exception NoCredentialsError (lit ''Unable to locate credentials'')))
              (lit ''ec2''))
           = Inl (exception NoCredentialsError (lit ''Unable to locate credentials''))"
    by (simp add: get_aws_credentials_def falsy_def Let_def bind_res_def)
  have b: "bind_res (get_aws_credentials ?env)
             ((\<lambda>service credentials. Inl (exception BotoCoreError (lit ''Unknown service'')))
              (lit ''ec2''))
           = Inl (exception BotoCoreError (lit ''Unknown service''))"
    by (simp add: get_aws_credentials_def falsy_def Let_def bind_res_def)
  have r: "bind_res (get_aws_credentials ?env)
             ((\<lambda>service credentials. Inl ?region) (lit ''ec2''))
           = Inl ?region"
    by (simp add: get_aws_credentials_def falsy_def Let_def bind_res_def)
  have 1: "main Map.empty (\<lambda>service credentials. Inr (\<lambda>history request. Inr JNull)) ?w
     = Some (Inr (),
             \<lparr>stdin = [lit ''1''],
              stdout = [Print (lit (''Configuration error: AWS credentials not found. '' @
                  ''Please set AWS_ACCESS_KEY_ID and AWS_SECRET_ACCESS_KEY in your .env file.''))],
              calls = []\<rparr>)"
    using startup_failure
            [of Map.empty "\<lambda>service credentials. Inr (\<lambda>history request. Inr JNull)" _ ?w,
             OF v]
    by simp
  have 2: "main ?env
       (\<lambda>service credentials.
          Inl (exception NoCredentialsError (lit ''Unable to locate credentials''))) ?w
     = Some (Inr (),
             \<lparr>stdin = [lit ''1''],
              stdout = [Print (lit (''AWS credentials not found. '' @
                          ''Please run '' @ [CHR 0x27] @ ''aws configure'' @ [CHR 0x27] @
                          '' or set environment variables.''))],
              calls = []\<rparr>)"
    using startup_failure
            [of ?env "\<lambda>service credentials.
                        Inl (exception NoCredentialsError (lit ''Unable to locate credentials''))"
                _ ?w,
             OF n]
    by simp
  have 3: "main ?env
       (\<lambda>service credentials. Inl (exception BotoCoreError (lit ''Unknown service''))) ?w
     = Some (Inr (),
             \<lparr>stdin = [lit ''1''],
              stdout = [Print (lit ''Unexpected error while creating EC2 client: Unknown service'')],
              calls = []\<rparr>)"
    using startup_failure
            [of ?env "\<lambda>service credentials.
                        Inl (exception BotoCoreError (lit ''Unknown service''))" _ ?w,
             OF b]
    by simp
  have 4: "main ?env (\<lambda>service credentials. Inl ?region) ?w
     = Some (Inr (),
             \<lparr>stdin = [lit ''1''],
              stdout = [Print (lit (''Configuration error: '' @
                          ''Provided region_name does not match a supported format.''))],
              calls = []\<rparr>)"
    using startup_failure [of ?env "\<lambda>service credentials. Inl ?region" _ ?w, OF r]
    by (simp add: isinstance_def)
  from 1 2 3 4 show ?thesis by (intro conjI)
qed

text \<open>
  The claim as stated has the factory abort the process with exit code 1. With no
  credentials in the environment the factory raises \<^verbatim>\<open>SystemExit(1)\<close>, but \<^verbatim>\<open>main\<close>
  catches it and returns normally, and the exit status of the module is 0.
\<close>

theorem startup_failure_counterexample:
  "map_option fst
     (run_module Map.empty (\<lambda>service credentials. Inr (\<lambda>history request. Inr JNull))
        \<lparr>stdin = [], stdout = [], calls = []\<rparr>) = Some 0"
  by (simp add: run_module_def main_def create_ec2_client_def get_aws_credentials_def
                falsy_def raise_io_def bind_res_def exit_status_def)

end
